theory Spec2Isabelle
  imports Complex_Main
begin

section \<open>Values, roles and errors shared by the controllers\<close>

text \<open>
  Request queries and bodies are JavaScript objects: a property is either absent
  (\<open>undefined\<close>, modelled as \<open>None\<close>) or holds a value.  The values that the
  Express query parser and the database hand to the controllers are strings, numbers,
  booleans, arrays and nested objects.  Numbers are exact rationals: the rounding of
  IEEE doubles is not modelled.
\<close>

datatype jsval =
    JStr string
  | JNum rat
  | JBool bool
  | JNaN
  | JArr "jsval list"
  | JObj "(string \<times> jsval) list"

text \<open>JavaScript truthiness, as used by every \<open>if (x)\<close> of the controllers.\<close>

fun truthy :: "jsval \<Rightarrow> bool" where
  "truthy (JStr s) = (s \<noteq> [])"
| "truthy (JNum n) = (n \<noteq> 0)"
| "truthy (JBool b) = b"
| "truthy JNaN = False"
| "truthy (JArr xs) = True"
| "truthy (JObj kvs) = True"

fun truthyOpt :: "jsval option \<Rightarrow> bool" where
  "truthyOpt None = False"
| "truthyOpt (Some v) = truthy v"

type_synonym jsobj = "string \<rightharpoonup> jsval"

text \<open>The \<open>role\<close> enum of the User schema: \<open>['student', 'teacher', 'admin']\<close>.\<close>

datatype role = Student | Teacher | Admin

type_synonym oid = nat

text \<open>
  \<open>ErrorResponse message status\<close> is the error class thrown by the controllers;
  \<open>TypeError\<close> is the JavaScript error of reading a property of \<open>undefined\<close>;
  \<open>ValidationError\<close> is a rejected schema validation; \<open>DuplicateKey\<close> is an insert
  under an identifier that is already taken; \<open>DatabaseError\<close> is a query the
  database refuses; \<open>SyntaxError\<close> is thrown by \<open>JSON.parse\<close>; \<open>CastError\<close> is
  a value of an update that the object mapper cannot cast to the type of its field.
\<close>

datatype error =
    ErrorResponse string nat
  | TypeError
  | ValidationError
  | DuplicateKey
  | DatabaseError
  | SyntaxError
  | CastError

text \<open>The authenticated user attached to the request (\<open>req.user\<close>).\<close>

record user_data =
  branch :: "jsval option"
  year :: "jsval option"
  semester :: "jsval option"

record actor = user_data +
  uid :: oid
  role :: role

section \<open>Resource visibility filter (utils/filterQuery: filterEducationalResources)\<close>

text \<open>
  \<open>parseInt\<close> is the JavaScript built-in; the filter only stores its result, so it is
  taken as a parameter.  The filter object starts empty and receives at most the four
  keys \<open>branch\<close>, \<open>year\<close>, \<open>semester\<close> and \<open>subject\<close>.
\<close>

definition filterEducationalResources ::
  "(jsval \<Rightarrow> jsval) \<Rightarrow> jsobj \<Rightarrow> role \<Rightarrow> 'a user_data_scheme \<Rightarrow> jsobj" where
  "filterEducationalResources parseInt query userRole userData =
    (let filter0 = Map.empty;
         filter1 =
           (if truthyOpt (query ''branch'') then filter0(''branch'' := query ''branch'')
            else if userRole = Student \<and> truthyOpt (branch userData)
              then filter0(''branch'' := branch userData)
            else filter0);
         filter2 =
           (if truthyOpt (query ''year'')
              then filter1(''year'' := map_option parseInt (query ''year''))
            else if userRole = Student \<and> truthyOpt (year userData)
              then filter1(''year'' := year userData)
            else filter1);
         filter3 =
           (if truthyOpt (query ''semester'')
              then filter2(''semester'' := map_option parseInt (query ''semester''))
            else if userRole = Student \<and> truthyOpt (semester userData)
              then filter2(''semester'' := semester userData)
            else filter2);
         filter4 =
           (if truthyOpt (query ''subject'') then filter3(''subject'' := query ''subject'')
            else filter3)
     in filter4)"

text \<open>
  The listing controllers (getNotes, getSyllabi, getVideos, getPYQs) all build the
  filter from the request's query and the requesting user's role and profile.
\<close>

definition resourceFilter :: "(jsval \<Rightarrow> jsval) \<Rightarrow> jsobj \<Rightarrow> actor \<Rightarrow> jsobj" where
  "resourceFilter parseInt query user =
     filterEducationalResources parseInt query (role user)
       \<lparr> branch = branch user, year = year user, semester = semester user \<rparr>"

text \<open>\<open>{ ...req.query, ...resourceFilter }\<close>: the filter's keys win.\<close>

definition mergedQuery :: "(jsval \<Rightarrow> jsval) \<Rightarrow> jsobj \<Rightarrow> actor \<Rightarrow> jsobj" where
  "mergedQuery parseInt query user = query ++ resourceFilter parseInt query user"

section \<open>Collections and update operators of the document database\<close>

text \<open>
  A collection is the list of its documents in insertion order; every document carries
  its \<open>_id\<close>.  \<open>findById\<close> returns the first document with the identifier,
  \<open>findByIdAndUpdate\<close> rewrites that same document and leaves the others alone.
\<close>

definition findById :: "('d \<Rightarrow> oid) \<Rightarrow> 'd list \<Rightarrow> oid \<Rightarrow> 'd option" where
  "findById idOf docs i = find (\<lambda>d. idOf d = i) docs"

fun findByIdAndUpdate :: "('d \<Rightarrow> oid) \<Rightarrow> 'd list \<Rightarrow> oid \<Rightarrow> ('d \<Rightarrow> 'd) \<Rightarrow> 'd list" where
  "findByIdAndUpdate idOf [] i f = []"
| "findByIdAndUpdate idOf (d # ds) i f =
     (if idOf d = i then f d # ds else d # findByIdAndUpdate idOf ds i f)"

fun deleteOne :: "('d \<Rightarrow> oid) \<Rightarrow> 'd list \<Rightarrow> oid \<Rightarrow> 'd list" where
  "deleteOne idOf [] i = []"
| "deleteOne idOf (d # ds) i = (if idOf d = i then ds else d # deleteOne idOf ds i)"

text \<open>
  Casting and validating a document against its schema is the work of the object
  mapper; its verdict on the document at hand is the flag \<open>valid\<close> that comes with
  every request that creates or saves a document.

  \<open>create\<close> inserts a document under the identifier the database generated for it.
  The schema validators run first; an identifier already in use is a duplicate-key error.
\<close>

definition create :: "('d \<Rightarrow> oid) \<Rightarrow> bool \<Rightarrow> 'd list \<Rightarrow> 'd \<Rightarrow> error + 'd list" where
  "create idOf valid docs d =
     (if \<not> valid then Inl ValidationError
      else if findById idOf docs (idOf d) \<noteq> None then Inl DuplicateKey
      else Inr (docs @ [d]))"

text \<open>\<open>$addToSet\<close> with \<open>$each\<close>: append every value that is not yet in the array.\<close>

fun addToSet :: "'a list \<Rightarrow> 'a list \<Rightarrow> 'a list" where
  "addToSet arr [] = arr"
| "addToSet arr (x # xs) = addToSet (if x \<in> set arr then arr else arr @ [x]) xs"


section \<open>Community controller: chats\<close>

record chat =
  chat_id :: oid
  chatName :: "jsval option"
  isGroupChat :: bool
  users :: "oid list"
  latestMessage :: "oid option"
  groupAdmin :: "oid option"
  isPublic :: bool
  chat_subject :: "jsval option"
  chat_branch :: "jsval option"
  chat_year :: "jsval option"
  chat_semester :: "jsval option"






definition addToGroup :: "chat list \<Rightarrow> actor \<Rightarrow> oid \<Rightarrow> oid list option \<Rightarrow> error + chat list" where
  "addToGroup chats user cid usersBody =
     (case usersBody of
        None \<Rightarrow> Inl (ErrorResponse ''Please provide an array of user IDs'' 400)
      | Some ids \<Rightarrow>
          (case findById chat_id chats cid of
             None \<Rightarrow> Inl (ErrorResponse ''Chat not found'' 404)
           | Some c \<Rightarrow>
               (case groupAdmin c of
                  None \<Rightarrow> Inl TypeError
                | Some ga \<Rightarrow>
                    if ga \<noteq> uid user \<and> role user \<noteq> Admin
                      then Inl (ErrorResponse ''Not authorized to add users to this group'' 403)
                    else Inr (findByIdAndUpdate chat_id chats cid
                                (\<lambda>d. d\<lparr> users := addToSet (users d) ids \<rparr>)))))"





subsection \<open>The chat requests as a state machine\<close>















section \<open>Community controller: messages\<close>

record attachment =
  fileUrl :: "jsval option"
  filePath :: "jsval option"
  fileType :: "jsval option"
  fileName :: "jsval option"
  fileSize :: "jsval option"

record message =
  msg_id :: oid
  sender :: oid
  msg_content :: jsval
  msg_chat :: oid
  readBy :: "oid list"
  attachments :: "attachment list"
  isDeleted :: bool

text \<open>
  \<open>parseInt(req.query.page) || 1\<close>: the parsed number, or the default when it is
  \<open>NaN\<close> (modelled as \<open>None\<close>) or zero.
\<close>

definition orDefault :: "int option \<Rightarrow> int \<Rightarrow> int" where
  "orDefault parsed dflt = (case parsed of None \<Rightarrow> dflt | Some n \<Rightarrow> if n = 0 then dflt else n)"

text \<open>
  getMessages answers with one page of the chat's messages, newest first in the query and
  reversed for the response, and then marks every message of the chat that the user has
  not read as read.  The collection is in creation order, so sorting by \<open>-createdAt\<close>
  is reversal.  The database refuses a negative skip and reads a negative limit as its
  absolute value.  The result is the page and the collection after the marking.
\<close>

definition getMessages ::
  "chat list \<Rightarrow> message list \<Rightarrow> actor \<Rightarrow> oid \<Rightarrow> int option \<Rightarrow> int option
     \<Rightarrow> error + (message list \<times> message list)" where
  "getMessages chats messages user chatId pageParam limitParam =
     (case findById chat_id chats chatId of
        None \<Rightarrow> Inl (ErrorResponse ''Chat not found'' 404)
      | Some c \<Rightarrow>
          if uid user \<notin> set (users c)
            then Inl (ErrorResponse ''Not authorized to access this chat'' 403)
          else
            let page = orDefault pageParam 1;
                limit = orDefault limitParam 50;
                skip = (page - 1) * limit
            in if skip < 0 then Inl DatabaseError
               else
                 let found = take (nat \<bar>limit\<bar>) (drop (nat skip)
                               (rev (filter (\<lambda>m. msg_chat m = chatId) messages)));
                     marked = map (\<lambda>m. if msg_chat m = chatId \<and> uid user \<notin> set (readBy m)
                                          then m\<lparr> readBy := addToSet (readBy m) [uid user] \<rparr>
                                          else m) messages
                 in Inr (rev found, marked))"

text \<open>
  The \<open>$group\<close> stage of the aggregation: one entry per distinct chat among the matched
  messages, with the number of matched messages of that chat.
\<close>

fun bump :: "oid \<Rightarrow> (oid \<times> nat) list \<Rightarrow> (oid \<times> nat) list" where
  "bump k [] = [(k, 1)]"
| "bump k ((k', n) # rest) = (if k' = k then (k', n + 1) # rest else (k', n) # bump k rest)"

fun groupByChat :: "message list \<Rightarrow> (oid \<times> nat) list \<Rightarrow> (oid \<times> nat) list" where
  "groupByChat [] acc = acc"
| "groupByChat (m # ms) acc = groupByChat ms (bump (msg_chat m) acc)"

record unread_result =
  totalUnread :: nat
  unreadByChat :: "oid \<rightharpoonup> nat"

definition getUnreadCount :: "chat list \<Rightarrow> message list \<Rightarrow> actor \<Rightarrow> unread_result" where
  "getUnreadCount chats messages user =
     (let userChats = filter (\<lambda>c. uid user \<in> set (users c)) chats;
          chatIds = map chat_id userChats;
          matched = filter (\<lambda>m. msg_chat m \<in> set chatIds \<and> sender m \<noteq> uid user \<and>
                                 uid user \<notin> set (readBy m) \<and> isDeleted m \<noteq> True) messages;
          unreadCounts = groupByChat matched [];
          byChat = foldl (\<lambda>obj item. obj(fst item \<mapsto> snd item)) Map.empty unreadCounts;
          total = foldl (\<lambda>acc item. acc + snd item) 0 unreadCounts
      in \<lparr> totalUnread = total, unreadByChat = byChat \<rparr>)"

text \<open>
  deleteMessage is a soft delete: the document stays, flagged and with its content
  replaced.  Removing the attachment files from storage is outside the model.
\<close>

definition deleteMessage :: "bool \<Rightarrow> message list \<Rightarrow> actor \<Rightarrow> oid \<Rightarrow> error + message list" where
  "deleteMessage valid messages user mid =
     (case findById msg_id messages mid of
        None \<Rightarrow> Inl (ErrorResponse ''Message not found'' 404)
      | Some m \<Rightarrow>
          if sender m \<noteq> uid user \<and> role user \<noteq> Admin
            then Inl (ErrorResponse ''Not authorized to delete this message'' 403)
          else
            let m1 = m\<lparr> isDeleted := True \<rparr>;
                m2 = (if attachments m1 \<noteq> []
                        then m1\<lparr> msg_content := JStr ''[Attachments removed]'', attachments := [] \<rparr>
                      else m1\<lparr> msg_content := JStr ''[Message deleted]'' \<rparr>)
            in if \<not> valid then Inl ValidationError
               else Inr (findByIdAndUpdate msg_id messages mid (\<lambda>d. m2)))"

text \<open>
  The unread messages of a user in one chat, in the words of the specification: the
  chat has the user as a member, the sender is someone else, the user is not in
  \<open>readBy\<close>, and the message is not soft-deleted.
\<close>

definition isUnreadFor :: "chat list \<Rightarrow> oid \<Rightarrow> message \<Rightarrow> bool" where
  "isUnreadFor chats u m =
     ((\<exists>c \<in> set chats. chat_id c = msg_chat m \<and> u \<in> set (users c)) \<and>
      sender m \<noteq> u \<and> u \<notin> set (readBy m) \<and> \<not> isDeleted m)"

definition unreadIn :: "chat list \<Rightarrow> message list \<Rightarrow> oid \<Rightarrow> oid \<Rightarrow> nat" where
  "unreadIn chats messages u cid =
     length (filter (\<lambda>m. msg_chat m = cid \<and> isUnreadFor chats u m) messages)"

text \<open>The count recorded for a key in a list of (key, count) entries; zero when absent.\<close>

definition cnt :: "(oid \<times> nat) list \<Rightarrow> oid \<Rightarrow> nat" where
  "cnt acc k = (case map_of acc k of None \<Rightarrow> 0 | Some n \<Rightarrow> n)"

section \<open>Content items\<close>

text \<open>
  The four content schemas share their descriptive fields, the owner reference
  \<open>uploadedBy\<close> and the view counter.  Note, Video and PYQ also carry
  \<open>isVerified\<close>; the Syllabus schema has no such field.  Descriptive fields hold the
  value as it was sent; casting them is part of the validation verdict.
\<close>

record item =
  item_id :: oid
  title :: "jsval option"
  description :: "jsval option"
  subject :: "jsval option"
  item_branch :: "jsval option"
  item_year :: "jsval option"
  item_semester :: "jsval option"
  uploadedBy :: oid
  views :: int

record verifiable = item +
  isVerified :: bool

record rating =
  r_rating :: rat
  r_comment :: "jsval option"
  r_user :: oid
  r_createdAt :: "jsval option"

record note_doc = verifiable +
  n_fileUrl :: "jsval option"
  n_filePath :: "jsval option"
  n_fileType :: "jsval option"
  n_fileSize :: "jsval option"
  n_downloads :: int
  ratings :: "rating list"
  averageRating :: rat

record syllabus = item +
  s_fileUrl :: "jsval option"
  s_filePath :: "jsval option"
  s_fileType :: "jsval option"
  s_fileSize :: "jsval option"
  isActive :: "jsval option"
  s_totalMarks :: "jsval option"
  passingMarks :: "jsval option"
  units :: "jsval option"
  examPattern :: "jsval option"
  referenceBooks :: "jsval option"
  s_downloads :: int

text \<open>The uploaded file as the upload middleware describes it (\<open>req.fileInfo\<close>).\<close>

record file_info =
  fi_url :: jsval
  fi_path :: jsval
  fi_originalname :: string
  fi_size :: jsval

text \<open>\<open>originalname.split('.').pop()\<close>: the text after the last dot.\<close>

definition extension :: "string \<Rightarrow> string" where
  "extension name = rev (takeWhile (\<lambda>c. c \<noteq> CHR ''.'') (rev name))"

text \<open>\<open>if (v) updateFields.k = v\<close>, applied: a truthy value replaces the stored one.\<close>

definition setIf :: "jsval option \<Rightarrow> jsval option \<Rightarrow> jsval option" where
  "setIf new old = (if truthyOpt new then new else old)"

text \<open>The owner-or-admin test of the update and delete controllers.\<close>

definition notOwnerNorAdmin :: "oid \<Rightarrow> actor \<Rightarrow> bool" where
  "notOwnerNorAdmin owner user = (owner \<noteq> uid user \<and> role user \<noteq> Admin)"

text \<open>\<open>deleteOne\<close> on a document: identifiers are unique, the document goes.\<close>

definition deleteDoc :: "('d \<Rightarrow> oid) \<Rightarrow> 'd list \<Rightarrow> oid \<Rightarrow> 'd list" where
  "deleteDoc idOf docs i = filter (\<lambda>d. idOf d \<noteq> i) docs"

subsection \<open>Notes controller\<close>

text \<open>The pre-save hook of the Note schema recomputes the average rating.\<close>

definition ratingSum :: "rating list \<Rightarrow> rat" where
  "ratingSum rs = foldl (\<lambda>acc item. acc + r_rating item) 0 rs"

definition notePreSave :: "note_doc \<Rightarrow> note_doc" where
  "notePreSave n =
     (if ratings n \<noteq> [] then n\<lparr> averageRating := ratingSum (ratings n) / of_nat (length (ratings n)) \<rparr>
      else n\<lparr> averageRating := 0 \<rparr>)"

definition noteSave :: "bool \<Rightarrow> note_doc list \<Rightarrow> note_doc \<Rightarrow> error + note_doc list" where
  "noteSave valid notes n =
     (if \<not> valid then Inl ValidationError
      else Inr (findByIdAndUpdate item_id notes (item_id n) (\<lambda>d. notePreSave n)))"

definition getNote :: "bool \<Rightarrow> note_doc list \<Rightarrow> oid \<Rightarrow> error + note_doc list" where
  "getNote valid notes nid =
     (case findById item_id notes nid of
        None \<Rightarrow> Inl (ErrorResponse ''Note not found with id of'' 404)
      | Some n \<Rightarrow> noteSave valid notes (n\<lparr> views := views n + 1 \<rparr>))"

definition createNote ::
  "bool \<Rightarrow> oid \<Rightarrow> note_doc list \<Rightarrow> actor \<Rightarrow> file_info option \<Rightarrow> jsobj \<Rightarrow> error + note_doc list" where
  "createNote valid newId notes user fileInfo body =
     (case fileInfo of
        None \<Rightarrow> Inl (ErrorResponse ''Please upload a file'' 400)
      | Some fi \<Rightarrow>
          create item_id valid notes (notePreSave
            \<lparr> item_id = newId, title = body ''title'', description = body ''description'',
              subject = body ''subject'', item_branch = body ''branch'', item_year = body ''year'',
              item_semester = body ''semester'', uploadedBy = uid user, views = 0,
              isVerified = (if role user = Student then False else True),
              n_fileUrl = Some (fi_url fi), n_filePath = Some (fi_path fi),
              n_fileType = Some (JStr (extension (fi_originalname fi))),
              n_fileSize = Some (fi_size fi), n_downloads = 0, ratings = [],
              averageRating = 0 \<rparr>))"

definition updateNote ::
  "bool \<Rightarrow> note_doc list \<Rightarrow> actor \<Rightarrow> oid \<Rightarrow> file_info option \<Rightarrow> jsobj \<Rightarrow> error + note_doc list" where
  "updateNote valid notes user nid fileInfo body =
     (case findById item_id notes nid of
        None \<Rightarrow> Inl (ErrorResponse ''Note not found with id of'' 404)
      | Some n \<Rightarrow>
          if notOwnerNorAdmin (uploadedBy n) user
            then Inl (ErrorResponse ''User is not authorized to update this note'' 403)
          else if \<not> valid then Inl ValidationError
          else Inr (findByIdAndUpdate item_id notes nid (\<lambda>d.
            let d1 = d\<lparr> title := setIf (body ''title'') (title d),
                        description := setIf (body ''description'') (description d),
                        subject := setIf (body ''subject'') (subject d),
                        item_branch := setIf (body ''branch'') (item_branch d),
                        item_year := setIf (body ''year'') (item_year d),
                        item_semester := setIf (body ''semester'') (item_semester d) \<rparr>
            in case fileInfo of
                 None \<Rightarrow> d1
               | Some fi \<Rightarrow> d1\<lparr> n_fileUrl := Some (fi_url fi), n_filePath := Some (fi_path fi),
                                 n_fileType := Some (JStr (extension (fi_originalname fi))),
                                 n_fileSize := Some (fi_size fi) \<rparr>)))"

definition deleteNote :: "note_doc list \<Rightarrow> actor \<Rightarrow> oid \<Rightarrow> error + note_doc list" where
  "deleteNote notes user nid =
     (case findById item_id notes nid of
        None \<Rightarrow> Inl (ErrorResponse ''Note not found with id of'' 404)
      | Some n \<Rightarrow>
          if notOwnerNorAdmin (uploadedBy n) user
            then Inl (ErrorResponse ''User is not authorized to delete this note'' 403)
          else Inr (deleteDoc item_id notes nid))"

definition verifyNote :: "bool \<Rightarrow> note_doc list \<Rightarrow> oid \<Rightarrow> error + note_doc list" where
  "verifyNote valid notes nid =
     (case findById item_id notes nid of
        None \<Rightarrow> Inl (ErrorResponse ''Note not found with id of'' 404)
      | Some n \<Rightarrow> noteSave valid notes (n\<lparr> isVerified := True \<rparr>))"

text \<open>
  addRating.  \<open>toNumber\<close> is the numeric reading JavaScript gives a value in a
  comparison (\<open>None\<close> for \<open>NaN\<close>, for which every comparison is false);
  \<open>castNumber\<close> is the schema's cast of the stored rating (\<open>None\<close> when the value
  cannot be cast, which the save reports); \<open>now\<close> is \<open>Date.now()\<close>.
\<close>

definition jsLess :: "(jsval \<Rightarrow> rat option) \<Rightarrow> jsval \<Rightarrow> rat \<Rightarrow> bool" where
  "jsLess toNumber v bound = (case toNumber v of None \<Rightarrow> False | Some x \<Rightarrow> x < bound)"

definition jsGreater :: "(jsval \<Rightarrow> rat option) \<Rightarrow> jsval \<Rightarrow> rat \<Rightarrow> bool" where
  "jsGreater toNumber v bound = (case toNumber v of None \<Rightarrow> False | Some x \<Rightarrow> bound < x)"

fun rateExisting :: "oid \<Rightarrow> rat \<Rightarrow> jsval option \<Rightarrow> jsval option \<Rightarrow> rating list \<Rightarrow> rating list" where
  "rateExisting u x comment now [] = []"
| "rateExisting u x comment now (r # rs) =
     (if r_user r = u
        then r\<lparr> r_rating := x, r_comment := setIf comment (r_comment r), r_createdAt := now \<rparr> # rs
      else r # rateExisting u x comment now rs)"

definition addRating ::
  "(jsval \<Rightarrow> rat option) \<Rightarrow> (jsval \<Rightarrow> rat option) \<Rightarrow> jsval option \<Rightarrow> bool \<Rightarrow> note_doc list \<Rightarrow> actor
     \<Rightarrow> oid \<Rightarrow> jsobj \<Rightarrow> error + note_doc list" where
  "addRating toNumber castNumber now valid notes user nid body =
     (case body ''rating'' of
        None \<Rightarrow> Inl (ErrorResponse ''Please provide a valid rating between 1 and 5'' 400)
      | Some rv \<Rightarrow>
          if \<not> truthy rv \<or> jsLess toNumber rv 1 \<or> jsGreater toNumber rv 5
            then Inl (ErrorResponse ''Please provide a valid rating between 1 and 5'' 400)
          else
            (case findById item_id notes nid of
               None \<Rightarrow> Inl (ErrorResponse ''Note not found with id of'' 404)
             | Some n \<Rightarrow>
                 (case castNumber rv of
                    None \<Rightarrow> Inl ValidationError
                  | Some x \<Rightarrow>
                      let alreadyRated = find (\<lambda>r. r_user r = uid user) (ratings n);
                          ratings1 =
                            (if alreadyRated \<noteq> None
                               then rateExisting (uid user) x (body ''comment'') now (ratings n)
                             else ratings n @ [\<lparr> r_rating = x, r_comment = body ''comment'',
                                                r_user = uid user, r_createdAt = now \<rparr>]);
                          n1 = n\<lparr> ratings := ratings1 \<rparr>;
                          n2 = n1\<lparr> averageRating :=
                                     ratingSum (ratings n1) / of_nat (length (ratings n1)) \<rparr>
                      in noteSave valid notes n2)))"

definition downloadNote :: "bool \<Rightarrow> note_doc list \<Rightarrow> oid \<Rightarrow> error + note_doc list" where
  "downloadNote valid notes nid =
     (case findById item_id notes nid of
        None \<Rightarrow> Inl (ErrorResponse ''Note not found with id of'' 404)
      | Some n \<Rightarrow> noteSave valid notes (n\<lparr> n_downloads := n_downloads n + 1 \<rparr>))"

definition incrementNoteViews :: "bool \<Rightarrow> note_doc list \<Rightarrow> oid \<Rightarrow> error + note_doc list" where
  "incrementNoteViews valid notes nid =
     (case findById item_id notes nid of
        None \<Rightarrow> Inl (ErrorResponse ''Note not found with id of'' 404)
      | Some n \<Rightarrow> noteSave valid notes (n\<lparr> views := views n + 1 \<rparr>))"

subsection \<open>Syllabus controller\<close>

text \<open>
  \<open>jsonParse\<close> is \<open>JSON.parse\<close>; its \<open>None\<close> stands for the SyntaxError it throws
  on text that is not JSON.  A field is parsed only when the request sends it.
\<close>

datatype 'a parsed = Absent | Parsed 'a | Unparsable

definition parseIf :: "(jsval \<Rightarrow> jsval option) \<Rightarrow> jsval option \<Rightarrow> jsval parsed" where
  "parseIf jsonParse v =
     (if truthyOpt v
        then (case Option.bind v jsonParse of None \<Rightarrow> Unparsable | Some p \<Rightarrow> Parsed p)
      else Absent)"

definition syllabusSave :: "bool \<Rightarrow> syllabus list \<Rightarrow> syllabus \<Rightarrow> error + syllabus list" where
  "syllabusSave valid syllabi s =
     (if \<not> valid then Inl ValidationError
      else Inr (findByIdAndUpdate item_id syllabi (item_id s) (\<lambda>d. s)))"

definition getSyllabus :: "bool \<Rightarrow> syllabus list \<Rightarrow> oid \<Rightarrow> error + syllabus list" where
  "getSyllabus valid syllabi sid =
     (case findById item_id syllabi sid of
        None \<Rightarrow> Inl (ErrorResponse ''Syllabus not found with id of'' 404)
      | Some s \<Rightarrow> syllabusSave valid syllabi (s\<lparr> views := views s + 1 \<rparr>))"

definition createSyllabus ::
  "(jsval \<Rightarrow> jsval option) \<Rightarrow> bool \<Rightarrow> oid \<Rightarrow> syllabus list \<Rightarrow> actor \<Rightarrow> file_info option \<Rightarrow> jsobj
     \<Rightarrow> error + syllabus list" where
  "createSyllabus jsonParse valid newId syllabi user fileInfo body =
     (case fileInfo of
        None \<Rightarrow> Inl (ErrorResponse ''Please upload a file'' 400)
      | Some fi \<Rightarrow>
          (case parseIf jsonParse (body ''units'') of
             Unparsable \<Rightarrow> Inl SyntaxError
           | us \<Rightarrow>
               (case parseIf jsonParse (body ''referenceBooks'') of
                  Unparsable \<Rightarrow> Inl SyntaxError
                | bs \<Rightarrow>
                    create item_id valid syllabi
                      \<lparr> item_id = newId, title = body ''title'', description = body ''description'',
                        subject = body ''subject'', item_branch = body ''branch'',
                        item_year = body ''year'', item_semester = body ''semester'',
                        uploadedBy = uid user, views = 0,
                        s_fileUrl = Some (fi_url fi), s_filePath = Some (fi_path fi),
                        s_fileType = Some (JStr (extension (fi_originalname fi))),
                        s_fileSize = Some (fi_size fi), isActive = Some (JBool True),
                        s_totalMarks = body ''totalMarks'', passingMarks = body ''passingMarks'',
                        units = (case us of Parsed p \<Rightarrow> Some p | _ \<Rightarrow> Some (JArr [])),
                        examPattern = body ''examPattern'',
                        referenceBooks = (case bs of Parsed p \<Rightarrow> Some p | _ \<Rightarrow> Some (JArr [])),
                        s_downloads = 0 \<rparr>)))"

definition updateSyllabus ::
  "(jsval \<Rightarrow> jsval option) \<Rightarrow> bool \<Rightarrow> syllabus list \<Rightarrow> actor \<Rightarrow> oid \<Rightarrow> file_info option \<Rightarrow> jsobj
     \<Rightarrow> error + syllabus list" where
  "updateSyllabus jsonParse valid syllabi user sid fileInfo body =
     (case findById item_id syllabi sid of
        None \<Rightarrow> Inl (ErrorResponse ''Syllabus not found with id of'' 404)
      | Some s \<Rightarrow>
          if notOwnerNorAdmin (uploadedBy s) user
            then Inl (ErrorResponse ''User is not authorized to update this syllabus'' 403)
          else
            (case parseIf jsonParse (body ''units'') of
               Unparsable \<Rightarrow> Inl SyntaxError
             | us \<Rightarrow>
                 (case parseIf jsonParse (body ''referenceBooks'') of
                    Unparsable \<Rightarrow> Inl SyntaxError
                  | bs \<Rightarrow>
                      if \<not> valid then Inl ValidationError
                      else Inr (findByIdAndUpdate item_id syllabi sid (\<lambda>d.
                        let d1 = d\<lparr> title := setIf (body ''title'') (title d),
                                    description := setIf (body ''description'') (description d),
                                    item_branch := setIf (body ''branch'') (item_branch d),
                                    item_year := setIf (body ''year'') (item_year d),
                                    item_semester := setIf (body ''semester'') (item_semester d),
                                    subject := setIf (body ''subject'') (subject d),
                                    s_totalMarks := setIf (body ''totalMarks'') (s_totalMarks d),
                                    passingMarks := setIf (body ''passingMarks'') (passingMarks d),
                                    examPattern := setIf (body ''examPattern'') (examPattern d),
                                    units := (case us of Parsed p \<Rightarrow> Some p | _ \<Rightarrow> units d),
                                    referenceBooks := (case bs of Parsed p \<Rightarrow> Some p | _ \<Rightarrow> referenceBooks d),
                                    isActive := (if body ''isActive'' \<noteq> None then body ''isActive''
                                                 else isActive d) \<rparr>
                        in case fileInfo of
                             None \<Rightarrow> d1
                           | Some fi \<Rightarrow> d1\<lparr> s_fileUrl := Some (fi_url fi), s_filePath := Some (fi_path fi),
                                             s_fileType := Some (JStr (extension (fi_originalname fi))),
                                             s_fileSize := Some (fi_size fi) \<rparr>)))))"

definition deleteSyllabus :: "syllabus list \<Rightarrow> actor \<Rightarrow> oid \<Rightarrow> error + syllabus list" where
  "deleteSyllabus syllabi user sid =
     (case findById item_id syllabi sid of
        None \<Rightarrow> Inl (ErrorResponse ''Syllabus not found with id of'' 404)
      | Some s \<Rightarrow>
          if notOwnerNorAdmin (uploadedBy s) user
            then Inl (ErrorResponse ''User is not authorized to delete this syllabus'' 403)
          else Inr (deleteDoc item_id syllabi sid))"

definition downloadSyllabus :: "bool \<Rightarrow> syllabus list \<Rightarrow> oid \<Rightarrow> error + syllabus list" where
  "downloadSyllabus valid syllabi sid =
     (case findById item_id syllabi sid of
        None \<Rightarrow> Inl (ErrorResponse ''Syllabus not found with id of'' 404)
      | Some s \<Rightarrow> syllabusSave valid syllabi (s\<lparr> s_downloads := s_downloads s + 1 \<rparr>))"

subsection \<open>Video controller\<close>

record comment =
  c_id :: oid
  c_text :: jsval
  c_user :: oid

record video = verifiable +
  videoUrl :: "jsval option"
  thumbnailUrl :: "jsval option"
  isYoutubeVideo :: bool
  duration :: "jsval option"
  tags :: "jsval list"
  likes :: int
  usersLiked :: "oid list"
  comments :: "comment list"

text \<open>
  \<open>tags.split(',').map(tag => tag.trim())\<close>.  A truthy value that is not a string has
  no \<open>split\<close> method, which is a TypeError.
\<close>

fun splitOn :: "char \<Rightarrow> string \<Rightarrow> string list" where
  "splitOn c [] = [[]]"
| "splitOn c (x # xs) =
     (if x = c then [] # splitOn c xs
      else (case splitOn c xs of [] \<Rightarrow> [[x]] | w # ws \<Rightarrow> (x # w) # ws))"

definition isSpace :: "char \<Rightarrow> bool" where
  "isSpace c = (c \<in> set [CHR '' '', CHR 0x09, CHR 0x0A, CHR 0x0B, CHR 0x0C, CHR 0x0D])"

definition trim :: "string \<Rightarrow> string" where
  "trim s = rev (dropWhile isSpace (rev (dropWhile isSpace s)))"

definition tagList :: "jsval option \<Rightarrow> (error + jsval list) option" where
  "tagList v =
     (if truthyOpt v
        then (case v of
                Some (JStr s) \<Rightarrow> Some (Inr (map (\<lambda>t. JStr (trim t)) (splitOn CHR '','' s)))
              | _ \<Rightarrow> Some (Inl TypeError))
      else None)"

text \<open>
  The pre-save hook of the Video schema derives \<open>youtubeId\<close> from the URL and touches
  nothing else; the field is left out.  \<open>videoInfo\<close> is what the YouTube service
  answered (thumbnail and duration), \<open>None\<close> when it answered \<open>null\<close> or failed.
\<close>

definition videoSave :: "bool \<Rightarrow> video list \<Rightarrow> video \<Rightarrow> error + video list" where
  "videoSave valid videos v =
     (if \<not> valid then Inl ValidationError
      else Inr (findByIdAndUpdate item_id videos (item_id v) (\<lambda>d. v)))"

definition getVideo :: "bool \<Rightarrow> video list \<Rightarrow> oid \<Rightarrow> error + video list" where
  "getVideo valid videos vid =
     (case findById item_id videos vid of
        None \<Rightarrow> Inl (ErrorResponse ''Video not found with id of'' 404)
      | Some v \<Rightarrow> videoSave valid videos (v\<lparr> views := views v + 1 \<rparr>))"

definition createVideo ::
  "(jsval \<times> jsval) option \<Rightarrow> bool \<Rightarrow> oid \<Rightarrow> video list \<Rightarrow> actor \<Rightarrow> file_info option
     \<Rightarrow> jsobj \<Rightarrow> error + video list" where
  "createVideo videoInfo valid newId videos user fileInfo body =
     (case tagList (body ''tags'') of
        Some (Inl e) \<Rightarrow> Inl e
      | ts \<Rightarrow>
          let videoData =
                \<lparr> item_id = newId, title = body ''title'', description = body ''description'',
                  subject = body ''subject'', item_branch = body ''branch'',
                  item_year = body ''year'', item_semester = body ''semester'',
                  uploadedBy = uid user, views = 0,
                  isVerified = (if role user = Student then False else True),
                  videoUrl = None, thumbnailUrl = Some (JStr ''default-thumbnail.jpg''),
                  isYoutubeVideo = False, duration = None,
                  tags = (case ts of Some (Inr l) \<Rightarrow> l | _ \<Rightarrow> []),
                  likes = 0, usersLiked = [], comments = [] \<rparr>
          in if truthyOpt (body ''youtubeUrl'')
               then create item_id valid videos
                      (case videoInfo of
                         None \<Rightarrow> videoData\<lparr> isYoutubeVideo := True, videoUrl := body ''youtubeUrl'' \<rparr>
                       | Some (thumb, dur) \<Rightarrow>
                           videoData\<lparr> isYoutubeVideo := True, videoUrl := body ''youtubeUrl'',
                                      thumbnailUrl := Some thumb, duration := Some dur \<rparr>)
             else
               (case fileInfo of
                  Some fi \<Rightarrow>
                    create item_id valid videos
                      (videoData\<lparr> isYoutubeVideo := False, videoUrl := Some (fi_url fi),
                                  thumbnailUrl := Some (JStr ''default-thumbnail.jpg'') \<rparr>)
                | None \<Rightarrow>
                    Inl (ErrorResponse
                          ''Please provide either a YouTube URL or upload a video file'' 400)))"

definition updateVideo ::
  "(jsval \<times> jsval) option \<Rightarrow> bool \<Rightarrow> video list \<Rightarrow> actor \<Rightarrow> oid \<Rightarrow> file_info option
     \<Rightarrow> jsobj \<Rightarrow> error + video list" where
  "updateVideo videoInfo valid videos user vid fileInfo body =
     (case findById item_id videos vid of
        None \<Rightarrow> Inl (ErrorResponse ''Video not found with id of'' 404)
      | Some v \<Rightarrow>
          if notOwnerNorAdmin (uploadedBy v) user
            then Inl (ErrorResponse ''User is not authorized to update this video'' 403)
          else
            (case tagList (body ''tags'') of
               Some (Inl e) \<Rightarrow> Inl e
             | ts \<Rightarrow>
                 if \<not> valid then Inl ValidationError
                 else Inr (findByIdAndUpdate item_id videos vid (\<lambda>d.
                   let d1 = d\<lparr> title := setIf (body ''title'') (title d),
                               description := setIf (body ''description'') (description d),
                               subject := setIf (body ''subject'') (subject d),
                               item_branch := setIf (body ''branch'') (item_branch d),
                               item_year := setIf (body ''year'') (item_year d),
                               item_semester := setIf (body ''semester'') (item_semester d),
                               tags := (case ts of Some (Inr l) \<Rightarrow> l | _ \<Rightarrow> tags d) \<rparr>
                   in if truthyOpt (body ''youtubeUrl'') \<and> body ''youtubeUrl'' \<noteq> videoUrl v
                        then (case videoInfo of
                                None \<Rightarrow> d1\<lparr> isYoutubeVideo := True, videoUrl := body ''youtubeUrl'' \<rparr>
                              | Some (thumb, dur) \<Rightarrow>
                                  d1\<lparr> isYoutubeVideo := True, videoUrl := body ''youtubeUrl'',
                                      thumbnailUrl := Some thumb, duration := Some dur \<rparr>)
                      else
                        (case fileInfo of
                           Some fi \<Rightarrow> if \<not> isYoutubeVideo v then d1\<lparr> videoUrl := Some (fi_url fi) \<rparr> else d1
                         | None \<Rightarrow> d1)))))"

definition deleteVideo :: "video list \<Rightarrow> actor \<Rightarrow> oid \<Rightarrow> error + video list" where
  "deleteVideo videos user vid =
     (case findById item_id videos vid of
        None \<Rightarrow> Inl (ErrorResponse ''Video not found with id of'' 404)
      | Some v \<Rightarrow>
          if notOwnerNorAdmin (uploadedBy v) user
            then Inl (ErrorResponse ''User is not authorized to delete this video'' 403)
          else Inr (deleteDoc item_id videos vid))"

definition verifyVideo :: "bool \<Rightarrow> video list \<Rightarrow> oid \<Rightarrow> error + video list" where
  "verifyVideo valid videos vid =
     (case findById item_id videos vid of
        None \<Rightarrow> Inl (ErrorResponse ''Video not found with id of'' 404)
      | Some v \<Rightarrow> videoSave valid videos (v\<lparr> isVerified := True \<rparr>))"

definition likeVideo :: "bool \<Rightarrow> video list \<Rightarrow> actor \<Rightarrow> oid \<Rightarrow> error + video list" where
  "likeVideo valid videos user vid =
     (case findById item_id videos vid of
        None \<Rightarrow> Inl (ErrorResponse ''Video not found with id of'' 404)
      | Some v \<Rightarrow>
          let alreadyLiked = (uid user \<in> set (usersLiked v))
          in if alreadyLiked
               then videoSave valid videos
                      (v\<lparr> likes := max 0 (likes v - 1),
                          usersLiked := filter (\<lambda>userId. userId \<noteq> uid user) (usersLiked v) \<rparr>)
             else videoSave valid videos
                    (v\<lparr> likes := likes v + 1, usersLiked := usersLiked v @ [uid user] \<rparr>))"

definition addComment :: "bool \<Rightarrow> oid \<Rightarrow> video list \<Rightarrow> actor \<Rightarrow> oid \<Rightarrow> jsobj \<Rightarrow> error + video list" where
  "addComment valid newId videos user vid body =
     (case body ''text'' of
        None \<Rightarrow> Inl (ErrorResponse ''Please provide comment text'' 400)
      | Some t \<Rightarrow>
          if \<not> truthy t then Inl (ErrorResponse ''Please provide comment text'' 400)
          else
            (case findById item_id videos vid of
               None \<Rightarrow> Inl (ErrorResponse ''Video not found with id of'' 404)
             | Some v \<Rightarrow>
                 videoSave valid videos
                   (v\<lparr> comments := comments v @ [\<lparr> c_id = newId, c_text = t, c_user = uid user \<rparr>] \<rparr>)))"

definition deleteComment :: "bool \<Rightarrow> video list \<Rightarrow> actor \<Rightarrow> oid \<Rightarrow> oid \<Rightarrow> error + video list" where
  "deleteComment valid videos user vid commentId =
     (case findById item_id videos vid of
        None \<Rightarrow> Inl (ErrorResponse ''Video not found with id of'' 404)
      | Some v \<Rightarrow>
          (case find (\<lambda>c. c_id c = commentId) (comments v) of
             None \<Rightarrow> Inl (ErrorResponse ''Comment not found with id of'' 404)
           | Some c \<Rightarrow>
               if notOwnerNorAdmin (c_user c) user
                 then Inl (ErrorResponse ''User is not authorized to delete this comment'' 403)
               else videoSave valid videos
                      (v\<lparr> comments := filter (\<lambda>c'. c_id c' \<noteq> commentId) (comments v) \<rparr>)))"

subsection \<open>PYQ controller\<close>

record pyq = verifiable +
  p_fileUrl :: "jsval option"
  p_filePath :: "jsval option"
  p_fileType :: "jsval option"
  p_fileSize :: "jsval option"
  examType :: "jsval option"
  examYear :: "jsval option"
  difficulty :: "jsval option"
  p_totalMarks :: "jsval option"
  p_duration :: "jsval option"
  hasSolution :: bool
  solutionFileUrl :: "jsval option"
  solutionFilePath :: "jsval option"
  p_downloads :: int

text \<open>\<open>v || dflt\<close>.\<close>

definition orElse :: "jsval option \<Rightarrow> jsval \<Rightarrow> jsval option" where
  "orElse v dflt = (if truthyOpt v then v else Some dflt)"

definition pyqSave :: "bool \<Rightarrow> pyq list \<Rightarrow> pyq \<Rightarrow> error + pyq list" where
  "pyqSave valid pyqs p =
     (if \<not> valid then Inl ValidationError
      else Inr (findByIdAndUpdate item_id pyqs (item_id p) (\<lambda>d. p)))"

definition getPYQ :: "bool \<Rightarrow> pyq list \<Rightarrow> oid \<Rightarrow> error + pyq list" where
  "getPYQ valid pyqs pid =
     (case findById item_id pyqs pid of
        None \<Rightarrow> Inl (ErrorResponse ''PYQ not found with id of'' 404)
      | Some p \<Rightarrow> pyqSave valid pyqs (p\<lparr> views := views p + 1 \<rparr>))"

text \<open>
  createPYQ stores the document and then, when a solution file came with the request,
  saves it a second time.  If that second save is rejected the request fails although the
  document exists, so the result is the error, if any, and the collection afterwards.
\<close>

definition createPYQ ::
  "bool \<Rightarrow> bool \<Rightarrow> oid \<Rightarrow> pyq list \<Rightarrow> actor \<Rightarrow> file_info option \<Rightarrow> file_info option \<Rightarrow> jsobj
     \<Rightarrow> error option \<times> pyq list" where
  "createPYQ valid valid2 newId pyqs user fileInfo solutionFileInfo body =
     (case fileInfo of
        None \<Rightarrow> (Some (ErrorResponse ''Please upload a question file'' 400), pyqs)
      | Some fi \<Rightarrow>
          let p = \<lparr> item_id = newId, title = body ''title'', description = body ''description'',
                    subject = body ''subject'', item_branch = body ''branch'',
                    item_year = body ''year'', item_semester = body ''semester'',
                    uploadedBy = uid user, views = 0,
                    isVerified = (if role user = Student then False else True),
                    p_fileUrl = Some (fi_url fi), p_filePath = Some (fi_path fi),
                    p_fileType = Some (JStr (extension (fi_originalname fi))),
                    p_fileSize = Some (fi_size fi),
                    examType = body ''examType'', examYear = body ''examYear'',
                    difficulty = orElse (body ''difficulty'') (JStr ''Medium''),
                    p_totalMarks = orElse (body ''totalMarks'') (JNum 0),
                    p_duration = orElse (body ''duration'') (JNum 0),
                    hasSolution = False, solutionFileUrl = None, solutionFilePath = None,
                    p_downloads = 0 \<rparr>
          in case create item_id valid pyqs p of
               Inl e \<Rightarrow> (Some e, pyqs)
             | Inr pyqs1 \<Rightarrow>
                 (case solutionFileInfo of
                    None \<Rightarrow> (None, pyqs1)
                  | Some sfi \<Rightarrow>
                      (case pyqSave valid2 pyqs1
                              (p\<lparr> hasSolution := True, solutionFileUrl := Some (fi_url sfi),
                                  solutionFilePath := Some (fi_path sfi) \<rparr>) of
                         Inl e \<Rightarrow> (Some e, pyqs1)
                       | Inr pyqs2 \<Rightarrow> (None, pyqs2))))"

definition setParsed :: "(jsval \<Rightarrow> jsval) \<Rightarrow> jsval option \<Rightarrow> jsval option \<Rightarrow> jsval option" where
  "setParsed parseInt new old = (if truthyOpt new then map_option parseInt new else old)"

definition updatePYQ ::
  "(jsval \<Rightarrow> jsval) \<Rightarrow> bool \<Rightarrow> pyq list \<Rightarrow> actor \<Rightarrow> oid \<Rightarrow> file_info option \<Rightarrow> file_info option
     \<Rightarrow> jsobj \<Rightarrow> error + pyq list" where
  "updatePYQ parseInt valid pyqs user pid fileInfo solutionFileInfo body =
     (case findById item_id pyqs pid of
        None \<Rightarrow> Inl (ErrorResponse ''PYQ not found with id of'' 404)
      | Some p \<Rightarrow>
          if notOwnerNorAdmin (uploadedBy p) user
            then Inl (ErrorResponse ''User is not authorized to update this PYQ'' 403)
          else if \<not> valid then Inl ValidationError
          else Inr (findByIdAndUpdate item_id pyqs pid (\<lambda>d.
            let d1 = d\<lparr> title := setIf (body ''title'') (title d),
                        description := setIf (body ''description'') (description d),
                        subject := setIf (body ''subject'') (subject d),
                        item_branch := setIf (body ''branch'') (item_branch d),
                        item_year := setParsed parseInt (body ''year'') (item_year d),
                        item_semester := setParsed parseInt (body ''semester'') (item_semester d),
                        examType := setIf (body ''examType'') (examType d),
                        examYear := setParsed parseInt (body ''examYear'') (examYear d),
                        difficulty := setIf (body ''difficulty'') (difficulty d),
                        p_totalMarks := setParsed parseInt (body ''totalMarks'') (p_totalMarks d),
                        p_duration := setParsed parseInt (body ''duration'') (p_duration d) \<rparr>;
                d2 = (case fileInfo of
                        None \<Rightarrow> d1
                      | Some fi \<Rightarrow> d1\<lparr> p_fileUrl := Some (fi_url fi), p_filePath := Some (fi_path fi),
                                        p_fileType := Some (JStr (extension (fi_originalname fi))),
                                        p_fileSize := Some (fi_size fi) \<rparr>)
            in case solutionFileInfo of
                 None \<Rightarrow> d2
               | Some sfi \<Rightarrow> d2\<lparr> hasSolution := True, solutionFileUrl := Some (fi_url sfi),
                                  solutionFilePath := Some (fi_path sfi) \<rparr>)))"

definition deletePYQ :: "pyq list \<Rightarrow> actor \<Rightarrow> oid \<Rightarrow> error + pyq list" where
  "deletePYQ pyqs user pid =
     (case findById item_id pyqs pid of
        None \<Rightarrow> Inl (ErrorResponse ''PYQ not found with id of'' 404)
      | Some p \<Rightarrow>
          if notOwnerNorAdmin (uploadedBy p) user
            then Inl (ErrorResponse ''User is not authorized to delete this PYQ'' 403)
          else Inr (deleteDoc item_id pyqs pid))"

definition addSolution :: "bool \<Rightarrow> pyq list \<Rightarrow> oid \<Rightarrow> file_info option \<Rightarrow> error + pyq list" where
  "addSolution valid pyqs pid fileInfo =
     (case findById item_id pyqs pid of
        None \<Rightarrow> Inl (ErrorResponse ''PYQ not found with id of'' 404)
      | Some p \<Rightarrow>
          (case fileInfo of
             None \<Rightarrow> Inl (ErrorResponse ''Please upload a solution file'' 400)
           | Some fi \<Rightarrow>
               pyqSave valid pyqs
                 (p\<lparr> hasSolution := True, solutionFileUrl := Some (fi_url fi),
                     solutionFilePath := Some (fi_path fi) \<rparr>)))"

definition verifyPYQ :: "bool \<Rightarrow> pyq list \<Rightarrow> oid \<Rightarrow> error + pyq list" where
  "verifyPYQ valid pyqs pid =
     (case findById item_id pyqs pid of
        None \<Rightarrow> Inl (ErrorResponse ''PYQ not found with id of'' 404)
      | Some p \<Rightarrow> pyqSave valid pyqs (p\<lparr> isVerified := True \<rparr>))"

definition downloadPYQ :: "bool \<Rightarrow> pyq list \<Rightarrow> oid \<Rightarrow> error + pyq list" where
  "downloadPYQ valid pyqs pid =
     (case findById item_id pyqs pid of
        None \<Rightarrow> Inl (ErrorResponse ''PYQ not found with id of'' 404)
      | Some p \<Rightarrow> pyqSave valid pyqs (p\<lparr> p_downloads := p_downloads p + 1 \<rparr>))"

subsection \<open>Admin controller: verifying content\<close>

record cdb =
  db_notes :: "note_doc list"
  db_videos :: "video list"
  db_pyqs :: "pyq list"
  db_syllabi :: "syllabus list"

record notification =
  nt_title :: string
  nt_body :: string
  nt_type :: string
  nt_id :: oid
  targetUsers :: "oid list"

text \<open>
  What a request did: the error it answered with, if any, the collections afterwards,
  the notifications it handed to \<open>notifyUsers\<close>, and the errors it caught and logged.
\<close>

record result =
  failure :: "error option"
  db :: cdb
  dispatched :: "notification list"
  logged :: "error list"

definition failed :: "cdb \<Rightarrow> error \<Rightarrow> result" where
  "failed d e = \<lparr> failure = Some e, db = d, dispatched = [], logged = [] \<rparr>"

definition succeeded :: "cdb \<Rightarrow> result" where
  "succeeded d = \<lparr> failure = None, db = d, dispatched = [], logged = [] \<rparr>"

text \<open>A string in a template literal; the stored titles are strings.\<close>

definition strOf :: "jsval option \<Rightarrow> string" where
  "strOf v = (case v of Some (JStr s) \<Rightarrow> s | _ \<Rightarrow> [])"

text \<open>
  verifyContent saves the flag first and then notifies the uploader inside
  \<open>try \<dots> catch\<close>.  \<open>notifyUsers\<close> tells whether the notification service throws on
  the notification (\<open>Some\<close> error) or returns.
\<close>

definition notifyUploader ::
  "(notification \<Rightarrow> error option) \<Rightarrow> string \<Rightarrow> jsval option \<Rightarrow> oid \<Rightarrow> oid \<Rightarrow> cdb \<Rightarrow> result" where
  "notifyUploader notifyUsers contentType contentTitle contentId uploader d =
     (let n = \<lparr> nt_title = ''Your '' @ contentType @ '' has been verified'',
                nt_body = strOf contentTitle @ '' has been verified and is now available to all users.'',
                nt_type = contentType, nt_id = contentId, targetUsers = [uploader] \<rparr>
      in \<lparr> failure = None, db = d, dispatched = [n],
           logged = (case notifyUsers n of None \<Rightarrow> [] | Some e \<Rightarrow> [e]) \<rparr>)"

definition verifyContent ::
  "(notification \<Rightarrow> error option) \<Rightarrow> bool \<Rightarrow> cdb \<Rightarrow> jsval option \<Rightarrow> oid option \<Rightarrow> result" where
  "verifyContent notifyUsers valid d contentType contentId =
     (case contentId of
        None \<Rightarrow> failed d (ErrorResponse ''Please provide content type and ID'' 400)
      | Some cid \<Rightarrow>
          if \<not> truthyOpt contentType
            then failed d (ErrorResponse ''Please provide content type and ID'' 400)
          else if contentType = Some (JStr ''note'') then
            (case findById item_id (db_notes d) cid of
               None \<Rightarrow> failed d (ErrorResponse ''not found with id'' 404)
             | Some n \<Rightarrow>
                 (case noteSave valid (db_notes d) (n\<lparr> isVerified := True \<rparr>) of
                    Inl e \<Rightarrow> failed d e
                  | Inr ns \<Rightarrow> notifyUploader notifyUsers ''note'' (title n) cid (uploadedBy n)
                               (d\<lparr> db_notes := ns \<rparr>)))
          else if contentType = Some (JStr ''video'') then
            (case findById item_id (db_videos d) cid of
               None \<Rightarrow> failed d (ErrorResponse ''not found with id'' 404)
             | Some v \<Rightarrow>
                 (case videoSave valid (db_videos d) (v\<lparr> isVerified := True \<rparr>) of
                    Inl e \<Rightarrow> failed d e
                  | Inr vs \<Rightarrow> notifyUploader notifyUsers ''video'' (title v) cid (uploadedBy v)
                               (d\<lparr> db_videos := vs \<rparr>)))
          else if contentType = Some (JStr ''pyq'') then
            (case findById item_id (db_pyqs d) cid of
               None \<Rightarrow> failed d (ErrorResponse ''not found with id'' 404)
             | Some p \<Rightarrow>
                 (case pyqSave valid (db_pyqs d) (p\<lparr> isVerified := True \<rparr>) of
                    Inl e \<Rightarrow> failed d e
                  | Inr ps \<Rightarrow> notifyUploader notifyUsers ''pyq'' (title p) cid (uploadedBy p)
                               (d\<lparr> db_pyqs := ps \<rparr>)))
          else failed d (ErrorResponse ''Invalid content type'' 400))"

subsection \<open>Admin controller: announcements\<close>

record announcement =
  ann_id :: oid
  ann_title :: "jsval option"
  ann_content :: "jsval option"
  postedBy :: oid
  ann_attachments :: "attachment list"
  priority :: "jsval option"
  targetAudience :: "jsval option"
  expiresAt :: "jsval option"
  ann_isActive :: "jsval option"
  ann_tags :: "jsval list"

definition toAttachment :: "file_info \<Rightarrow> attachment" where
  "toAttachment file =
     \<lparr> fileUrl = Some (fi_url file), filePath = Some (fi_path file),
       fileType = Some (JStr (extension (fi_originalname file))),
       fileName = Some (JStr (fi_originalname file)), fileSize = Some (fi_size file) \<rparr>"

definition updateAnnouncement ::
  "(jsval \<Rightarrow> jsval option) \<Rightarrow> bool \<Rightarrow> announcement list \<Rightarrow> actor \<Rightarrow> oid \<Rightarrow> file_info list
     \<Rightarrow> jsobj \<Rightarrow> error + announcement list" where
  "updateAnnouncement jsonParse valid announcements user aid filesInfo body =
     (case findById ann_id announcements aid of
        None \<Rightarrow> Inl (ErrorResponse ''Announcement not found with id of'' 404)
      | Some a \<Rightarrow>
          if notOwnerNorAdmin (postedBy a) user
            then Inl (ErrorResponse ''Not authorized to update this announcement'' 403)
          else
            (case parseIf jsonParse (body ''targetAudience'') of
               Unparsable \<Rightarrow> Inl SyntaxError
             | ta \<Rightarrow>
                 (case tagList (body ''tags'') of
                    Some (Inl e) \<Rightarrow> Inl e
                  | ts \<Rightarrow>
                      if \<not> valid then Inl ValidationError
                      else Inr (findByIdAndUpdate ann_id announcements aid (\<lambda>d.
                        d\<lparr> ann_title := setIf (body ''title'') (ann_title d),
                           ann_content := setIf (body ''content'') (ann_content d),
                           priority := setIf (body ''priority'') (priority d),
                           targetAudience := (case ta of Parsed p \<Rightarrow> Some p | _ \<Rightarrow> targetAudience d),
                           expiresAt := setIf (body ''expiresAt'') (expiresAt d),
                           ann_isActive := (if body ''isActive'' \<noteq> None then body ''isActive''
                                            else ann_isActive d),
                           ann_tags := (case ts of Some (Inr l) \<Rightarrow> l | _ \<Rightarrow> ann_tags d),
                           ann_attachments := (if filesInfo \<noteq> []
                                                 then ann_attachments a @ map toAttachment filesInfo
                                               else ann_attachments d) \<rparr>)))))"

definition deleteAnnouncement :: "announcement list \<Rightarrow> actor \<Rightarrow> oid \<Rightarrow> error + announcement list" where
  "deleteAnnouncement announcements user aid =
     (case findById ann_id announcements aid of
        None \<Rightarrow> Inl (ErrorResponse ''Announcement not found with id of'' 404)
      | Some a \<Rightarrow>
          if notOwnerNorAdmin (postedBy a) user
            then Inl (ErrorResponse ''Not authorized to delete this announcement'' 403)
          else Inr (deleteDoc ann_id announcements aid))"

subsection \<open>The content requests as a state machine\<close>

text \<open>
  The functions of the JavaScript runtime and the object mapper that the controllers
  call; the properties below hold whatever these functions are.
\<close>

record runtime =
  rt_parseInt :: "jsval \<Rightarrow> jsval"
  rt_jsonParse :: "jsval \<Rightarrow> jsval option"
  rt_toNumber :: "jsval \<Rightarrow> rat option"
  rt_castNumber :: "jsval \<Rightarrow> rat option"

datatype content_request =
    GetNote bool oid
  | CreateNote bool oid actor "file_info option" jsobj
  | UpdateNote bool actor oid "file_info option" jsobj
  | DeleteNote actor oid
  | VerifyNote bool oid
  | AddRating "jsval option" bool actor oid jsobj
  | DownloadNote bool oid
  | IncrementNoteViews bool oid
  | GetVideo bool oid
  | CreateVideo "(jsval \<times> jsval) option" bool oid actor "file_info option" jsobj
  | UpdateVideo "(jsval \<times> jsval) option" bool actor oid "file_info option" jsobj
  | DeleteVideo actor oid
  | VerifyVideo bool oid
  | LikeVideo bool actor oid
  | AddComment bool oid actor oid jsobj
  | DeleteComment bool actor oid oid
  | GetPYQ bool oid
  | CreatePYQ bool bool oid actor "file_info option" "file_info option" jsobj
  | UpdatePYQ bool actor oid "file_info option" "file_info option" jsobj
  | DeletePYQ actor oid
  | AddSolution bool oid "file_info option"
  | VerifyPYQ bool oid
  | DownloadPYQ bool oid
  | GetSyllabus bool oid
  | CreateSyllabus bool oid actor "file_info option" jsobj
  | UpdateSyllabus bool actor oid "file_info option" jsobj
  | DeleteSyllabus actor oid
  | DownloadSyllabus bool oid
  | VerifyContent "notification \<Rightarrow> error option" bool "jsval option" "oid option"

definition onNotes :: "cdb \<Rightarrow> error + note_doc list \<Rightarrow> result" where
  "onNotes d r = (case r of Inl e \<Rightarrow> failed d e | Inr ns \<Rightarrow> succeeded (d\<lparr> db_notes := ns \<rparr>))"

definition onVideos :: "cdb \<Rightarrow> error + video list \<Rightarrow> result" where
  "onVideos d r = (case r of Inl e \<Rightarrow> failed d e | Inr vs \<Rightarrow> succeeded (d\<lparr> db_videos := vs \<rparr>))"

definition onPyqs :: "cdb \<Rightarrow> error + pyq list \<Rightarrow> result" where
  "onPyqs d r = (case r of Inl e \<Rightarrow> failed d e | Inr ps \<Rightarrow> succeeded (d\<lparr> db_pyqs := ps \<rparr>))"

definition onSyllabi :: "cdb \<Rightarrow> error + syllabus list \<Rightarrow> result" where
  "onSyllabi d r = (case r of Inl e \<Rightarrow> failed d e | Inr ss \<Rightarrow> succeeded (d\<lparr> db_syllabi := ss \<rparr>))"

fun contentHandler :: "runtime \<Rightarrow> cdb \<Rightarrow> content_request \<Rightarrow> result" where
  "contentHandler rt d (GetNote valid nid) = onNotes d (getNote valid (db_notes d) nid)"
| "contentHandler rt d (CreateNote valid newId user fileInfo body) =
     onNotes d (createNote valid newId (db_notes d) user fileInfo body)"
| "contentHandler rt d (UpdateNote valid user nid fileInfo body) =
     onNotes d (updateNote valid (db_notes d) user nid fileInfo body)"
| "contentHandler rt d (DeleteNote user nid) = onNotes d (deleteNote (db_notes d) user nid)"
| "contentHandler rt d (VerifyNote valid nid) = onNotes d (verifyNote valid (db_notes d) nid)"
| "contentHandler rt d (AddRating now valid user nid body) =
     onNotes d (addRating (rt_toNumber rt) (rt_castNumber rt) now valid (db_notes d) user nid body)"
| "contentHandler rt d (DownloadNote valid nid) = onNotes d (downloadNote valid (db_notes d) nid)"
| "contentHandler rt d (IncrementNoteViews valid nid) =
     onNotes d (incrementNoteViews valid (db_notes d) nid)"
| "contentHandler rt d (GetVideo valid vid) = onVideos d (getVideo valid (db_videos d) vid)"
| "contentHandler rt d (CreateVideo videoInfo valid newId user fileInfo body) =
     onVideos d (createVideo videoInfo valid newId (db_videos d) user fileInfo body)"
| "contentHandler rt d (UpdateVideo videoInfo valid user vid fileInfo body) =
     onVideos d (updateVideo videoInfo valid (db_videos d) user vid fileInfo body)"
| "contentHandler rt d (DeleteVideo user vid) = onVideos d (deleteVideo (db_videos d) user vid)"
| "contentHandler rt d (VerifyVideo valid vid) = onVideos d (verifyVideo valid (db_videos d) vid)"
| "contentHandler rt d (LikeVideo valid user vid) = onVideos d (likeVideo valid (db_videos d) user vid)"
| "contentHandler rt d (AddComment valid newId user vid body) =
     onVideos d (addComment valid newId (db_videos d) user vid body)"
| "contentHandler rt d (DeleteComment valid user vid commentId) =
     onVideos d (deleteComment valid (db_videos d) user vid commentId)"
| "contentHandler rt d (GetPYQ valid pid) = onPyqs d (getPYQ valid (db_pyqs d) pid)"
| "contentHandler rt d (CreatePYQ valid valid2 newId user fileInfo solutionFileInfo body) =
     (case createPYQ valid valid2 newId (db_pyqs d) user fileInfo solutionFileInfo body of
        (e, ps) \<Rightarrow> \<lparr> failure = e, db = d\<lparr> db_pyqs := ps \<rparr>, dispatched = [], logged = [] \<rparr>)"
| "contentHandler rt d (UpdatePYQ valid user pid fileInfo solutionFileInfo body) =
     onPyqs d (updatePYQ (rt_parseInt rt) valid (db_pyqs d) user pid fileInfo solutionFileInfo body)"
| "contentHandler rt d (DeletePYQ user pid) = onPyqs d (deletePYQ (db_pyqs d) user pid)"
| "contentHandler rt d (AddSolution valid pid fileInfo) =
     onPyqs d (addSolution valid (db_pyqs d) pid fileInfo)"
| "contentHandler rt d (VerifyPYQ valid pid) = onPyqs d (verifyPYQ valid (db_pyqs d) pid)"
| "contentHandler rt d (DownloadPYQ valid pid) = onPyqs d (downloadPYQ valid (db_pyqs d) pid)"
| "contentHandler rt d (GetSyllabus valid sid) = onSyllabi d (getSyllabus valid (db_syllabi d) sid)"
| "contentHandler rt d (CreateSyllabus valid newId user fileInfo body) =
     onSyllabi d (createSyllabus (rt_jsonParse rt) valid newId (db_syllabi d) user fileInfo body)"
| "contentHandler rt d (UpdateSyllabus valid user sid fileInfo body) =
     onSyllabi d (updateSyllabus (rt_jsonParse rt) valid (db_syllabi d) user sid fileInfo body)"
| "contentHandler rt d (DeleteSyllabus user sid) = onSyllabi d (deleteSyllabus (db_syllabi d) user sid)"
| "contentHandler rt d (DownloadSyllabus valid sid) =
     onSyllabi d (downloadSyllabus valid (db_syllabi d) sid)"
| "contentHandler rt d (VerifyContent notifyUsers valid contentType contentId) =
     verifyContent notifyUsers valid d contentType contentId"

fun contentRun :: "runtime \<Rightarrow> cdb \<Rightarrow> content_request list \<Rightarrow> cdb" where
  "contentRun rt d [] = d"
| "contentRun rt d (r # rs) = contentRun rt (db (contentHandler rt d r)) rs"

text \<open>The identifier a request asks the database to create a content item under.\<close>

fun createdId :: "content_request \<Rightarrow> oid option" where
  "createdId (CreateNote valid newId user fileInfo body) = Some newId"
| "createdId (CreateVideo videoInfo valid newId user fileInfo body) = Some newId"
| "createdId (CreatePYQ valid valid2 newId user fileInfo solutionFileInfo body) = Some newId"
| "createdId (CreateSyllabus valid newId user fileInfo body) = Some newId"
| "createdId r = None"

text \<open>An item of a collection is absent or verified.\<close>

definition absentOrVerified :: "'a verifiable_scheme list \<Rightarrow> oid \<Rightarrow> bool" where
  "absentOrVerified docs i =
     (case findById item_id docs i of None \<Rightarrow> True | Some d \<Rightarrow> isVerified d)"

text \<open>
  Reading \<open>isVerified\<close> off a stored content document.  A syllabus document has no
  such property: the read gives \<open>undefined\<close>.
\<close>

datatype content_doc = NoteDoc note_doc | VideoDoc video | PyqDoc pyq | SyllabusDoc syllabus

fun isVerifiedOf :: "content_doc \<Rightarrow> bool option" where
  "isVerifiedOf (NoteDoc n) = Some (isVerified n)"
| "isVerifiedOf (VideoDoc v) = Some (isVerified v)"
| "isVerifiedOf (PyqDoc p) = Some (isVerified p)"
| "isVerifiedOf (SyllabusDoc s) = None"

text \<open>A request is denied when it is answered with status 403.\<close>

fun denied :: "error + 'a \<Rightarrow> bool" where
  "denied (Inl (ErrorResponse msg status)) = (status = 403)"
| "denied r = False"

text \<open>A controller that throws has written nothing: the collection is as before.\<close>

fun stateAfter :: "'s \<Rightarrow> error + 's \<Rightarrow> 's" where
  "stateAfter s (Inl e) = s"
| "stateAfter s (Inr s') = s'"

text \<open>
  The ratings of a note are in order when no user occurs twice and the stored average is
  the mean of the stored values (zero when there are none).
\<close>

definition mean :: "rat list \<Rightarrow> rat" where
  "mean xs = (if xs = [] then 0 else sum_list xs / of_nat (length xs))"

definition ratingsOk :: "note_doc \<Rightarrow> bool" where
  "ratingsOk n = (distinct (map r_user (ratings n)) \<and> averageRating n = mean (map r_rating (ratings n)))"

section \<open>Auth controller: direct registration\<close>

text \<open>
  The user document, without the password and token fields: hashing the password and
  issuing the session token are outside the model.
\<close>

record user =
  u_id :: oid
  u_name :: "jsval option"
  u_email :: "jsval option"
  u_phone :: "jsval option"
  u_role :: role
  u_branch :: "jsval option"
  u_year :: "jsval option"
  u_semester :: "jsval option"
  u_rollNumber :: "jsval option"
  u_isVerified :: bool
  u_otp :: "jsval option"
  u_otpExpiry :: "jsval option"

text \<open>
  register creates the user and then saves the hashed one-time password on it.  If that
  second save is rejected the request fails although the user exists, so the result is
  the error, if any, and the collection afterwards.  \<open>hashedOTP\<close> and \<open>otpExpiry\<close>
  are the values the random generator, the hash and the clock produced.
\<close>

definition register ::
  "bool \<Rightarrow> bool \<Rightarrow> oid \<Rightarrow> jsval \<Rightarrow> jsval \<Rightarrow> user list \<Rightarrow> jsobj \<Rightarrow> error option \<times> user list" where
  "register valid valid2 newId hashedOTP otpExpiry userColl body =
     (let userExists = find (\<lambda>u. u_email u = body ''email'') userColl
      in if userExists \<noteq> None
           then (Some (ErrorResponse ''Email already registered'' 400), userColl)
         else if truthyOpt (body ''role'') \<and> body ''role'' \<noteq> Some (JStr ''student'')
           then (Some (ErrorResponse ''Only students can register directly'' 400), userColl)
         else
           let u = \<lparr> u_id = newId, u_name = body ''name'', u_email = body ''email'',
                     u_phone = body ''phone'', u_role = Student, u_branch = body ''branch'',
                     u_year = body ''year'', u_semester = body ''semester'',
                     u_rollNumber = body ''rollNumber'', u_isVerified = False,
                     u_otp = None, u_otpExpiry = None \<rparr>
           in case create u_id valid userColl u of
                Inl e \<Rightarrow> (Some e, userColl)
              | Inr users1 \<Rightarrow>
                  if \<not> valid2 then (Some ValidationError, users1)
                  else (None, findByIdAndUpdate u_id users1 newId
                                (\<lambda>d. u\<lparr> u_otp := Some hashedOTP, u_otpExpiry := Some otpExpiry \<rparr>)))"

section \<open>Routers: the middleware in front of the controllers\<close>

text \<open>
  Every router starts with \<open>protect\<close>, which authenticates the request and sets
  \<open>req.user\<close>; the requests of this model are those of an authenticated user.  The
  middleware \<open>isVerified\<close> then refuses a user whose account is not verified
  (\<open>req.user.isVerified\<close>, here \<open>accountVerified\<close>), and \<open>authorize\<close> refuses a user
  whose role is not among the listed ones.  Both answer with status 403 and a message
  and do not call the controller; the answer is written here as the error value with
  that message and status, like the errors the controllers throw.
\<close>

definition isVerifiedUser :: "bool \<Rightarrow> error option" where
  "isVerifiedUser accountVerified =
     (if \<not> accountVerified
        then Some (ErrorResponse ''Please verify your account to access this route'' 403)
      else None)"

fun roleName :: "role \<Rightarrow> string" where
  "roleName Student = ''student''"
| "roleName Teacher = ''teacher''"
| "roleName Admin = ''admin''"

definition authorize :: "role list \<Rightarrow> actor \<Rightarrow> error option" where
  "authorize roles user =
     (if role user \<notin> set roles
        then Some (ErrorResponse
               (''User role '' @ roleName (role user) @ '' is not authorized to access this route'') 403)
      else None)"

text \<open>
  A route is a chain of middleware and a controller: the first middleware that refuses
  answers the request, and the controller runs when none does.
\<close>

fun route :: "error option list \<Rightarrow> error + 'a \<Rightarrow> error + 'a" where
  "route [] controller = controller"
| "route (None # middleware) controller = route middleware controller"
| "route (Some e # middleware) controller = Inl e"

text \<open>
  The routes that update or delete a note, a video, a PYQ, a syllabus, a message or an
  announcement, and the route that adds a solution to a PYQ.  The routes that take a file
  have the upload middleware before the controller; \<open>upload\<close> is its outcome for the
  request at hand: \<open>None\<close> when it passes the request on, with the stored file in
  \<open>req.fileInfo\<close> (the \<open>fileInfo\<close> argument of the controller), and the error when
  it refuses the file.
\<close>

text \<open>\<open>/api/notes/:id\<close>, PUT and DELETE.\<close>

definition updateNoteRoute ::
  "bool \<Rightarrow> error option \<Rightarrow> bool \<Rightarrow> note_doc list \<Rightarrow> actor \<Rightarrow> oid \<Rightarrow> file_info option
     \<Rightarrow> jsobj \<Rightarrow> error + note_doc list" where
  "updateNoteRoute accountVerified upload valid notes user nid fileInfo body =
     route [isVerifiedUser accountVerified, upload]
       (updateNote valid notes user nid fileInfo body)"

definition deleteNoteRoute :: "bool \<Rightarrow> note_doc list \<Rightarrow> actor \<Rightarrow> oid \<Rightarrow> error + note_doc list" where
  "deleteNoteRoute accountVerified notes user nid =
     route [isVerifiedUser accountVerified] (deleteNote notes user nid)"

text \<open>\<open>/api/videos/:id\<close>, PUT and DELETE.\<close>

definition updateVideoRoute ::
  "bool \<Rightarrow> error option \<Rightarrow> (jsval \<times> jsval) option \<Rightarrow> bool \<Rightarrow> video list \<Rightarrow> actor \<Rightarrow> oid
     \<Rightarrow> file_info option \<Rightarrow> jsobj \<Rightarrow> error + video list" where
  "updateVideoRoute accountVerified upload videoInfo valid videos user vid fileInfo body =
     route [isVerifiedUser accountVerified, upload]
       (updateVideo videoInfo valid videos user vid fileInfo body)"

definition deleteVideoRoute :: "bool \<Rightarrow> video list \<Rightarrow> actor \<Rightarrow> oid \<Rightarrow> error + video list" where
  "deleteVideoRoute accountVerified videos user vid =
     route [isVerifiedUser accountVerified] (deleteVideo videos user vid)"

text \<open>
  \<open>/api/pyq/:id\<close>, PUT and DELETE, and \<open>/api/pyq/:id/solution\<close>, PUT, which is open to
  admins and teachers.
\<close>

definition updatePYQRoute ::
  "bool \<Rightarrow> error option \<Rightarrow> (jsval \<Rightarrow> jsval) \<Rightarrow> bool \<Rightarrow> pyq list \<Rightarrow> actor \<Rightarrow> oid
     \<Rightarrow> file_info option \<Rightarrow> file_info option \<Rightarrow> jsobj \<Rightarrow> error + pyq list" where
  "updatePYQRoute accountVerified upload parseInt valid pyqs user pid fileInfo solutionFileInfo body =
     route [isVerifiedUser accountVerified, upload]
       (updatePYQ parseInt valid pyqs user pid fileInfo solutionFileInfo body)"

definition deletePYQRoute :: "bool \<Rightarrow> pyq list \<Rightarrow> actor \<Rightarrow> oid \<Rightarrow> error + pyq list" where
  "deletePYQRoute accountVerified pyqs user pid =
     route [isVerifiedUser accountVerified] (deletePYQ pyqs user pid)"

definition addSolutionRoute ::
  "bool \<Rightarrow> error option \<Rightarrow> bool \<Rightarrow> pyq list \<Rightarrow> actor \<Rightarrow> oid \<Rightarrow> file_info option
     \<Rightarrow> error + pyq list" where
  "addSolutionRoute accountVerified upload valid pyqs user pid fileInfo =
     route [isVerifiedUser accountVerified, authorize [Admin, Teacher] user, upload]
       (addSolution valid pyqs pid fileInfo)"

text \<open>\<open>/api/syllabus/:id\<close>, PUT and DELETE, both open to admins and teachers.\<close>

definition updateSyllabusRoute ::
  "bool \<Rightarrow> error option \<Rightarrow> (jsval \<Rightarrow> jsval option) \<Rightarrow> bool \<Rightarrow> syllabus list \<Rightarrow> actor \<Rightarrow> oid
     \<Rightarrow> file_info option \<Rightarrow> jsobj \<Rightarrow> error + syllabus list" where
  "updateSyllabusRoute accountVerified upload jsonParse valid syllabi user sid fileInfo body =
     route [isVerifiedUser accountVerified, authorize [Admin, Teacher] user, upload]
       (updateSyllabus jsonParse valid syllabi user sid fileInfo body)"

definition deleteSyllabusRoute :: "bool \<Rightarrow> syllabus list \<Rightarrow> actor \<Rightarrow> oid \<Rightarrow> error + syllabus list" where
  "deleteSyllabusRoute accountVerified syllabi user sid =
     route [isVerifiedUser accountVerified, authorize [Admin, Teacher] user]
       (deleteSyllabus syllabi user sid)"

text \<open>\<open>/api/community/messages/:id\<close>, DELETE.\<close>

definition deleteMessageRoute ::
  "bool \<Rightarrow> bool \<Rightarrow> message list \<Rightarrow> actor \<Rightarrow> oid \<Rightarrow> error + message list" where
  "deleteMessageRoute accountVerified valid messages user mid =
     route [isVerifiedUser accountVerified] (deleteMessage valid messages user mid)"

text \<open>
  \<open>/api/admin/announcements/:id\<close>, PUT and DELETE.  The admin router lets only admins
  through, on all its routes.
\<close>

definition updateAnnouncementRoute ::
  "bool \<Rightarrow> error option \<Rightarrow> (jsval \<Rightarrow> jsval option) \<Rightarrow> bool \<Rightarrow> announcement list \<Rightarrow> actor
     \<Rightarrow> oid \<Rightarrow> file_info list \<Rightarrow> jsobj \<Rightarrow> error + announcement list" where
  "updateAnnouncementRoute accountVerified upload jsonParse valid announcements user aid filesInfo body =
     route [isVerifiedUser accountVerified, authorize [Admin] user, upload]
       (updateAnnouncement jsonParse valid announcements user aid filesInfo body)"

definition deleteAnnouncementRoute ::
  "bool \<Rightarrow> announcement list \<Rightarrow> actor \<Rightarrow> oid \<Rightarrow> error + announcement list" where
  "deleteAnnouncementRoute accountVerified announcements user aid =
     route [isVerifiedUser accountVerified, authorize [Admin] user]
       (deleteAnnouncement announcements user aid)"

section \<open>Properties of the visibility filter\<close>

lemma fer_branch:
  "filterEducationalResources parseInt query r u ''branch'' =
     (if truthyOpt (query ''branch'') then query ''branch''
      else if r = Student \<and> truthyOpt (branch u) then branch u else None)"
  by (simp add: filterEducationalResources_def Let_def)

lemma fer_year:
  "filterEducationalResources parseInt query r u ''year'' =
     (if truthyOpt (query ''year'') then map_option parseInt (query ''year'')
      else if r = Student \<and> truthyOpt (year u) then year u else None)"
  by (simp add: filterEducationalResources_def Let_def)

lemma fer_semester:
  "filterEducationalResources parseInt query r u ''semester'' =
     (if truthyOpt (query ''semester'') then map_option parseInt (query ''semester'')
      else if r = Student \<and> truthyOpt (semester u) then semester u else None)"
  by (simp add: filterEducationalResources_def Let_def)

lemma fer_subject:
  "filterEducationalResources parseInt query r u ''subject'' =
     (if truthyOpt (query ''subject'') then query ''subject'' else None)"
  by (simp add: filterEducationalResources_def Let_def)

lemma fer_other:
  "k \<notin> {''branch'', ''year'', ''semester'', ''subject''} \<Longrightarrow>
     filterEducationalResources parseInt query r u k = None"
  by (simp add: filterEducationalResources_def Let_def)

lemma truthyOpt_Some: "truthyOpt x \<Longrightarrow> x \<noteq> None"
  by (cases x) simp_all

text \<open>
  Claim C1.  A query supplies a field when the field's value is truthy (present and not
  the empty string); a profile field is set when it is truthy.  For each of branch, year
  and semester the filter holds the query's value when the query supplies one (for year
  and semester, that value read by \<open>parseInt\<close>); otherwise, for a student whose profile
  field is set, the profile value; otherwise the filter has no entry for the field, which
  is always the case for teachers and admins.  The filter has a subject entry exactly
  when the query names a subject, whatever the role, and it has no other entries.
\<close>

theorem filter_visibility:
  "let f = resourceFilter parseInt query user in
   (truthyOpt (query ''branch'') \<longrightarrow> f ''branch'' = query ''branch'') \<and>
   (truthyOpt (query ''year'') \<longrightarrow> f ''year'' = map_option parseInt (query ''year'')) \<and>
   (truthyOpt (query ''semester'') \<longrightarrow> f ''semester'' = map_option parseInt (query ''semester'')) \<and>
   (\<not> truthyOpt (query ''branch'') \<and> role user = Student \<and> truthyOpt (branch user)
      \<longrightarrow> f ''branch'' = branch user) \<and>
   (\<not> truthyOpt (query ''year'') \<and> role user = Student \<and> truthyOpt (year user)
      \<longrightarrow> f ''year'' = year user) \<and>
   (\<not> truthyOpt (query ''semester'') \<and> role user = Student \<and> truthyOpt (semester user)
      \<longrightarrow> f ''semester'' = semester user) \<and>
   (\<not> truthyOpt (query ''branch'') \<and> \<not> (role user = Student \<and> truthyOpt (branch user))
      \<longrightarrow> f ''branch'' = None) \<and>
   (\<not> truthyOpt (query ''year'') \<and> \<not> (role user = Student \<and> truthyOpt (year user))
      \<longrightarrow> f ''year'' = None) \<and>
   (\<not> truthyOpt (query ''semester'') \<and> \<not> (role user = Student \<and> truthyOpt (semester user))
      \<longrightarrow> f ''semester'' = None) \<and>
   (f ''subject'' \<noteq> None \<longleftrightarrow> truthyOpt (query ''subject'')) \<and>
   (truthyOpt (query ''subject'') \<longrightarrow> f ''subject'' = query ''subject'') \<and>
   dom f \<subseteq> {''branch'', ''year'', ''semester'', ''subject''}"
proof -
  have d: "dom (resourceFilter parseInt query user) \<subseteq> {''branch'', ''year'', ''semester'', ''subject''}"
    unfolding resourceFilter_def using fer_other by (metis domIff subsetI)
  have s: "(resourceFilter parseInt query user ''subject'' \<noteq> None) = truthyOpt (query ''subject'')"
    unfolding resourceFilter_def fer_subject using truthyOpt_Some by auto
  show ?thesis
    unfolding Let_def
    using d s by (simp add: resourceFilter_def fer_branch fer_year fer_semester fer_subject)
qed

theorem filter_visibility_witness:
  "let query = [''year'' \<mapsto> JStr ''2'', ''subject'' \<mapsto> JStr ''s1''];
       user = \<lparr> branch = Some (JStr ''CSE''), year = Some (JNum 3), semester = None,
                uid = 1, role = Student \<rparr>;
       f = resourceFilter (\<lambda>v. JNum 2) query user
   in truthyOpt (query ''year'') \<and> \<not> truthyOpt (query ''branch'') \<and> truthyOpt (branch user) \<and>
      f ''branch'' = Some (JStr ''CSE'') \<and> f ''year'' = Some (JNum 2) \<and> f ''semester'' = None \<and>
      f ''subject'' = Some (JStr ''s1'')"
  using filter_visibility [where query = "[''year'' \<mapsto> JStr ''2'', ''subject'' \<mapsto> JStr ''s1'']"
     and parseInt = "\<lambda>v. JNum 2" and user =
     "\<lparr> branch = Some (JStr ''CSE''), year = Some (JNum 3), semester = None, uid = 1, role = Student \<rparr>"]
  by (simp add: Let_def)

section \<open>Properties of collections and update operators\<close>

lemma findById_mem: "findById idOf ds i = Some d \<Longrightarrow> d \<in> set ds \<and> idOf d = i"
  unfolding findById_def by (induction ds) (auto split: if_splits)

lemma update_list_all:
  "findById idOf ds i = Some c \<Longrightarrow> list_all P ds \<Longrightarrow> P (f c) \<Longrightarrow>
     list_all P (findByIdAndUpdate idOf ds i f)"
  unfolding findById_def by (induction ds) (auto split: if_splits)

lemma update_same:
  "findById idOf ds i = Some c \<Longrightarrow> f c = c \<Longrightarrow> findByIdAndUpdate idOf ds i f = ds"
  unfolding findById_def by (induction ds) (auto split: if_splits)

lemma findById_update:
  "(\<And>d. idOf (f d) = idOf d) \<Longrightarrow>
     findById idOf (findByIdAndUpdate idOf ds i f) j =
       (if j = i then map_option f (findById idOf ds i) else findById idOf ds j)"
  unfolding findById_def by (induction ds) (auto split: if_splits)

lemma update_inv:
  assumes "findById idOf ds i = Some c" and "list_all P ds" and "P c \<Longrightarrow> P (f c)"
  shows "list_all P (findByIdAndUpdate idOf ds i f)"
proof -
  from assms(1) have "c \<in> set ds" by (simp add: findById_mem)
  with assms(2) have "P c" by (simp add: list_all_iff)
  with assms show ?thesis by (auto intro: update_list_all)
qed

lemma create_list_all:
  "create idOf valid ds d = Inr ds' \<Longrightarrow> list_all P ds \<Longrightarrow> P d \<Longrightarrow> list_all P ds'"
  unfolding create_def by (auto split: if_splits)

lemma set_addToSet: "set (addToSet arr xs) = set arr \<union> set xs"
  by (induction arr xs rule: addToSet.induct) auto

lemma addToSet_subset: "set xs \<subseteq> set arr \<Longrightarrow> addToSet arr xs = arr"
  by (induction arr xs rule: addToSet.induct) auto


section \<open>Group membership and the group admin\<close>




















text \<open>
  Claim C8.  For a chat with a group admin and a caller who is that admin or an
  application admin, adding user \<open>u\<close> succeeds; the member set becomes the old one
  plus \<open>u\<close>.  If \<open>u\<close> was already a member nothing changes and there is no error;
  if not, the member array grows by exactly one.  A second add of the same user succeeds
  and leaves the collection as the first add made it.
\<close>

theorem addToGroup_idempotent:
  assumes "findById chat_id chats cid = Some c" and "groupAdmin c = Some ga"
    and "ga = uid user \<or> role user = Admin"
  shows "\<exists>chats' c'. addToGroup chats user cid (Some [u]) = Inr chats' \<and>
           findById chat_id chats' cid = Some c' \<and>
           set (users c') = insert u (set (users c)) \<and>
           (u \<in> set (users c) \<longrightarrow> chats' = chats \<and> users c' = users c) \<and>
           (u \<notin> set (users c) \<longrightarrow> length (users c') = length (users c) + 1) \<and>
           addToGroup chats' user cid (Some [u]) = Inr chats'"
proof -
  let ?f = "\<lambda>d. d\<lparr> users := addToSet (users d) [u] \<rparr>"
  let ?chats' = "findByIdAndUpdate chat_id chats cid ?f"
  have r1: "addToGroup chats user cid (Some [u]) = Inr ?chats'"
    using assms unfolding addToGroup_def by auto
  have f1: "findById chat_id ?chats' cid = Some (?f c)"
    using assms(1) by (simp add: findById_update)
  have ga': "groupAdmin (?f c) = Some ga" using assms(2) by simp
  have mem: "u \<in> set (users (?f c))" by simp
  have same: "?f (?f c) = ?f c" using mem by simp
  have upd: "findByIdAndUpdate chat_id ?chats' cid ?f = ?chats'"
    using f1 same by (rule update_same [where f = ?f])
  have r2: "addToGroup ?chats' user cid (Some [u]) = Inr ?chats'"
    using f1 ga' assms(3) upd unfolding addToGroup_def by auto
  have noop: "u \<in> set (users c) \<Longrightarrow> ?chats' = chats \<and> users (?f c) = users c"
    using update_same [where f = ?f, OF assms(1)] by simp
  have len: "u \<notin> set (users c) \<Longrightarrow> length (users (?f c)) = length (users c) + 1" by simp
  have st: "set (users (?f c)) = insert u (set (users c))" by auto
  show ?thesis using r1 f1 st noop len r2 by blast
qed

theorem addToGroup_idempotent_witness:
  "\<exists>chats'. addToGroup
      [\<lparr> chat_id = 10, chatName = Some (JStr ''g''), isGroupChat = True, users = [1, 2],
         latestMessage = None, groupAdmin = Some 1, isPublic = False, chat_subject = None,
         chat_branch = None, chat_year = None, chat_semester = None \<rparr>]
      \<lparr> branch = None, year = None, semester = None, uid = 1, role = Student \<rparr> 10 (Some [3]) = Inr chats' \<and>
    addToGroup chats'
      \<lparr> branch = None, year = None, semester = None, uid = 1, role = Student \<rparr> 10 (Some [3]) = Inr chats' \<and>
    map users chats' = [[1, 2, 3]]"
proof -
  let ?g = "\<lparr> chat_id = 10, chatName = Some (JStr ''g''), isGroupChat = True, users = [1, 2],
         latestMessage = None, groupAdmin = Some 1, isPublic = False, chat_subject = None,
         chat_branch = None, chat_year = None, chat_semester = None \<rparr>"
  let ?u = "\<lparr> branch = None, year = None, semester = None, uid = 1, role = Student \<rparr>"
  have h1: "findById chat_id [?g] 10 = Some ?g" by (simp add: findById_def)
  have h2: "groupAdmin ?g = Some 1" by simp
  have h3: "1 = uid ?u \<or> role ?u = Admin" by simp
  from addToGroup_idempotent [OF h1 h2 h3, of 3]
  obtain chats' where a: "addToGroup [?g] ?u 10 (Some [3]) = Inr chats'"
    and b: "addToGroup chats' ?u 10 (Some [3]) = Inr chats'" by blast
  have e: "addToGroup [?g] ?u 10 (Some [3]) = Inr [?g\<lparr> users := [1, 2, 3] \<rparr>]"
    by (simp add: addToGroup_def findById_def)
  from a e have "chats' = [?g\<lparr> users := [1, 2, 3] \<rparr>]" by simp
  then have "map users chats' = [[1, 2, 3]]" by simp
  with a b show ?thesis by (intro exI [of _ chats'] conjI)
qed

section \<open>Unread counts and read marking\<close>

lemma bump_total: "(\<Sum>item\<leftarrow>bump k acc. snd item) = (\<Sum>item\<leftarrow>acc. snd item) + 1"
  by (induction k acc rule: bump.induct) auto

lemma foldl_add: "foldl (\<lambda>a item. a + snd item) (n::nat) xs = n + (\<Sum>item\<leftarrow>xs. snd item)"
  by (induction xs arbitrary: n) auto

lemma group_total:
  "(\<Sum>item\<leftarrow>groupByChat ms acc. snd item) = (\<Sum>item\<leftarrow>acc. snd item) + length ms"
  by (induction ms arbitrary: acc) (auto simp: bump_total)

lemma bump_keys: "map fst (bump k acc) = (if k \<in> fst ` set acc then map fst acc else map fst acc @ [k])"
  by (induction k acc rule: bump.induct) auto

lemma bump_distinct: "distinct (map fst acc) \<Longrightarrow> distinct (map fst (bump k acc))"
  by (simp add: bump_keys)

lemma bump_lookup:
  "map_of (bump k acc) k' =
     (if k' = k then Some (case map_of acc k of None \<Rightarrow> 1 | Some n \<Rightarrow> n + 1) else map_of acc k')"
  by (induction k acc rule: bump.induct) auto

lemma group_distinct: "distinct (map fst acc) \<Longrightarrow> distinct (map fst (groupByChat ms acc))"
  by (induction ms arbitrary: acc) (auto simp: bump_distinct)

lemma group_lookup_cnt:
  "\<forall>k n. map_of acc k = Some n \<longrightarrow> n > 0 \<Longrightarrow>
    (\<forall>k n. map_of (groupByChat ms acc) k = Some n \<longrightarrow> n > 0) \<and>
    cnt (groupByChat ms acc) k = cnt acc k + length (filter (\<lambda>m. msg_chat m = k) ms)"
proof (induction ms arbitrary: acc)
  case Nil then show ?case by simp
next
  case (Cons m ms)
  have p: "\<forall>k n. map_of (bump (msg_chat m) acc) k = Some n \<longrightarrow> n > 0"
    using Cons.prems by (auto simp: bump_lookup split: option.splits)
  have c: "cnt (bump (msg_chat m) acc) k = cnt acc k + (if msg_chat m = k then 1 else 0)"
    by (auto simp: cnt_def bump_lookup split: option.splits)
  from Cons.IH [OF p] c show ?case by auto
qed

lemma foldl_upd_map_of:
  "distinct (map fst xs) \<Longrightarrow>
   foldl (\<lambda>obj item. obj(fst item \<mapsto> snd item)) m xs k =
     (case map_of xs k of None \<Rightarrow> m k | Some n \<Rightarrow> Some n)"
proof (induction xs arbitrary: m)
  case Nil then show ?case by simp
next
  case (Cons x xs)
  then show ?case
    by (cases x) (auto split: option.splits simp: map_of_eq_None_iff image_iff)
qed

lemma in_userChats:
  "(k \<in> set (map chat_id (filter (\<lambda>c. u \<in> set (users c)) chats))) =
     (\<exists>c \<in> set chats. chat_id c = k \<and> u \<in> set (users c))"
  by auto

lemma matched_eq:
  "filter (\<lambda>m. msg_chat m \<in> set (map chat_id (filter (\<lambda>c. u \<in> set (users c)) chats)) \<and>
                sender m \<noteq> u \<and> u \<notin> set (readBy m) \<and> isDeleted m \<noteq> True) messages =
   filter (isUnreadFor chats u) messages"
  unfolding isUnreadFor_def in_userChats by (rule filter_cong) auto

lemma filter_by_key_sum:
  "length (filter P xs) = (\<Sum>k \<in> f ` set xs. length (filter (\<lambda>x. f x = k \<and> P x) xs))"
proof -
  show ?thesis
  proof (induction xs)
    case Nil then show ?case by simp
  next
    case (Cons x xs)
    let ?g = "\<lambda>ys k. length (filter (\<lambda>x. f x = k \<and> P x) ys)"
    have fin: "finite (f ` set xs)" by simp
    have split: "(\<Sum>k \<in> insert (f x) (f ` set xs). ?g (x # xs) k) =
                 ?g (x # xs) (f x) + (\<Sum>k \<in> f ` set xs - {f x}. ?g (x # xs) k)"
      by (simp add: sum.insert_remove)
    have rest: "(\<Sum>k \<in> f ` set xs - {f x}. ?g (x # xs) k) = (\<Sum>k \<in> f ` set xs - {f x}. ?g xs k)"
      by (rule sum.cong) auto
    have old: "(\<Sum>k \<in> f ` set xs. ?g xs k) = (\<Sum>k \<in> insert (f x) (f ` set xs). ?g xs k)"
    proof (cases "f x \<in> f ` set xs")
      case True then show ?thesis by (simp add: insert_absorb)
    next
      case False
      then have "\<forall>y \<in> set xs. f y \<noteq> f x" by (metis imageI)
      then have "?g xs (f x) = 0" by (simp add: filter_empty_conv)
      with False show ?thesis by simp
    qed
    have old2: "(\<Sum>k \<in> insert (f x) (f ` set xs). ?g xs k) =
                ?g xs (f x) + (\<Sum>k \<in> f ` set xs - {f x}. ?g xs k)"
      by (simp add: sum.insert_remove)
    have hd: "?g (x # xs) (f x) = (if P x then 1 else 0) + ?g xs (f x)" by simp
    show ?case using Cons.IH split rest old old2 hd by simp
  qed
qed

lemma getMessages_marked:
  assumes "getMessages chats messages user chatId pageParam limitParam = Inr (page, messages')"
  shows "messages' = map (\<lambda>m. if msg_chat m = chatId \<and> uid user \<notin> set (readBy m)
                                 then m\<lparr> readBy := addToSet (readBy m) [uid user] \<rparr>
                                 else m) messages"
proof (cases "findById chat_id chats chatId")
  case None
  with assms show ?thesis by (simp add: getMessages_def)
next
  case (Some c)
  show ?thesis
  proof (cases "uid user \<in> set (users c)")
    case False
    with Some assms show ?thesis by (simp add: getMessages_def)
  next
    case True
    show ?thesis
    proof (cases "(orDefault pageParam 1 - 1) * orDefault limitParam 50 < 0")
      case neg: True
      with Some True assms show ?thesis by (simp add: getMessages_def Let_def)
    next
      case pos: False
      with Some True assms show ?thesis by (simp add: getMessages_def Let_def)
    qed
  qed
qed

lemma marked_all:
  assumes "messages' = map (\<lambda>m. if msg_chat m = chatId \<and> u \<notin> set (readBy m)
                                 then m\<lparr> readBy := addToSet (readBy m) [u] \<rparr>
                                 else m) messages"
  shows "\<forall>m \<in> set messages'. msg_chat m = chatId \<longrightarrow> u \<in> set (readBy m)"
proof
  fix m assume "m \<in> set messages'"
  then obtain m0 where m0: "m0 \<in> set messages" and
    m: "m = (if msg_chat m0 = chatId \<and> u \<notin> set (readBy m0)
              then m0\<lparr> readBy := addToSet (readBy m0) [u] \<rparr> else m0)"
    unfolding assms by (auto simp del: addToSet.simps)
  show "msg_chat m = chatId \<longrightarrow> u \<in> set (readBy m)"
    unfolding m by (simp add: set_addToSet del: addToSet.simps)
qed

text \<open>
  Claim C6.  For every user, \<open>totalUnread\<close> is the number of messages that sit in a
  chat with the user among its members, were sent by someone else, do not have the user
  in \<open>readBy\<close> and are not soft-deleted; \<open>unreadByChat\<close> holds, for each chat with
  at least one such message, their number in that chat, and the total is the sum of the
  per-chat numbers.  getMessages succeeds when the user is a member of the chat and the
  page is not before the first.  When it succeeds, the stored messages are the ones
  before, in the same order, with the user appended to \<open>readBy\<close> of exactly those
  messages of the chat that did not have the user there; so every message of that chat
  has the user in \<open>readBy\<close> afterwards, the user has no unread message in that chat,
  and a following unread count has no entry for it.
\<close>

theorem unread_count:
  "let r = getUnreadCount chats messages user; u = uid user in
   totalUnread r = length (filter (isUnreadFor chats u) messages) \<and>
   (\<forall>cid. unreadByChat r cid =
      (if unreadIn chats messages u cid = 0 then None else Some (unreadIn chats messages u cid))) \<and>
   totalUnread r = (\<Sum>cid \<in> msg_chat ` set messages. unreadIn chats messages u cid) \<and>
   (\<forall>c. findById chat_id chats chatId = Some c \<and> u \<in> set (users c) \<and>
        0 \<le> (orDefault pageParam 1 - 1) * orDefault limitParam 50 \<longrightarrow>
      (\<exists>page messages'. getMessages chats messages user chatId pageParam limitParam = Inr (page, messages'))) \<and>
   (\<forall>page messages'. getMessages chats messages user chatId pageParam limitParam = Inr (page, messages') \<longrightarrow>
      messages' = map (\<lambda>m. if msg_chat m = chatId \<and> u \<notin> set (readBy m)
                              then m\<lparr> readBy := readBy m @ [u] \<rparr> else m) messages \<and>
      (\<forall>m \<in> set messages'. msg_chat m = chatId \<longrightarrow> u \<in> set (readBy m)) \<and>
      unreadIn chats messages' u chatId = 0 \<and>
      unreadByChat (getUnreadCount chats messages' user) chatId = None)"
proof -
  let ?u = "uid user"
  let ?matched = "filter (isUnreadFor chats ?u) messages"
  let ?counts = "\<lambda>ms. groupByChat (filter (isUnreadFor chats ?u) ms) []"
  have total: "\<And>ms. totalUnread (getUnreadCount chats ms user) = length (filter (isUnreadFor chats ?u) ms)"
    unfolding getUnreadCount_def Let_def matched_eq by (simp add: foldl_add group_total)
  have byChat: "\<And>ms cid. unreadByChat (getUnreadCount chats ms user) cid =
      (if unreadIn chats ms ?u cid = 0 then None else Some (unreadIn chats ms ?u cid))"
  proof -
    fix ms cid
    have d: "distinct (map fst (?counts ms))" by (simp add: group_distinct)
    have g: "(\<forall>k n. map_of (?counts ms) k = Some n \<longrightarrow> n > 0) \<and>
             cnt (?counts ms) cid = cnt [] cid + length (filter (\<lambda>m. msg_chat m = cid) (filter (isUnreadFor chats ?u) ms))"
      by (rule group_lookup_cnt) simp
    have u: "unreadIn chats ms ?u cid = length (filter (\<lambda>m. msg_chat m = cid) (filter (isUnreadFor chats ?u) ms))"
      by (simp add: unreadIn_def conj_commute)
    have "unreadByChat (getUnreadCount chats ms user) cid = map_of (?counts ms) cid"
      unfolding getUnreadCount_def Let_def matched_eq
      using d by (simp add: foldl_upd_map_of split: option.splits)
    also have "\<dots> = (if unreadIn chats ms ?u cid = 0 then None else Some (unreadIn chats ms ?u cid))"
      using g u by (cases "map_of (?counts ms) cid") (auto simp: cnt_def)
    finally show "unreadByChat (getUnreadCount chats ms user) cid =
      (if unreadIn chats ms ?u cid = 0 then None else Some (unreadIn chats ms ?u cid))" .
  qed
  have summed: "length (filter (isUnreadFor chats ?u) messages) =
      (\<Sum>cid \<in> msg_chat ` set messages. unreadIn chats messages ?u cid)"
    unfolding unreadIn_def by (rule filter_by_key_sum)
  have marked: "\<And>page messages'. getMessages chats messages user chatId pageParam limitParam = Inr (page, messages') \<Longrightarrow>
      (\<forall>m \<in> set messages'. msg_chat m = chatId \<longrightarrow> ?u \<in> set (readBy m))"
  proof -
    fix page messages'
    assume "getMessages chats messages user chatId pageParam limitParam = Inr (page, messages')"
    then have "messages' = map (\<lambda>m. if msg_chat m = chatId \<and> ?u \<notin> set (readBy m)
                                 then m\<lparr> readBy := addToSet (readBy m) [?u] \<rparr>
                                 else m) messages"
      by (rule getMessages_marked)
    then show "\<forall>m \<in> set messages'. msg_chat m = chatId \<longrightarrow> ?u \<in> set (readBy m)"
      by (rule marked_all)
  qed
  have zero: "\<And>page messages'. getMessages chats messages user chatId pageParam limitParam = Inr (page, messages') \<Longrightarrow>
      unreadIn chats messages' ?u chatId = 0"
  proof -
    fix page messages'
    assume "getMessages chats messages user chatId pageParam limitParam = Inr (page, messages')"
    then have "\<forall>m \<in> set messages'. msg_chat m = chatId \<longrightarrow> ?u \<in> set (readBy m)"
      by (rule marked)
    then have "\<forall>m \<in> set messages'. \<not> (msg_chat m = chatId \<and> isUnreadFor chats ?u m)"
      by (simp add: isUnreadFor_def)
    then show "unreadIn chats messages' ?u chatId = 0"
      by (simp add: unreadIn_def filter_empty_conv)
  qed
  have c1: "totalUnread (getUnreadCount chats messages user) = length (filter (isUnreadFor chats ?u) messages)"
    by (rule total)
  have c3: "totalUnread (getUnreadCount chats messages user) =
      (\<Sum>cid \<in> msg_chat ` set messages. unreadIn chats messages ?u cid)"
    using total summed by simp
  have c0: "\<forall>c. findById chat_id chats chatId = Some c \<and> ?u \<in> set (users c) \<and>
        0 \<le> (orDefault pageParam 1 - 1) * orDefault limitParam 50 \<longrightarrow>
      (\<exists>page messages'. getMessages chats messages user chatId pageParam limitParam = Inr (page, messages'))"
    by (simp add: getMessages_def Let_def)
  have c4: "\<forall>page messages'. getMessages chats messages user chatId pageParam limitParam = Inr (page, messages') \<longrightarrow>
      messages' = map (\<lambda>m. if msg_chat m = chatId \<and> ?u \<notin> set (readBy m)
                              then m\<lparr> readBy := readBy m @ [?u] \<rparr> else m) messages \<and>
      (\<forall>m \<in> set messages'. msg_chat m = chatId \<longrightarrow> ?u \<in> set (readBy m)) \<and>
      unreadIn chats messages' ?u chatId = 0 \<and>
      unreadByChat (getUnreadCount chats messages' user) chatId = None"
  proof (intro allI impI conjI)
    fix page messages'
    assume a: "getMessages chats messages user chatId pageParam limitParam = Inr (page, messages')"
    have "messages' = map (\<lambda>m. if msg_chat m = chatId \<and> ?u \<notin> set (readBy m)
                                 then m\<lparr> readBy := addToSet (readBy m) [?u] \<rparr>
                                 else m) messages"
      using a by (rule getMessages_marked)
    also have "\<dots> = map (\<lambda>m. if msg_chat m = chatId \<and> ?u \<notin> set (readBy m)
                              then m\<lparr> readBy := readBy m @ [?u] \<rparr> else m) messages"
      by (rule map_cong) simp_all
    finally show "messages' = map (\<lambda>m. if msg_chat m = chatId \<and> ?u \<notin> set (readBy m)
                              then m\<lparr> readBy := readBy m @ [?u] \<rparr> else m) messages" .
    show "\<forall>m \<in> set messages'. msg_chat m = chatId \<longrightarrow> ?u \<in> set (readBy m)" using a by (rule marked)
    show z: "unreadIn chats messages' ?u chatId = 0" using a by (rule zero)
    show "unreadByChat (getUnreadCount chats messages' user) chatId = None"
      using z by (simp add: byChat)
  qed
  show ?thesis
    unfolding Let_def using c1 byChat c3 c0 c4 by blast
qed


text \<open>
  A chat of users 1 and 2 with one unread message for user 1, one message of user 1's own
  and one deleted message: the count is 1; fetching the chat appends user 1 to
  \<open>readBy\<close> of the two messages of user 2 and leaves the rest of the collection as it
  was, and the count for the chat is gone.
\<close>

theorem unread_count_witness:
  "totalUnread (getUnreadCount
      [\<lparr> chat_id = 10, chatName = None, isGroupChat = False, users = [1, 2], latestMessage = None,
         groupAdmin = None, isPublic = False, chat_subject = None, chat_branch = None,
         chat_year = None, chat_semester = None \<rparr>]
      [\<lparr> msg_id = 1, sender = 2, msg_content = JStr ''a'', msg_chat = 10, readBy = [2],
         attachments = [], isDeleted = False \<rparr>,
       \<lparr> msg_id = 2, sender = 1, msg_content = JStr ''b'', msg_chat = 10, readBy = [1],
         attachments = [], isDeleted = False \<rparr>,
       \<lparr> msg_id = 3, sender = 2, msg_content = JStr ''[Message deleted]'', msg_chat = 10, readBy = [2],
         attachments = [], isDeleted = True \<rparr>]
      \<lparr> branch = None, year = None, semester = None, uid = 1, role = Student \<rparr>) = 1 \<and>
   (\<exists>page messages'. getMessages
      [\<lparr> chat_id = 10, chatName = None, isGroupChat = False, users = [1, 2], latestMessage = None,
         groupAdmin = None, isPublic = False, chat_subject = None, chat_branch = None,
         chat_year = None, chat_semester = None \<rparr>]
      [\<lparr> msg_id = 1, sender = 2, msg_content = JStr ''a'', msg_chat = 10, readBy = [2],
         attachments = [], isDeleted = False \<rparr>,
       \<lparr> msg_id = 2, sender = 1, msg_content = JStr ''b'', msg_chat = 10, readBy = [1],
         attachments = [], isDeleted = False \<rparr>,
       \<lparr> msg_id = 3, sender = 2, msg_content = JStr ''[Message deleted]'', msg_chat = 10, readBy = [2],
         attachments = [], isDeleted = True \<rparr>]
      \<lparr> branch = None, year = None, semester = None, uid = 1, role = Student \<rparr> 10 None None
        = Inr (page, messages') \<and>
      messages' =
        [\<lparr> msg_id = 1, sender = 2, msg_content = JStr ''a'', msg_chat = 10, readBy = [2, 1],
           attachments = [], isDeleted = False \<rparr>,
         \<lparr> msg_id = 2, sender = 1, msg_content = JStr ''b'', msg_chat = 10, readBy = [1],
           attachments = [], isDeleted = False \<rparr>,
         \<lparr> msg_id = 3, sender = 2, msg_content = JStr ''[Message deleted]'', msg_chat = 10, readBy = [2, 1],
           attachments = [], isDeleted = True \<rparr>] \<and>
      unreadByChat (getUnreadCount
        [\<lparr> chat_id = 10, chatName = None, isGroupChat = False, users = [1, 2], latestMessage = None,
           groupAdmin = None, isPublic = False, chat_subject = None, chat_branch = None,
           chat_year = None, chat_semester = None \<rparr>]
        messages'
        \<lparr> branch = None, year = None, semester = None, uid = 1, role = Student \<rparr>) 10 = None)"
proof -
  let ?c = "\<lparr> chat_id = 10, chatName = None, isGroupChat = False, users = [1, 2], latestMessage = None,
         groupAdmin = None, isPublic = False, chat_subject = None, chat_branch = None,
         chat_year = None, chat_semester = None \<rparr>"
  let ?chats = "[?c]"
  let ?m1 = "\<lparr> msg_id = 1, sender = 2, msg_content = JStr ''a'', msg_chat = 10, readBy = [2],
         attachments = [], isDeleted = False \<rparr>"
  let ?m2 = "\<lparr> msg_id = 2, sender = 1, msg_content = JStr ''b'', msg_chat = 10, readBy = [1],
         attachments = [], isDeleted = False \<rparr>"
  let ?m3 = "\<lparr> msg_id = 3, sender = 2, msg_content = JStr ''[Message deleted]'', msg_chat = 10, readBy = [2],
         attachments = [], isDeleted = True \<rparr>"
  let ?user = "\<lparr> branch = None, year = None, semester = None, uid = 1, role = Student \<rparr>"
  note spec = unread_count [where chats = ?chats and messages = "[?m1, ?m2, ?m3]" and user = ?user
      and chatId = 10 and pageParam = None and limitParam = None, unfolded Let_def]
  have n: "length (filter (isUnreadFor ?chats (uid ?user)) [?m1, ?m2, ?m3]) = 1"
    by (simp add: isUnreadFor_def)
  have t: "totalUnread (getUnreadCount ?chats [?m1, ?m2, ?m3] ?user) = 1"
    using spec n by simp
  have h: "findById chat_id ?chats 10 = Some ?c \<and> uid ?user \<in> set (users ?c) \<and>
             0 \<le> (orDefault None 1 - 1) * orDefault None 50"
    by (simp add: findById_def orDefault_def)
  from spec h have "\<exists>page messages'. getMessages ?chats [?m1, ?m2, ?m3] ?user 10 None None = Inr (page, messages')"
    by blast
  then obtain page messages' where
    g': "getMessages ?chats [?m1, ?m2, ?m3] ?user 10 None None = Inr (page, messages')" by blast
  from spec g' have
    m: "messages' = map (\<lambda>m. if msg_chat m = 10 \<and> uid ?user \<notin> set (readBy m)
                              then m\<lparr> readBy := readBy m @ [uid ?user] \<rparr> else m) [?m1, ?m2, ?m3]"
    and z: "unreadByChat (getUnreadCount ?chats messages' ?user) 10 = None"
    by blast+
  from m have "messages' = [?m1\<lparr> readBy := [2, 1] \<rparr>, ?m2, ?m3\<lparr> readBy := [2, 1] \<rparr>]" by simp
  with t g' z show ?thesis by (intro conjI exI [of _ page] exI [of _ messages']) simp_all
qed

section \<open>Verification is one-way\<close>

lemma findById_update_at:
  "(\<And>d. idOf d = i \<Longrightarrow> idOf (f d) = i) \<Longrightarrow>
     findById idOf (findByIdAndUpdate idOf ds i f) j =
       (if j = i then map_option f (findById idOf ds i) else findById idOf ds j)"
  unfolding findById_def by (induction ds) (auto split: if_splits)

lemma findById_deleteDoc:
  "findById idOf (deleteDoc idOf ds j) i = (if i = j then None else findById idOf ds i)"
  unfolding findById_def deleteDoc_def by (induction ds) auto

lemma findById_append:
  "findById idOf (ds @ [d]) i =
     (case findById idOf ds i of Some x \<Rightarrow> Some x | None \<Rightarrow> if idOf d = i then Some d else None)"
  unfolding findById_def by (induction ds) auto

lemma create_Inr:
  "create idOf valid ds d = Inr ds' \<Longrightarrow> ds' = ds @ [d] \<and> findById idOf ds (idOf d) = None"
  unfolding create_def by (auto split: if_splits)

lemma aov_replace:
  assumes "findById item_id docs j = Some d0" and "item_id d' = j"
    and "isVerified d0 \<Longrightarrow> isVerified d'" and "absentOrVerified docs i"
  shows "absentOrVerified (findByIdAndUpdate item_id docs j (\<lambda>d. d')) i"
  using assms unfolding absentOrVerified_def
  by (auto simp: findById_update_at split: option.splits)

lemma aov_modify:
  assumes "\<And>d. item_id (f d) = item_id d" and "\<And>d. isVerified d \<Longrightarrow> isVerified (f d)"
    and "absentOrVerified docs i"
  shows "absentOrVerified (findByIdAndUpdate item_id docs j f) i"
  using assms unfolding absentOrVerified_def
  by (auto simp: findById_update_at split: option.splits)

lemma aov_delete:
  "absentOrVerified docs i \<Longrightarrow> absentOrVerified (deleteDoc item_id docs j) i"
  unfolding absentOrVerified_def by (simp add: findById_deleteDoc)

lemma aov_create:
  "create item_id valid docs d = Inr docs' \<Longrightarrow> item_id d \<noteq> i \<Longrightarrow>
     absentOrVerified docs i \<Longrightarrow> absentOrVerified docs' i"
  unfolding absentOrVerified_def
  by (auto dest!: create_Inr simp: findById_append split: option.splits)

lemma findById_id: "findById idOf ds i = Some d \<Longrightarrow> idOf d = i"
  by (simp add: findById_mem)

lemma aov_noteSave:
  assumes "noteSave valid docs n' = Inr docs'" and "findById item_id docs j = Some n"
    and "item_id n' = j" and "isVerified n \<Longrightarrow> isVerified n'" and "absentOrVerified docs i"
  shows "absentOrVerified docs' i"
proof -
  from assms(1) have e: "docs' = findByIdAndUpdate item_id docs (item_id n') (\<lambda>d. notePreSave n')"
    by (simp add: noteSave_def split: if_splits)
  have "isVerified n \<Longrightarrow> isVerified (notePreSave n')" using assms(4) by (simp add: notePreSave_def)
  moreover have "item_id (notePreSave n') = j" using assms(3) by (simp add: notePreSave_def)
  ultimately show ?thesis unfolding e assms(3) using assms(2,5) by (rule_tac aov_replace)
qed


lemma aov_plainSave:
  assumes "findById item_id docs j = Some n" and "item_id n' = j"
    and "isVerified n \<Longrightarrow> isVerified n'" and "absentOrVerified docs i"
  shows "absentOrVerified (findByIdAndUpdate item_id docs (item_id n') (\<lambda>d. n')) i"
  unfolding assms(2) using assms by (rule_tac aov_replace)

lemma aov_getNote:
  "getNote valid docs j = Inr docs' \<Longrightarrow> absentOrVerified docs i \<Longrightarrow> absentOrVerified docs' i"
  unfolding getNote_def
  by (auto split: option.splits elim!: aov_noteSave dest: findById_id)

lemma aov_incrementNoteViews:
  "incrementNoteViews valid docs j = Inr docs' \<Longrightarrow> absentOrVerified docs i \<Longrightarrow> absentOrVerified docs' i"
  unfolding incrementNoteViews_def
  by (auto split: option.splits elim!: aov_noteSave dest: findById_id)

lemma aov_downloadNote:
  "downloadNote valid docs j = Inr docs' \<Longrightarrow> absentOrVerified docs i \<Longrightarrow> absentOrVerified docs' i"
  unfolding downloadNote_def
  by (auto split: option.splits elim!: aov_noteSave dest: findById_id)

lemma aov_verifyNote:
  "verifyNote valid docs j = Inr docs' \<Longrightarrow> absentOrVerified docs i \<Longrightarrow> absentOrVerified docs' i"
  unfolding verifyNote_def
  by (auto split: option.splits elim!: aov_noteSave dest: findById_id)

lemma aov_addRating:
  "addRating toNumber castNumber now valid docs user j body = Inr docs' \<Longrightarrow>
     absentOrVerified docs i \<Longrightarrow> absentOrVerified docs' i"
  unfolding addRating_def Let_def
  by (auto split: option.splits if_splits elim!: aov_noteSave dest: findById_id)

lemma aov_createNote:
  "createNote valid newId docs user fileInfo body = Inr docs' \<Longrightarrow> newId \<noteq> i \<Longrightarrow>
     absentOrVerified docs i \<Longrightarrow> absentOrVerified docs' i"
  unfolding createNote_def
  by (auto split: option.splits elim!: aov_create simp: notePreSave_def)

lemma aov_updateNote:
  "updateNote valid docs user j fileInfo body = Inr docs' \<Longrightarrow>
     absentOrVerified docs i \<Longrightarrow> absentOrVerified docs' i"
  unfolding updateNote_def Let_def
  by (auto split: option.splits if_splits intro!: aov_modify)

lemma aov_deleteNote:
  "deleteNote docs user j = Inr docs' \<Longrightarrow> absentOrVerified docs i \<Longrightarrow> absentOrVerified docs' i"
  unfolding deleteNote_def
  by (auto split: option.splits if_splits intro!: aov_delete)

lemma videoSave_Inr:
  "videoSave valid docs v = Inr docs' \<Longrightarrow> docs' = findByIdAndUpdate item_id docs (item_id v) (\<lambda>d. v)"
  by (simp add: videoSave_def split: if_splits)

lemma pyqSave_Inr:
  "pyqSave valid docs v = Inr docs' \<Longrightarrow> docs' = findByIdAndUpdate item_id docs (item_id v) (\<lambda>d. v)"
  by (simp add: pyqSave_def split: if_splits)

lemma aov_getVideo:
  "getVideo valid docs j = Inr docs' \<Longrightarrow> absentOrVerified docs i \<Longrightarrow> absentOrVerified docs' i"
  unfolding getVideo_def
  by (auto split: option.splits dest!: videoSave_Inr intro!: aov_plainSave dest: findById_id)

lemma aov_verifyVideo:
  "verifyVideo valid docs j = Inr docs' \<Longrightarrow> absentOrVerified docs i \<Longrightarrow> absentOrVerified docs' i"
  unfolding verifyVideo_def
  by (auto split: option.splits dest!: videoSave_Inr intro!: aov_plainSave dest: findById_id)

lemma aov_likeVideo:
  "likeVideo valid docs user j = Inr docs' \<Longrightarrow> absentOrVerified docs i \<Longrightarrow> absentOrVerified docs' i"
  unfolding likeVideo_def Let_def
  by (auto split: option.splits if_splits dest!: videoSave_Inr intro!: aov_plainSave dest: findById_id)

lemma aov_addComment:
  "addComment valid newId docs user j body = Inr docs' \<Longrightarrow> absentOrVerified docs i \<Longrightarrow> absentOrVerified docs' i"
  unfolding addComment_def
  by (auto split: option.splits if_splits dest!: videoSave_Inr intro!: aov_plainSave dest: findById_id)

lemma aov_deleteComment:
  "deleteComment valid docs user j c = Inr docs' \<Longrightarrow> absentOrVerified docs i \<Longrightarrow> absentOrVerified docs' i"
  unfolding deleteComment_def
  by (auto split: option.splits if_splits dest!: videoSave_Inr intro!: aov_plainSave dest: findById_id)

lemma aov_createVideo:
  "createVideo videoInfo valid newId docs user fileInfo body = Inr docs' \<Longrightarrow> newId \<noteq> i \<Longrightarrow>
     absentOrVerified docs i \<Longrightarrow> absentOrVerified docs' i"
  unfolding createVideo_def Let_def
  by (auto split: option.splits if_splits sum.splits prod.splits elim!: aov_create)

lemma aov_updateVideo:
  "updateVideo videoInfo valid docs user j fileInfo body = Inr docs' \<Longrightarrow>
     absentOrVerified docs i \<Longrightarrow> absentOrVerified docs' i"
  unfolding updateVideo_def Let_def
  by (auto split: option.splits if_splits sum.splits prod.splits intro!: aov_modify)

lemma aov_deleteVideo:
  "deleteVideo docs user j = Inr docs' \<Longrightarrow> absentOrVerified docs i \<Longrightarrow> absentOrVerified docs' i"
  unfolding deleteVideo_def
  by (auto split: option.splits if_splits intro!: aov_delete)

lemma aov_getPYQ:
  "getPYQ valid docs j = Inr docs' \<Longrightarrow> absentOrVerified docs i \<Longrightarrow> absentOrVerified docs' i"
  unfolding getPYQ_def
  by (auto split: option.splits dest!: pyqSave_Inr intro!: aov_plainSave dest: findById_id)

lemma aov_verifyPYQ:
  "verifyPYQ valid docs j = Inr docs' \<Longrightarrow> absentOrVerified docs i \<Longrightarrow> absentOrVerified docs' i"
  unfolding verifyPYQ_def
  by (auto split: option.splits dest!: pyqSave_Inr intro!: aov_plainSave dest: findById_id)

lemma aov_downloadPYQ:
  "downloadPYQ valid docs j = Inr docs' \<Longrightarrow> absentOrVerified docs i \<Longrightarrow> absentOrVerified docs' i"
  unfolding downloadPYQ_def
  by (auto split: option.splits dest!: pyqSave_Inr intro!: aov_plainSave dest: findById_id)

lemma aov_addSolution:
  "addSolution valid docs j fileInfo = Inr docs' \<Longrightarrow> absentOrVerified docs i \<Longrightarrow> absentOrVerified docs' i"
  unfolding addSolution_def
  by (auto split: option.splits dest!: pyqSave_Inr intro!: aov_plainSave dest: findById_id)

lemma aov_updatePYQ:
  "updatePYQ parseInt valid docs user j fileInfo solutionFileInfo body = Inr docs' \<Longrightarrow>
     absentOrVerified docs i \<Longrightarrow> absentOrVerified docs' i"
  unfolding updatePYQ_def Let_def
  by (auto split: option.splits if_splits intro!: aov_modify)

lemma aov_deletePYQ:
  "deletePYQ docs user j = Inr docs' \<Longrightarrow> absentOrVerified docs i \<Longrightarrow> absentOrVerified docs' i"
  unfolding deletePYQ_def
  by (auto split: option.splits if_splits intro!: aov_delete)

lemma update_append_fresh:
  "findById idOf ds i = None \<Longrightarrow> idOf d = i \<Longrightarrow>
     findByIdAndUpdate idOf (ds @ [d]) i f = ds @ [f d]"
  unfolding findById_def by (induction ds) (auto split: if_splits)

lemma createPYQ_cases:
  assumes "createPYQ valid valid2 newId docs user fileInfo solutionFileInfo body = (e, docs')"
  shows "(docs' = docs \<and> e \<noteq> None) \<or>
         (\<exists>p. docs' = docs @ [p] \<and> findById item_id docs newId = None \<and> item_id p = newId \<and>
              uploadedBy p = uid user \<and> isVerified p = (role user \<noteq> Student))"
proof (cases fileInfo)
  case None
  with assms show ?thesis by (auto simp: createPYQ_def)
next
  case (Some fi)
  let ?p = "\<lparr> item_id = newId, title = body ''title'', description = body ''description'',
                    subject = body ''subject'', item_branch = body ''branch'',
                    item_year = body ''year'', item_semester = body ''semester'',
                    uploadedBy = uid user, views = 0,
                    isVerified = (if role user = Student then False else True),
                    p_fileUrl = Some (fi_url fi), p_filePath = Some (fi_path fi),
                    p_fileType = Some (JStr (extension (fi_originalname fi))),
                    p_fileSize = Some (fi_size fi),
                    examType = body ''examType'', examYear = body ''examYear'',
                    difficulty = orElse (body ''difficulty'') (JStr ''Medium''),
                    p_totalMarks = orElse (body ''totalMarks'') (JNum 0),
                    p_duration = orElse (body ''duration'') (JNum 0),
                    hasSolution = False, solutionFileUrl = None, solutionFilePath = None,
                    p_downloads = 0 \<rparr>"
  show ?thesis
  proof (cases "create item_id valid docs ?p")
    case (Inl err)
    with Some assms show ?thesis by (auto simp: createPYQ_def Let_def)
  next
    case (Inr docs1)
    then have d1: "docs1 = docs @ [?p]" and fresh: "findById item_id docs newId = None"
      using create_Inr [of item_id valid docs ?p docs1] by auto
    show ?thesis
    proof (cases solutionFileInfo)
      case None
      with Some Inr assms d1 fresh show ?thesis by (auto simp: createPYQ_def Let_def)
    next
      case sfi: (Some sf)
      let ?p2 = "?p\<lparr> hasSolution := True, solutionFileUrl := Some (fi_url sf),
                                  solutionFilePath := Some (fi_path sf) \<rparr>"
      show ?thesis
      proof (cases valid2)
        case False
        with Some Inr sfi assms d1 fresh show ?thesis
          by (auto simp: createPYQ_def Let_def pyqSave_def)
      next
        case True
        have "findByIdAndUpdate item_id (docs @ [?p]) newId (\<lambda>d. ?p2) = docs @ [?p2]"
          using fresh by (simp add: update_append_fresh)
        with True Some Inr sfi assms d1 fresh show ?thesis
          by (auto simp: createPYQ_def Let_def pyqSave_def)
      qed
    qed
  qed
qed

lemma aov_createPYQ:
  assumes "createPYQ valid valid2 newId docs user fileInfo solutionFileInfo body = (e, docs')"
    and "newId \<noteq> i" and "absentOrVerified docs i"
  shows "absentOrVerified docs' i"
  using createPYQ_cases [OF assms(1)] assms(2,3)
  unfolding absentOrVerified_def by (auto simp: findById_append split: option.splits)


lemma verifyContent_db:
  "db (verifyContent notifyUsers valid d contentType contentId) = d \<or>
   (\<exists>j n ns. findById item_id (db_notes d) j = Some n \<and>
       noteSave valid (db_notes d) (n\<lparr> isVerified := True \<rparr>) = Inr ns \<and>
       db (verifyContent notifyUsers valid d contentType contentId) = d\<lparr> db_notes := ns \<rparr>) \<or>
   (\<exists>j v vs. findById item_id (db_videos d) j = Some v \<and>
       videoSave valid (db_videos d) (v\<lparr> isVerified := True \<rparr>) = Inr vs \<and>
       db (verifyContent notifyUsers valid d contentType contentId) = d\<lparr> db_videos := vs \<rparr>) \<or>
   (\<exists>j p ps. findById item_id (db_pyqs d) j = Some p \<and>
       pyqSave valid (db_pyqs d) (p\<lparr> isVerified := True \<rparr>) = Inr ps \<and>
       db (verifyContent notifyUsers valid d contentType contentId) = d\<lparr> db_pyqs := ps \<rparr>)"
proof (cases contentId)
  case None
  then show ?thesis by (simp add: verifyContent_def failed_def)
next
  case (Some cid)
  show ?thesis
  proof (cases "truthyOpt contentType")
    case False
    with Some show ?thesis by (simp add: verifyContent_def failed_def)
  next
    case True
    consider (n) "contentType = Some (JStr ''note'')" | (v) "contentType = Some (JStr ''video'')"
      | (p) "contentType = Some (JStr ''pyq'')"
      | (o) "contentType \<noteq> Some (JStr ''note'')" "contentType \<noteq> Some (JStr ''video'')"
            "contentType \<noteq> Some (JStr ''pyq'')" by blast
    then show ?thesis
    proof cases
      case n
      show ?thesis
      proof (cases "findById item_id (db_notes d) cid")
        case None
        with Some n show ?thesis by (simp add: verifyContent_def failed_def)
      next
        case f: (Some x)
        show ?thesis
        proof (cases "noteSave valid (db_notes d) (x\<lparr> isVerified := True \<rparr>)")
          case (Inl e)
          with Some n f show ?thesis by (simp add: verifyContent_def failed_def)
        next
          case (Inr ns)
          with Some n f have "db (verifyContent notifyUsers valid d contentType contentId) = d\<lparr> db_notes := ns \<rparr>"
            by (simp add: verifyContent_def notifyUploader_def Let_def)
          with f Inr show ?thesis by blast
        qed
      qed
    next
      case v
      show ?thesis
      proof (cases "findById item_id (db_videos d) cid")
        case None
        with Some v show ?thesis by (simp add: verifyContent_def failed_def)
      next
        case f: (Some x)
        show ?thesis
        proof (cases "videoSave valid (db_videos d) (x\<lparr> isVerified := True \<rparr>)")
          case (Inl e)
          with Some v f show ?thesis by (simp add: verifyContent_def failed_def)
        next
          case (Inr vs)
          with Some v f have "db (verifyContent notifyUsers valid d contentType contentId) = d\<lparr> db_videos := vs \<rparr>"
            by (simp add: verifyContent_def notifyUploader_def Let_def)
          with f Inr show ?thesis by blast
        qed
      qed
    next
      case p
      show ?thesis
      proof (cases "findById item_id (db_pyqs d) cid")
        case None
        with Some p show ?thesis by (simp add: verifyContent_def failed_def)
      next
        case f: (Some x)
        show ?thesis
        proof (cases "pyqSave valid (db_pyqs d) (x\<lparr> isVerified := True \<rparr>)")
          case (Inl e)
          with Some p f show ?thesis by (simp add: verifyContent_def failed_def)
        next
          case (Inr ps)
          with Some p f have "db (verifyContent notifyUsers valid d contentType contentId) = d\<lparr> db_pyqs := ps \<rparr>"
            by (simp add: verifyContent_def notifyUploader_def Let_def)
          with f Inr show ?thesis by blast
        qed
      qed
    next
      case o
      with Some True show ?thesis by (simp add: verifyContent_def failed_def)
    qed
  qed
qed

lemma aov_verifyContent:
  "(absentOrVerified (db_notes d) i \<longrightarrow>
      absentOrVerified (db_notes (db (verifyContent notifyUsers valid d contentType contentId))) i) \<and>
   (absentOrVerified (db_videos d) i \<longrightarrow>
      absentOrVerified (db_videos (db (verifyContent notifyUsers valid d contentType contentId))) i) \<and>
   (absentOrVerified (db_pyqs d) i \<longrightarrow>
      absentOrVerified (db_pyqs (db (verifyContent notifyUsers valid d contentType contentId))) i)"
proof -
  let ?d' = "db (verifyContent notifyUsers valid d contentType contentId)"
  from verifyContent_db [of notifyUsers valid d contentType contentId]
  consider (same) "?d' = d"
    | (n) j n ns where "findById item_id (db_notes d) j = Some n"
        "noteSave valid (db_notes d) (n\<lparr> isVerified := True \<rparr>) = Inr ns" "?d' = d\<lparr> db_notes := ns \<rparr>"
    | (v) j v vs where "findById item_id (db_videos d) j = Some v"
        "videoSave valid (db_videos d) (v\<lparr> isVerified := True \<rparr>) = Inr vs" "?d' = d\<lparr> db_videos := vs \<rparr>"
    | (p) j p ps where "findById item_id (db_pyqs d) j = Some p"
        "pyqSave valid (db_pyqs d) (p\<lparr> isVerified := True \<rparr>) = Inr ps" "?d' = d\<lparr> db_pyqs := ps \<rparr>"
    by blast
  then show ?thesis
  proof cases
    case same
    then show ?thesis by simp
  next
    case n
    have "absentOrVerified (db_notes d) i \<Longrightarrow> absentOrVerified ns i"
      using n(2,1) by (rule aov_noteSave) (use n(1) in \<open>auto dest: findById_id\<close>)
    with n(3) show ?thesis by auto
  next
    case v
    have "absentOrVerified (db_videos d) i \<Longrightarrow> absentOrVerified vs i"
      unfolding videoSave_Inr [OF v(2)]
      using v(1) by (rule aov_plainSave) (use v(1) in \<open>auto dest: findById_id\<close>)
    with v(3) show ?thesis by auto
  next
    case p
    have "absentOrVerified (db_pyqs d) i \<Longrightarrow> absentOrVerified ps i"
      unfolding pyqSave_Inr [OF p(2)]
      using p(1) by (rule aov_plainSave) (use p(1) in \<open>auto dest: findById_id\<close>)
    with p(3) show ?thesis by auto
  qed
qed

lemma on_other [simp]:
  "db_videos (db (onNotes d rn)) = db_videos d" "db_pyqs (db (onNotes d rn)) = db_pyqs d"
  "db_notes (db (onVideos d rv)) = db_notes d" "db_pyqs (db (onVideos d rv)) = db_pyqs d"
  "db_notes (db (onPyqs d rp)) = db_notes d" "db_videos (db (onPyqs d rp)) = db_videos d"
  "db_notes (db (onSyllabi d rs)) = db_notes d" "db_videos (db (onSyllabi d rs)) = db_videos d"
  "db_pyqs (db (onSyllabi d rs)) = db_pyqs d"
  by (simp_all add: onNotes_def onVideos_def onPyqs_def onSyllabi_def failed_def succeeded_def
        split: sum.splits)

lemma onNotes_aov:
  assumes "\<And>ns. r = Inr ns \<Longrightarrow> absentOrVerified ns i" and "absentOrVerified (db_notes d) i"
  shows "absentOrVerified (db_notes (db (onNotes d r))) i"
  using assms by (cases r) (simp_all add: onNotes_def failed_def succeeded_def)

lemma onVideos_aov:
  assumes "\<And>ns. r = Inr ns \<Longrightarrow> absentOrVerified ns i" and "absentOrVerified (db_videos d) i"
  shows "absentOrVerified (db_videos (db (onVideos d r))) i"
  using assms by (cases r) (simp_all add: onVideos_def failed_def succeeded_def)

lemma onPyqs_aov:
  assumes "\<And>ns. r = Inr ns \<Longrightarrow> absentOrVerified ns i" and "absentOrVerified (db_pyqs d) i"
  shows "absentOrVerified (db_pyqs (db (onPyqs d r))) i"
  using assms by (cases r) (simp_all add: onPyqs_def failed_def succeeded_def)

lemma contentHandler_notes:
  assumes c: "createdId r \<noteq> Some i" and a: "absentOrVerified (db_notes d) i"
  shows "absentOrVerified (db_notes (db (contentHandler rt d r))) i"
proof (cases r)
  case (GetNote valid nid)
  with c show ?thesis
    by (simp, intro onNotes_aov a) (use a in \<open>auto dest: aov_getNote\<close>)
next
  case (CreateNote valid newId user fileInfo body)
  with c show ?thesis
    by (simp, intro onNotes_aov a) (use a in \<open>auto dest: aov_createNote\<close>)
next
  case (UpdateNote valid user nid fileInfo body)
  with c show ?thesis
    by (simp, intro onNotes_aov a) (use a in \<open>auto dest: aov_updateNote\<close>)
next
  case (DeleteNote user nid)
  with c show ?thesis
    by (simp, intro onNotes_aov a) (use a in \<open>auto dest: aov_deleteNote\<close>)
next
  case (VerifyNote valid nid)
  with c show ?thesis
    by (simp, intro onNotes_aov a) (use a in \<open>auto dest: aov_verifyNote\<close>)
next
  case (AddRating now valid user nid body)
  with c show ?thesis
    by (simp, intro onNotes_aov a) (use a in \<open>auto dest: aov_addRating\<close>)
next
  case (DownloadNote valid nid)
  with c show ?thesis
    by (simp, intro onNotes_aov a) (use a in \<open>auto dest: aov_downloadNote\<close>)
next
  case (IncrementNoteViews valid nid)
  with c show ?thesis
    by (simp, intro onNotes_aov a) (use a in \<open>auto dest: aov_incrementNoteViews\<close>)
next
  case (GetVideo valid vid)
  then show ?thesis using a by simp
next
  case (CreateVideo videoInfo valid newId user fileInfo body)
  then show ?thesis using a by simp
next
  case (UpdateVideo videoInfo valid user vid fileInfo body)
  then show ?thesis using a by simp
next
  case (DeleteVideo user vid)
  then show ?thesis using a by simp
next
  case (VerifyVideo valid vid)
  then show ?thesis using a by simp
next
  case (LikeVideo valid user vid)
  then show ?thesis using a by simp
next
  case (AddComment valid newId user vid body)
  then show ?thesis using a by simp
next
  case (DeleteComment valid user vid commentId)
  then show ?thesis using a by simp
next
  case (GetPYQ valid pid)
  then show ?thesis using a by simp
next
  case (CreatePYQ valid valid2 newId user fileInfo solutionFileInfo body)
  then show ?thesis using a by (simp split: prod.splits)
next
  case (UpdatePYQ valid user pid fileInfo solutionFileInfo body)
  then show ?thesis using a by simp
next
  case (DeletePYQ user pid)
  then show ?thesis using a by simp
next
  case (AddSolution valid pid fileInfo)
  then show ?thesis using a by simp
next
  case (VerifyPYQ valid pid)
  then show ?thesis using a by simp
next
  case (DownloadPYQ valid pid)
  then show ?thesis using a by simp
next
  case (GetSyllabus valid sid)
  then show ?thesis using a by simp
next
  case (CreateSyllabus valid newId user fileInfo body)
  then show ?thesis using a by simp
next
  case (UpdateSyllabus valid user sid fileInfo body)
  then show ?thesis using a by simp
next
  case (DeleteSyllabus user sid)
  then show ?thesis using a by simp
next
  case (DownloadSyllabus valid sid)
  then show ?thesis using a by simp
next
  case (VerifyContent notifyUsers valid contentType contentId)
  then show ?thesis using a aov_verifyContent [of d i notifyUsers valid contentType contentId]
    by simp
qed

lemma contentRun_notes:
  "\<forall>r \<in> set rs. createdId r \<noteq> Some i \<Longrightarrow> absentOrVerified (db_notes d) i \<Longrightarrow>
     absentOrVerified (db_notes (contentRun rt d rs)) i"
  by (induction rs arbitrary: d) (auto intro: contentHandler_notes)

lemma contentHandler_videos:
  assumes c: "createdId r \<noteq> Some i" and a: "absentOrVerified (db_videos d) i"
  shows "absentOrVerified (db_videos (db (contentHandler rt d r))) i"
proof (cases r)
  case (GetNote valid nid)
  then show ?thesis using a by simp
next
  case (CreateNote valid newId user fileInfo body)
  then show ?thesis using a by simp
next
  case (UpdateNote valid user nid fileInfo body)
  then show ?thesis using a by simp
next
  case (DeleteNote user nid)
  then show ?thesis using a by simp
next
  case (VerifyNote valid nid)
  then show ?thesis using a by simp
next
  case (AddRating now valid user nid body)
  then show ?thesis using a by simp
next
  case (DownloadNote valid nid)
  then show ?thesis using a by simp
next
  case (IncrementNoteViews valid nid)
  then show ?thesis using a by simp
next
  case (GetVideo valid vid)
  with c show ?thesis
    by (simp, intro onVideos_aov a) (use a in \<open>auto dest: aov_getVideo\<close>)
next
  case (CreateVideo videoInfo valid newId user fileInfo body)
  with c show ?thesis
    by (simp, intro onVideos_aov a) (use a in \<open>auto dest: aov_createVideo\<close>)
next
  case (UpdateVideo videoInfo valid user vid fileInfo body)
  with c show ?thesis
    by (simp, intro onVideos_aov a) (use a in \<open>auto dest: aov_updateVideo\<close>)
next
  case (DeleteVideo user vid)
  with c show ?thesis
    by (simp, intro onVideos_aov a) (use a in \<open>auto dest: aov_deleteVideo\<close>)
next
  case (VerifyVideo valid vid)
  with c show ?thesis
    by (simp, intro onVideos_aov a) (use a in \<open>auto dest: aov_verifyVideo\<close>)
next
  case (LikeVideo valid user vid)
  with c show ?thesis
    by (simp, intro onVideos_aov a) (use a in \<open>auto dest: aov_likeVideo\<close>)
next
  case (AddComment valid newId user vid body)
  with c show ?thesis
    by (simp, intro onVideos_aov a) (use a in \<open>auto dest: aov_addComment\<close>)
next
  case (DeleteComment valid user vid commentId)
  with c show ?thesis
    by (simp, intro onVideos_aov a) (use a in \<open>auto dest: aov_deleteComment\<close>)
next
  case (GetPYQ valid pid)
  then show ?thesis using a by simp
next
  case (CreatePYQ valid valid2 newId user fileInfo solutionFileInfo body)
  then show ?thesis using a by (simp split: prod.splits)
next
  case (UpdatePYQ valid user pid fileInfo solutionFileInfo body)
  then show ?thesis using a by simp
next
  case (DeletePYQ user pid)
  then show ?thesis using a by simp
next
  case (AddSolution valid pid fileInfo)
  then show ?thesis using a by simp
next
  case (VerifyPYQ valid pid)
  then show ?thesis using a by simp
next
  case (DownloadPYQ valid pid)
  then show ?thesis using a by simp
next
  case (GetSyllabus valid sid)
  then show ?thesis using a by simp
next
  case (CreateSyllabus valid newId user fileInfo body)
  then show ?thesis using a by simp
next
  case (UpdateSyllabus valid user sid fileInfo body)
  then show ?thesis using a by simp
next
  case (DeleteSyllabus user sid)
  then show ?thesis using a by simp
next
  case (DownloadSyllabus valid sid)
  then show ?thesis using a by simp
next
  case (VerifyContent notifyUsers valid contentType contentId)
  then show ?thesis using a aov_verifyContent [of d i notifyUsers valid contentType contentId]
    by simp
qed

lemma contentRun_videos:
  "\<forall>r \<in> set rs. createdId r \<noteq> Some i \<Longrightarrow> absentOrVerified (db_videos d) i \<Longrightarrow>
     absentOrVerified (db_videos (contentRun rt d rs)) i"
  by (induction rs arbitrary: d) (auto intro: contentHandler_videos)

lemma contentHandler_pyqs:
  assumes c: "createdId r \<noteq> Some i" and a: "absentOrVerified (db_pyqs d) i"
  shows "absentOrVerified (db_pyqs (db (contentHandler rt d r))) i"
proof (cases r)
  case (GetNote valid nid)
  then show ?thesis using a by simp
next
  case (CreateNote valid newId user fileInfo body)
  then show ?thesis using a by simp
next
  case (UpdateNote valid user nid fileInfo body)
  then show ?thesis using a by simp
next
  case (DeleteNote user nid)
  then show ?thesis using a by simp
next
  case (VerifyNote valid nid)
  then show ?thesis using a by simp
next
  case (AddRating now valid user nid body)
  then show ?thesis using a by simp
next
  case (DownloadNote valid nid)
  then show ?thesis using a by simp
next
  case (IncrementNoteViews valid nid)
  then show ?thesis using a by simp
next
  case (GetVideo valid vid)
  then show ?thesis using a by simp
next
  case (CreateVideo videoInfo valid newId user fileInfo body)
  then show ?thesis using a by simp
next
  case (UpdateVideo videoInfo valid user vid fileInfo body)
  then show ?thesis using a by simp
next
  case (DeleteVideo user vid)
  then show ?thesis using a by simp
next
  case (VerifyVideo valid vid)
  then show ?thesis using a by simp
next
  case (LikeVideo valid user vid)
  then show ?thesis using a by simp
next
  case (AddComment valid newId user vid body)
  then show ?thesis using a by simp
next
  case (DeleteComment valid user vid commentId)
  then show ?thesis using a by simp
next
  case (GetPYQ valid pid)
  with c show ?thesis
    by (simp, intro onPyqs_aov a) (use a in \<open>auto dest: aov_getPYQ\<close>)
next
  case (CreatePYQ valid valid2 newId user fileInfo solutionFileInfo body)
  obtain e ps where r: "createPYQ valid valid2 newId (db_pyqs d) user fileInfo solutionFileInfo body = (e, ps)"
    by (cases "createPYQ valid valid2 newId (db_pyqs d) user fileInfo solutionFileInfo body")
  with c CreatePYQ a have "absentOrVerified ps i" by (auto dest: aov_createPYQ)
  with CreatePYQ r show ?thesis by simp
next
  case (UpdatePYQ valid user pid fileInfo solutionFileInfo body)
  with c show ?thesis
    by (simp, intro onPyqs_aov a) (use a in \<open>auto dest: aov_updatePYQ\<close>)
next
  case (DeletePYQ user pid)
  with c show ?thesis
    by (simp, intro onPyqs_aov a) (use a in \<open>auto dest: aov_deletePYQ\<close>)
next
  case (AddSolution valid pid fileInfo)
  with c show ?thesis
    by (simp, intro onPyqs_aov a) (use a in \<open>auto dest: aov_addSolution\<close>)
next
  case (VerifyPYQ valid pid)
  with c show ?thesis
    by (simp, intro onPyqs_aov a) (use a in \<open>auto dest: aov_verifyPYQ\<close>)
next
  case (DownloadPYQ valid pid)
  with c show ?thesis
    by (simp, intro onPyqs_aov a) (use a in \<open>auto dest: aov_downloadPYQ\<close>)
next
  case (GetSyllabus valid sid)
  then show ?thesis using a by simp
next
  case (CreateSyllabus valid newId user fileInfo body)
  then show ?thesis using a by simp
next
  case (UpdateSyllabus valid user sid fileInfo body)
  then show ?thesis using a by simp
next
  case (DeleteSyllabus user sid)
  then show ?thesis using a by simp
next
  case (DownloadSyllabus valid sid)
  then show ?thesis using a by simp
next
  case (VerifyContent notifyUsers valid contentType contentId)
  then show ?thesis using a aov_verifyContent [of d i notifyUsers valid contentType contentId]
    by simp
qed

lemma contentRun_pyqs:
  "\<forall>r \<in> set rs. createdId r \<noteq> Some i \<Longrightarrow> absentOrVerified (db_pyqs d) i \<Longrightarrow>
     absentOrVerified (db_pyqs (contentRun rt d rs)) i"
  by (induction rs arbitrary: d) (auto intro: contentHandler_pyqs)

text \<open>
  Claim C3.  Take any item of the Note, Video or PYQ collection that is verified, and any
  sequence of content requests (view, create, update, delete, verify, rate, like, comment,
  delete comment, add solution, download, and the admin's verify-content) in which no
  creation is issued under the item's identifier (the database never hands out an
  identifier twice).  If the item still exists afterwards, it is still verified.  The
  Syllabus schema has no \<open>isVerified\<close> field, so there is nothing to revert there.
\<close>

theorem verified_is_permanent:
  assumes "\<forall>r \<in> set rs. createdId r \<noteq> Some i"
  shows "(\<forall>n n'. findById item_id (db_notes d) i = Some n \<and> isVerified n \<and>
            findById item_id (db_notes (contentRun rt d rs)) i = Some n' \<longrightarrow> isVerified n') \<and>
         (\<forall>v v'. findById item_id (db_videos d) i = Some v \<and> isVerified v \<and>
            findById item_id (db_videos (contentRun rt d rs)) i = Some v' \<longrightarrow> isVerified v') \<and>
         (\<forall>p p'. findById item_id (db_pyqs d) i = Some p \<and> isVerified p \<and>
            findById item_id (db_pyqs (contentRun rt d rs)) i = Some p' \<longrightarrow> isVerified p')"
proof (intro conjI allI impI)
  fix n n'
  assume h: "findById item_id (db_notes d) i = Some n \<and> isVerified n \<and>
            findById item_id (db_notes (contentRun rt d rs)) i = Some n'"
  then have "absentOrVerified (db_notes d) i" by (simp add: absentOrVerified_def)
  with assms have "absentOrVerified (db_notes (contentRun rt d rs)) i" by (rule contentRun_notes)
  with h show "isVerified n'" by (simp add: absentOrVerified_def)
next
  fix v v'
  assume h: "findById item_id (db_videos d) i = Some v \<and> isVerified v \<and>
            findById item_id (db_videos (contentRun rt d rs)) i = Some v'"
  then have "absentOrVerified (db_videos d) i" by (simp add: absentOrVerified_def)
  with assms have "absentOrVerified (db_videos (contentRun rt d rs)) i" by (rule contentRun_videos)
  with h show "isVerified v'" by (simp add: absentOrVerified_def)
next
  fix p p'
  assume h: "findById item_id (db_pyqs d) i = Some p \<and> isVerified p \<and>
            findById item_id (db_pyqs (contentRun rt d rs)) i = Some p'"
  then have "absentOrVerified (db_pyqs d) i" by (simp add: absentOrVerified_def)
  with assms have "absentOrVerified (db_pyqs (contentRun rt d rs)) i" by (rule contentRun_pyqs)
  with h show "isVerified p'" by (simp add: absentOrVerified_def)
qed

text \<open>
  A verified note is updated by its owner with a body that carries \<open>isVerified = false\<close>
  and is then viewed: the title and the view counter change, the flag does not.
\<close>

theorem verified_is_permanent_witness:
  "map createdId [UpdateNote True \<lparr> branch = None, year = None, semester = None, uid = 5, role = Student \<rparr> 1 None
                    [''title'' \<mapsto> JStr ''new'', ''isVerified'' \<mapsto> JBool False],
                  GetNote True 1] = [None, None] \<and>
   (\<exists>n'. findById item_id (db_notes (contentRun
       \<lparr> rt_parseInt = (\<lambda>v. v), rt_jsonParse = Some, rt_toNumber = (\<lambda>v. None), rt_castNumber = (\<lambda>v. None) \<rparr>
       \<lparr> db_notes = [\<lparr> item_id = 1, title = Some (JStr ''old''), description = None, subject = None,
                       item_branch = None, item_year = None, item_semester = None, uploadedBy = 5,
                       views = 0, isVerified = True, n_fileUrl = None, n_filePath = None,
                       n_fileType = None, n_fileSize = None, n_downloads = 0, ratings = [],
                       averageRating = 0 \<rparr>],
         db_videos = [], db_pyqs = [], db_syllabi = [] \<rparr>
       [UpdateNote True \<lparr> branch = None, year = None, semester = None, uid = 5, role = Student \<rparr> 1 None
          [''title'' \<mapsto> JStr ''new'', ''isVerified'' \<mapsto> JBool False],
        GetNote True 1])) 1 = Some n' \<and>
      title n' = Some (JStr ''new'') \<and> views n' = 1 \<and> isVerified n')"
proof -
  let ?u = "\<lparr> branch = None, year = None, semester = None, uid = 5, role = Student \<rparr>"
  let ?rs = "[UpdateNote True ?u 1 None [''title'' \<mapsto> JStr ''new'', ''isVerified'' \<mapsto> JBool False],
              GetNote True 1]"
  let ?rt = "\<lparr> rt_parseInt = (\<lambda>v. v), rt_jsonParse = Some, rt_toNumber = (\<lambda>v. None),
               rt_castNumber = (\<lambda>v. None) \<rparr>"
  let ?n = "\<lparr> item_id = 1, title = Some (JStr ''old''), description = None, subject = None,
                       item_branch = None, item_year = None, item_semester = None, uploadedBy = 5,
                       views = 0, isVerified = True, n_fileUrl = None, n_filePath = None,
                       n_fileType = None, n_fileSize = None, n_downloads = 0, ratings = [],
                       averageRating = 0 \<rparr>"
  let ?d = "\<lparr> db_notes = [?n], db_videos = [], db_pyqs = [], db_syllabi = [] \<rparr>"
  have h: "\<forall>r \<in> set ?rs. createdId r \<noteq> Some 1" by simp
  have s: "findById item_id (db_notes ?d) 1 = Some ?n" by (simp add: findById_def)
  have e: "findById item_id (db_notes (contentRun ?rt ?d ?rs)) 1 =
             Some (?n\<lparr> title := Some (JStr ''new''), views := 1 \<rparr>)"
    by (simp add: onNotes_def updateNote_def getNote_def noteSave_def notePreSave_def
          findById_def notOwnerNorAdmin_def setIf_def succeeded_def failed_def)
  from verified_is_permanent [OF h, of ?d ?rt] s e
  have "isVerified (?n\<lparr> title := Some (JStr ''new''), views := 1 \<rparr>)" by simp
  with h e show ?thesis by simp
qed

section \<open>The verification flag of a new item\<close>

lemma createNote_Inr:
  assumes "createNote valid newId ns user fileInfo body = Inr ns'"
  shows "\<exists>n. ns' = ns @ [n] \<and> item_id n = newId \<and> uploadedBy n = uid user \<and>
             isVerified n = (role user \<noteq> Student)"
  using assms unfolding createNote_def
  by (auto split: option.splits dest!: create_Inr simp: notePreSave_def)

lemma createVideo_Inr:
  assumes "createVideo videoInfo valid newId vs user fileInfo body = Inr vs'"
  shows "\<exists>v. vs' = vs @ [v] \<and> item_id v = newId \<and> uploadedBy v = uid user \<and>
             isVerified v = (role user \<noteq> Student)"
proof (cases "tagList (body ''tags'')")
  case None
  with assms show ?thesis unfolding createVideo_def Let_def
    by (auto split: option.splits if_splits prod.splits dest!: create_Inr)
next
  case (Some t)
  show ?thesis
  proof (cases t)
    case (Inl e)
    with Some assms show ?thesis by (simp add: createVideo_def)
  next
    case (Inr l)
    with Some assms show ?thesis unfolding createVideo_def Let_def
      by (auto split: option.splits if_splits prod.splits dest!: create_Inr)
  qed
qed

lemma createSyllabus_Inr:
  assumes "createSyllabus jsonParse valid newId ss user fileInfo body = Inr ss'"
  shows "\<exists>s. ss' = ss @ [s] \<and> item_id s = newId \<and> uploadedBy s = uid user"
proof (cases fileInfo)
  case None
  with assms show ?thesis by (simp add: createSyllabus_def)
next
  case (Some fi)
  show ?thesis
  proof (cases "parseIf jsonParse (body ''units'')")
    case Unparsable
    with Some assms show ?thesis by (simp add: createSyllabus_def)
  next
    case Absent
    show ?thesis
    proof (cases "parseIf jsonParse (body ''referenceBooks'')")
      case Unparsable
      with Some Absent assms show ?thesis by (simp add: createSyllabus_def)
    next
      case Absent': Absent
      with Some Absent assms show ?thesis by (auto simp: createSyllabus_def dest!: create_Inr)
    next
      case (Parsed b)
      with Some Absent assms show ?thesis by (auto simp: createSyllabus_def dest!: create_Inr)
    qed
  next
    case (Parsed a)
    show ?thesis
    proof (cases "parseIf jsonParse (body ''referenceBooks'')")
      case Unparsable
      with Some Parsed assms show ?thesis by (simp add: createSyllabus_def)
    next
      case Absent
      with Some Parsed assms show ?thesis by (auto simp: createSyllabus_def dest!: create_Inr)
    next
      case P: (Parsed b)
      with Some Parsed assms show ?thesis by (auto simp: createSyllabus_def dest!: create_Inr)
    qed
  qed
qed

text \<open>
  Claim C4, as the code has it.  A successfully created Note, Video or PYQ is appended to
  its collection with \<open>isVerified\<close> true when the uploader is a teacher or an admin
  and false when the uploader is a student.  A successfully created Syllabus has no
  \<open>isVerified\<close> flag at all.
\<close>

theorem created_isVerified:
  "(createNote valid newId ns user fileInfo body = Inr ns' \<longrightarrow>
      (\<exists>n. ns' = ns @ [n] \<and> item_id n = newId \<and> uploadedBy n = uid user \<and>
           (role user = Teacher \<or> role user = Admin \<longrightarrow> isVerifiedOf (NoteDoc n) = Some True) \<and>
           (role user = Student \<longrightarrow> isVerifiedOf (NoteDoc n) = Some False))) \<and>
   (createVideo videoInfo valid newId vs user fileInfo body = Inr vs' \<longrightarrow>
      (\<exists>v. vs' = vs @ [v] \<and> item_id v = newId \<and> uploadedBy v = uid user \<and>
           (role user = Teacher \<or> role user = Admin \<longrightarrow> isVerifiedOf (VideoDoc v) = Some True) \<and>
           (role user = Student \<longrightarrow> isVerifiedOf (VideoDoc v) = Some False))) \<and>
   (createPYQ valid valid2 newId ps user fileInfo solutionFileInfo body = (None, ps') \<longrightarrow>
      (\<exists>p. ps' = ps @ [p] \<and> item_id p = newId \<and> uploadedBy p = uid user \<and>
           (role user = Teacher \<or> role user = Admin \<longrightarrow> isVerifiedOf (PyqDoc p) = Some True) \<and>
           (role user = Student \<longrightarrow> isVerifiedOf (PyqDoc p) = Some False))) \<and>
   (createSyllabus jsonParse valid newId ss user fileInfo body = Inr ss' \<longrightarrow>
      (\<exists>s. ss' = ss @ [s] \<and> item_id s = newId \<and> uploadedBy s = uid user \<and>
           isVerifiedOf (SyllabusDoc s) = None))"
proof (intro conjI impI)
  assume "createNote valid newId ns user fileInfo body = Inr ns'"
  from createNote_Inr [OF this] show "\<exists>n. ns' = ns @ [n] \<and> item_id n = newId \<and> uploadedBy n = uid user \<and>
           (role user = Teacher \<or> role user = Admin \<longrightarrow> isVerifiedOf (NoteDoc n) = Some True) \<and>
           (role user = Student \<longrightarrow> isVerifiedOf (NoteDoc n) = Some False)"
    by (cases "role user") auto
next
  assume "createVideo videoInfo valid newId vs user fileInfo body = Inr vs'"
  from createVideo_Inr [OF this] show "\<exists>v. vs' = vs @ [v] \<and> item_id v = newId \<and> uploadedBy v = uid user \<and>
           (role user = Teacher \<or> role user = Admin \<longrightarrow> isVerifiedOf (VideoDoc v) = Some True) \<and>
           (role user = Student \<longrightarrow> isVerifiedOf (VideoDoc v) = Some False)"
    by (cases "role user") auto
next
  assume "createPYQ valid valid2 newId ps user fileInfo solutionFileInfo body = (None, ps')"
  from createPYQ_cases [OF this] show "\<exists>p. ps' = ps @ [p] \<and> item_id p = newId \<and> uploadedBy p = uid user \<and>
           (role user = Teacher \<or> role user = Admin \<longrightarrow> isVerifiedOf (PyqDoc p) = Some True) \<and>
           (role user = Student \<longrightarrow> isVerifiedOf (PyqDoc p) = Some False)"
    by (cases "role user") auto
next
  assume "createSyllabus jsonParse valid newId ss user fileInfo body = Inr ss'"
  from createSyllabus_Inr [OF this] show "\<exists>s. ss' = ss @ [s] \<and> item_id s = newId \<and> uploadedBy s = uid user \<and>
           isVerifiedOf (SyllabusDoc s) = None"
    by auto
qed

text \<open>
  Claim C4 as stated fails for Syllabus: a teacher creates a syllabus, and the stored
  document has no \<open>isVerified\<close> flag, so the flag is not true.
\<close>

theorem syllabus_isVerified_counterexample:
  "createSyllabus Some True 7 []
     \<lparr> branch = None, year = None, semester = None, uid = 2, role = Teacher \<rparr>
     (Some \<lparr> fi_url = JStr ''/uploads/syllabus/s.pdf'', fi_path = JStr ''uploads/syllabus/s.pdf'',
             fi_originalname = ''s.pdf'', fi_size = JNum 1000 \<rparr>)
     [''title'' \<mapsto> JStr ''DSA'', ''description'' \<mapsto> JStr ''Syllabus'', ''branch'' \<mapsto> JStr ''CSE'',
      ''year'' \<mapsto> JStr ''2'', ''semester'' \<mapsto> JStr ''3'', ''subject'' \<mapsto> JStr ''s1'',
      ''totalMarks'' \<mapsto> JStr ''100'', ''passingMarks'' \<mapsto> JStr ''40'', ''examPattern'' \<mapsto> JStr ''written'']
   = Inr [\<lparr> item_id = 7, title = Some (JStr ''DSA''), description = Some (JStr ''Syllabus''),
            subject = Some (JStr ''s1''), item_branch = Some (JStr ''CSE''),
            item_year = Some (JStr ''2''), item_semester = Some (JStr ''3''), uploadedBy = 2,
            views = 0, s_fileUrl = Some (JStr ''/uploads/syllabus/s.pdf''),
            s_filePath = Some (JStr ''uploads/syllabus/s.pdf''), s_fileType = Some (JStr ''pdf''),
            s_fileSize = Some (JNum 1000), isActive = Some (JBool True),
            s_totalMarks = Some (JStr ''100''), passingMarks = Some (JStr ''40''),
            units = Some (JArr []), examPattern = Some (JStr ''written''),
            referenceBooks = Some (JArr []), s_downloads = 0 \<rparr>] \<and>
   isVerifiedOf (SyllabusDoc
         \<lparr> item_id = 7, title = Some (JStr ''DSA''), description = Some (JStr ''Syllabus''),
            subject = Some (JStr ''s1''), item_branch = Some (JStr ''CSE''),
            item_year = Some (JStr ''2''), item_semester = Some (JStr ''3''), uploadedBy = 2,
            views = 0, s_fileUrl = Some (JStr ''/uploads/syllabus/s.pdf''),
            s_filePath = Some (JStr ''uploads/syllabus/s.pdf''), s_fileType = Some (JStr ''pdf''),
            s_fileSize = Some (JNum 1000), isActive = Some (JBool True),
            s_totalMarks = Some (JStr ''100''), passingMarks = Some (JStr ''40''),
            units = Some (JArr []), examPattern = Some (JStr ''written''),
            referenceBooks = Some (JArr []), s_downloads = 0 \<rparr>) \<noteq> Some True"
  by (simp add: createSyllabus_def parseIf_def create_def findById_def extension_def)

text \<open>A student uploads a note: it is stored unverified.\<close>

theorem created_isVerified_witness:
  "\<exists>n. createNote True 3 []
      \<lparr> branch = Some (JStr ''CSE''), year = Some (JNum 2), semester = Some (JNum 3), uid = 5, role = Student \<rparr>
      (Some \<lparr> fi_url = JStr ''/uploads/notes/a.pdf'', fi_path = JStr ''uploads/notes/a.pdf'',
              fi_originalname = ''a.pdf'', fi_size = JNum 10 \<rparr>)
      [''title'' \<mapsto> JStr ''t''] = Inr [n] \<and>
    isVerifiedOf (NoteDoc n) = Some False"
proof -
  let ?u = "\<lparr> branch = Some (JStr ''CSE''), year = Some (JNum 2), semester = Some (JNum 3), uid = 5, role = Student \<rparr>"
  let ?fi = "Some \<lparr> fi_url = JStr ''/uploads/notes/a.pdf'', fi_path = JStr ''uploads/notes/a.pdf'',
              fi_originalname = ''a.pdf'', fi_size = JNum 10 \<rparr>"
  obtain ns' where c: "createNote True 3 [] ?u ?fi [''title'' \<mapsto> JStr ''t''] = Inr ns'"
    by (simp add: createNote_def create_def findById_def)
  note spec = created_isVerified [where valid = True and newId = 3 and ns = "[]" and user = ?u
      and fileInfo = ?fi and body = "[''title'' \<mapsto> JStr ''t'']" and ns' = ns', THEN conjunct1,
      rule_format, OF c]
  then obtain n where "ns' = [] @ [n]" and "role ?u = Student \<longrightarrow> isVerifiedOf (NoteDoc n) = Some False"
    by blast
  then have "ns' = [n]" and "isVerifiedOf (NoteDoc n) = Some False" by simp_all
  with c show ?thesis by auto
qed

section \<open>Owner or admin\<close>

lemma updateNote_denied:
  "findById item_id ns nid = Some n \<Longrightarrow>
     denied (updateNote valid ns user nid fileInfo body) = notOwnerNorAdmin (uploadedBy n) user"
  by (simp add: updateNote_def)

lemma deleteNote_denied:
  "findById item_id ns nid = Some n \<Longrightarrow>
     denied (deleteNote ns user nid) = notOwnerNorAdmin (uploadedBy n) user"
  by (simp add: deleteNote_def)

lemma tagList_error: "tagList v = Some (Inl e) \<Longrightarrow> e = TypeError"
  unfolding tagList_def by (simp split: if_splits option.splits jsval.splits)

lemma tagList_cases:
  obtains (none) "tagList v = None" | (err) "tagList v = Some (Inl TypeError)"
    | (ok) l where "tagList v = Some (Inr l)"
proof (cases "tagList v")
  case None
  then show ?thesis by (rule none)
next
  case (Some t)
  then show ?thesis by (cases t) (auto intro: err ok dest: tagList_error)
qed

lemma updateVideo_denied:
  assumes "findById item_id vs vid = Some v"
  shows "denied (updateVideo videoInfo valid vs user vid fileInfo body) = notOwnerNorAdmin (uploadedBy v) user"
proof (cases "notOwnerNorAdmin (uploadedBy v) user")
  case True
  with assms show ?thesis by (simp add: updateVideo_def)
next
  case False
  show ?thesis
  proof (cases "body ''tags''" rule: tagList_cases)
    case none
    with False assms show ?thesis by (simp add: updateVideo_def)
  next
    case err
    with False assms show ?thesis by (simp add: updateVideo_def)
  next
    case ok
    with False assms show ?thesis by (simp add: updateVideo_def)
  qed
qed

lemma deleteVideo_denied:
  "findById item_id vs vid = Some v \<Longrightarrow>
     denied (deleteVideo vs user vid) = notOwnerNorAdmin (uploadedBy v) user"
  by (simp add: deleteVideo_def)

lemma updatePYQ_denied:
  "findById item_id ps pid = Some p \<Longrightarrow>
     denied (updatePYQ parseInt valid ps user pid fileInfo solutionFileInfo body) =
       notOwnerNorAdmin (uploadedBy p) user"
  by (simp add: updatePYQ_def)

lemma deletePYQ_denied:
  "findById item_id ps pid = Some p \<Longrightarrow>
     denied (deletePYQ ps user pid) = notOwnerNorAdmin (uploadedBy p) user"
  by (simp add: deletePYQ_def)

lemma parseIf_cases:
  obtains (absent) "parseIf jsonParse v = Absent" | (parsed) p where "parseIf jsonParse v = Parsed p"
    | (bad) "parseIf jsonParse v = Unparsable"
  by (cases "parseIf jsonParse v") auto

lemma updateSyllabus_denied:
  assumes "findById item_id ss sid = Some s"
  shows "denied (updateSyllabus jsonParse valid ss user sid fileInfo body) = notOwnerNorAdmin (uploadedBy s) user"
proof (cases "notOwnerNorAdmin (uploadedBy s) user")
  case True
  with assms show ?thesis by (simp add: updateSyllabus_def)
next
  case False
  show ?thesis
  proof (cases jsonParse "body ''units''" rule: parseIf_cases)
    case bad
    with False assms show ?thesis by (simp add: updateSyllabus_def)
  next
    case absent
    show ?thesis
      by (cases jsonParse "body ''referenceBooks''" rule: parseIf_cases)
         (use False assms absent in \<open>simp_all add: updateSyllabus_def\<close>)
  next
    case parsed
    show ?thesis
      by (cases jsonParse "body ''referenceBooks''" rule: parseIf_cases)
         (use False assms parsed in \<open>simp_all add: updateSyllabus_def\<close>)
  qed
qed

lemma deleteSyllabus_denied:
  "findById item_id ss sid = Some s \<Longrightarrow>
     denied (deleteSyllabus ss user sid) = notOwnerNorAdmin (uploadedBy s) user"
  by (simp add: deleteSyllabus_def)

lemma deleteMessage_denied:
  "findById msg_id ms mid = Some m \<Longrightarrow>
     denied (deleteMessage valid ms user mid) = notOwnerNorAdmin (sender m) user"
  by (simp add: deleteMessage_def Let_def notOwnerNorAdmin_def)

lemma updateAnnouncement_denied:
  assumes "findById ann_id anns aid = Some a"
  shows "denied (updateAnnouncement jsonParse valid anns user aid filesInfo body) = notOwnerNorAdmin (postedBy a) user"
proof (cases "notOwnerNorAdmin (postedBy a) user")
  case True
  with assms show ?thesis by (simp add: updateAnnouncement_def)
next
  case False
  show ?thesis
  proof (cases jsonParse "body ''targetAudience''" rule: parseIf_cases)
    case bad
    with False assms show ?thesis by (simp add: updateAnnouncement_def)
  next
    case absent
    show ?thesis
      by (cases "body ''tags''" rule: tagList_cases)
         (use False assms absent in \<open>simp_all add: updateAnnouncement_def\<close>)
  next
    case parsed
    show ?thesis
      by (cases "body ''tags''" rule: tagList_cases)
         (use False assms parsed in \<open>simp_all add: updateAnnouncement_def\<close>)
  qed
qed

lemma deleteAnnouncement_denied:
  "findById ann_id anns aid = Some a \<Longrightarrow>
     denied (deleteAnnouncement anns user aid) = notOwnerNorAdmin (postedBy a) user"
  by (simp add: deleteAnnouncement_def)

lemma denied_unchanged: "denied r \<Longrightarrow> stateAfter s r = s"
  by (cases r) simp_all

lemma allowed_iff: "(\<not> notOwnerNorAdmin owner user) = (uid user = owner \<or> role user = Admin)"
  by (auto simp: notOwnerNorAdmin_def)

lemma denied_route_isVerifiedUser [simp]:
  "denied (route (isVerifiedUser accountVerified # middleware) k) =
     (\<not> accountVerified \<or> denied (route middleware k))"
  by (simp add: isVerifiedUser_def)

lemma denied_route_authorize [simp]:
  "denied (route (authorize roles user # middleware) k) =
     (role user \<notin> set roles \<or> denied (route middleware k))"
  by (simp add: authorize_def)

lemma not_admin_teacher: "(r \<noteq> Admin \<and> r \<noteq> Teacher) = (r = Student)"
  by (cases r) simp_all

lemma addSolution_not_denied: "\<not> denied (addSolution valid ps pid fileInfo)"
  by (simp add: addSolution_def pyqSave_def split: option.splits)

lemma owner_notes:
  "(findById item_id ns nid = Some n \<longrightarrow>
      ((\<not> denied (updateNote valid ns user nid fileInfo body)) = (uid user = uploadedBy n \<or> role user = Admin)) \<and>
      (denied (updateNote valid ns user nid fileInfo body) \<longrightarrow> stateAfter ns (updateNote valid ns user nid fileInfo body) = ns) \<and>
      ((\<not> denied (updateNoteRoute accountVerified None valid ns user nid fileInfo body)) = (accountVerified \<and> (uid user = uploadedBy n \<or> role user = Admin))) \<and>
      (denied (updateNoteRoute accountVerified None valid ns user nid fileInfo body) \<longrightarrow> stateAfter ns (updateNoteRoute accountVerified None valid ns user nid fileInfo body) = ns) \<and>
      ((\<not> denied (deleteNote ns user nid)) = (uid user = uploadedBy n \<or> role user = Admin)) \<and>
      (denied (deleteNote ns user nid) \<longrightarrow> stateAfter ns (deleteNote ns user nid) = ns) \<and>
      ((\<not> denied (deleteNoteRoute accountVerified ns user nid)) = (accountVerified \<and> (uid user = uploadedBy n \<or> role user = Admin))) \<and>
      (denied (deleteNoteRoute accountVerified ns user nid) \<longrightarrow> stateAfter ns (deleteNoteRoute accountVerified ns user nid) = ns))"
  by (auto simp: updateNoteRoute_def deleteNoteRoute_def updateNote_denied deleteNote_denied
        allowed_iff denied_unchanged)

lemma owner_videos:
  "(findById item_id vs vid = Some v \<longrightarrow>
      ((\<not> denied (updateVideo videoInfo valid vs user vid fileInfo body)) = (uid user = uploadedBy v \<or> role user = Admin)) \<and>
      (denied (updateVideo videoInfo valid vs user vid fileInfo body) \<longrightarrow> stateAfter vs (updateVideo videoInfo valid vs user vid fileInfo body) = vs) \<and>
      ((\<not> denied (updateVideoRoute accountVerified None videoInfo valid vs user vid fileInfo body)) = (accountVerified \<and> (uid user = uploadedBy v \<or> role user = Admin))) \<and>
      (denied (updateVideoRoute accountVerified None videoInfo valid vs user vid fileInfo body) \<longrightarrow> stateAfter vs (updateVideoRoute accountVerified None videoInfo valid vs user vid fileInfo body) = vs) \<and>
      ((\<not> denied (deleteVideo vs user vid)) = (uid user = uploadedBy v \<or> role user = Admin)) \<and>
      (denied (deleteVideo vs user vid) \<longrightarrow> stateAfter vs (deleteVideo vs user vid) = vs) \<and>
      ((\<not> denied (deleteVideoRoute accountVerified vs user vid)) = (accountVerified \<and> (uid user = uploadedBy v \<or> role user = Admin))) \<and>
      (denied (deleteVideoRoute accountVerified vs user vid) \<longrightarrow> stateAfter vs (deleteVideoRoute accountVerified vs user vid) = vs))"
  by (auto simp: updateVideoRoute_def deleteVideoRoute_def updateVideo_denied deleteVideo_denied
        allowed_iff denied_unchanged)

lemma owner_pyqs:
  "(findById item_id ps pid = Some p \<longrightarrow>
      ((\<not> denied (updatePYQ parseInt valid ps user pid fileInfo solutionFileInfo body)) = (uid user = uploadedBy p \<or> role user = Admin)) \<and>
      (denied (updatePYQ parseInt valid ps user pid fileInfo solutionFileInfo body) \<longrightarrow> stateAfter ps (updatePYQ parseInt valid ps user pid fileInfo solutionFileInfo body) = ps) \<and>
      ((\<not> denied (updatePYQRoute accountVerified None parseInt valid ps user pid fileInfo solutionFileInfo body)) = (accountVerified \<and> (uid user = uploadedBy p \<or> role user = Admin))) \<and>
      (denied (updatePYQRoute accountVerified None parseInt valid ps user pid fileInfo solutionFileInfo body) \<longrightarrow> stateAfter ps (updatePYQRoute accountVerified None parseInt valid ps user pid fileInfo solutionFileInfo body) = ps) \<and>
      ((\<not> denied (deletePYQ ps user pid)) = (uid user = uploadedBy p \<or> role user = Admin)) \<and>
      (denied (deletePYQ ps user pid) \<longrightarrow> stateAfter ps (deletePYQ ps user pid) = ps) \<and>
      ((\<not> denied (deletePYQRoute accountVerified ps user pid)) = (accountVerified \<and> (uid user = uploadedBy p \<or> role user = Admin))) \<and>
      (denied (deletePYQRoute accountVerified ps user pid) \<longrightarrow> stateAfter ps (deletePYQRoute accountVerified ps user pid) = ps))"
  by (auto simp: updatePYQRoute_def deletePYQRoute_def updatePYQ_denied deletePYQ_denied
        allowed_iff denied_unchanged)

lemma owner_syllabi:
  "(findById item_id ss sid = Some s \<longrightarrow>
      ((\<not> denied (updateSyllabus jsonParse valid ss user sid fileInfo body)) = (uid user = uploadedBy s \<or> role user = Admin)) \<and>
      (denied (updateSyllabus jsonParse valid ss user sid fileInfo body) \<longrightarrow> stateAfter ss (updateSyllabus jsonParse valid ss user sid fileInfo body) = ss) \<and>
      ((\<not> denied (updateSyllabusRoute accountVerified None jsonParse valid ss user sid fileInfo body)) = (accountVerified \<and> (role user = Admin \<or> (role user = Teacher \<and> uid user = uploadedBy s)))) \<and>
      (denied (updateSyllabusRoute accountVerified None jsonParse valid ss user sid fileInfo body) \<longrightarrow> stateAfter ss (updateSyllabusRoute accountVerified None jsonParse valid ss user sid fileInfo body) = ss) \<and>
      ((\<not> denied (deleteSyllabus ss user sid)) = (uid user = uploadedBy s \<or> role user = Admin)) \<and>
      (denied (deleteSyllabus ss user sid) \<longrightarrow> stateAfter ss (deleteSyllabus ss user sid) = ss) \<and>
      ((\<not> denied (deleteSyllabusRoute accountVerified ss user sid)) = (accountVerified \<and> (role user = Admin \<or> (role user = Teacher \<and> uid user = uploadedBy s)))) \<and>
      (denied (deleteSyllabusRoute accountVerified ss user sid) \<longrightarrow> stateAfter ss (deleteSyllabusRoute accountVerified ss user sid) = ss))"
  by (cases "role user")
     (auto simp: updateSyllabusRoute_def deleteSyllabusRoute_def updateSyllabus_denied
        deleteSyllabus_denied allowed_iff denied_unchanged)

lemma owner_messages:
  "(findById msg_id ms mid = Some m \<longrightarrow>
      ((\<not> denied (deleteMessage valid ms user mid)) = (uid user = sender m \<or> role user = Admin)) \<and>
      (denied (deleteMessage valid ms user mid) \<longrightarrow> stateAfter ms (deleteMessage valid ms user mid) = ms) \<and>
      ((\<not> denied (deleteMessageRoute accountVerified valid ms user mid)) = (accountVerified \<and> (uid user = sender m \<or> role user = Admin))) \<and>
      (denied (deleteMessageRoute accountVerified valid ms user mid) \<longrightarrow> stateAfter ms (deleteMessageRoute accountVerified valid ms user mid) = ms))"
  by (auto simp: deleteMessageRoute_def deleteMessage_denied allowed_iff denied_unchanged
       )

lemma owner_announcements:
  "(findById ann_id anns aid = Some a \<longrightarrow>
      ((\<not> denied (updateAnnouncement jsonParse valid anns user aid filesInfo body)) = (uid user = postedBy a \<or> role user = Admin)) \<and>
      (denied (updateAnnouncement jsonParse valid anns user aid filesInfo body) \<longrightarrow> stateAfter anns (updateAnnouncement jsonParse valid anns user aid filesInfo body) = anns) \<and>
      ((\<not> denied (updateAnnouncementRoute accountVerified None jsonParse valid anns user aid filesInfo body)) = (accountVerified \<and> role user = Admin)) \<and>
      (denied (updateAnnouncementRoute accountVerified None jsonParse valid anns user aid filesInfo body) \<longrightarrow> stateAfter anns (updateAnnouncementRoute accountVerified None jsonParse valid anns user aid filesInfo body) = anns) \<and>
      ((\<not> denied (deleteAnnouncement anns user aid)) = (uid user = postedBy a \<or> role user = Admin)) \<and>
      (denied (deleteAnnouncement anns user aid) \<longrightarrow> stateAfter anns (deleteAnnouncement anns user aid) = anns) \<and>
      ((\<not> denied (deleteAnnouncementRoute accountVerified anns user aid)) = (accountVerified \<and> role user = Admin)) \<and>
      (denied (deleteAnnouncementRoute accountVerified anns user aid) \<longrightarrow> stateAfter anns (deleteAnnouncementRoute accountVerified anns user aid) = anns))"
  by (cases "role user")
     (auto simp: updateAnnouncementRoute_def deleteAnnouncementRoute_def updateAnnouncement_denied
        deleteAnnouncement_denied allowed_iff denied_unchanged)

lemma owner_solution:
  "(findById item_id ps pid = Some p \<longrightarrow>
      ((\<not> denied (addSolutionRoute accountVerified None valid ps user pid solutionFile)) =
         (accountVerified \<and> (role user = Admin \<or> role user = Teacher))) \<and>
      (denied (addSolutionRoute accountVerified None valid ps user pid solutionFile) \<longrightarrow>
         stateAfter ps (addSolutionRoute accountVerified None valid ps user pid solutionFile) = ps) \<and>
      (accountVerified \<and> (role user = Admin \<or> role user = Teacher) \<and> valid \<longrightarrow>
         addSolutionRoute accountVerified None valid ps user pid (Some fi) =
           Inr (findByIdAndUpdate item_id ps pid
                  (\<lambda>d. p\<lparr> hasSolution := True, solutionFileUrl := Some (fi_url fi),
                            solutionFilePath := Some (fi_path fi) \<rparr>))))"
proof (intro impI conjI)
  show "(\<not> denied (addSolutionRoute accountVerified None valid ps user pid solutionFile)) =
         (accountVerified \<and> (role user = Admin \<or> role user = Teacher))"
    by (cases "role user")
       (simp_all add: addSolutionRoute_def addSolution_not_denied)
  assume "denied (addSolutionRoute accountVerified None valid ps user pid solutionFile)"
  then show "stateAfter ps (addSolutionRoute accountVerified None valid ps user pid solutionFile) = ps"
    by (rule denied_unchanged)
next
  assume "findById item_id ps pid = Some p"
    and "accountVerified \<and> (role user = Admin \<or> role user = Teacher) \<and> valid"
  then show "addSolutionRoute accountVerified None valid ps user pid (Some fi) =
           Inr (findByIdAndUpdate item_id ps pid
                  (\<lambda>d. p\<lparr> hasSolution := True, solutionFileUrl := Some (fi_url fi),
                            solutionFilePath := Some (fi_path fi) \<rparr>))"
    by (auto simp: addSolutionRoute_def addSolution_def pyqSave_def findById_mem
          isVerifiedUser_def authorize_def)
qed

text \<open>
  Claim C5, as the code has it.  For the update and delete controllers of Note, Video,
  PYQ and Syllabus, for deleteMessage and for the update and delete controllers of
  announcements: when the resource exists, the controller lets the request pass its
  authorisation check if and only if the requesting user is the resource's owner
  (\<open>uploadedBy\<close>, \<open>sender\<close>, \<open>postedBy\<close>) or has the admin role; otherwise it
  answers 403 and the collection is as it was.

  The routes put the account check and, for some, a role check in front of the
  controller; whoever fails one is answered 403 and nothing is written.  So a request
  whose upload, if it has one, is accepted is not denied if and only if the account is verified and, for notes, videos,
  PYQs and messages, the user is the owner or an admin; for syllabi, the user is an admin
  or a teacher who is the owner; for announcements, the user is an admin.

  Adding a solution to a PYQ writes to the PYQ and has no owner check: the request is not
  denied if and only if the account is verified and the user is a teacher or an admin,
  and with a file that the schema accepts it stores the solution in the PYQ, whoever
  uploaded it.
\<close>

theorem owner_or_admin:
  "(findById item_id ns nid = Some n \<longrightarrow>
      ((\<not> denied (updateNote valid ns user nid fileInfo body)) = (uid user = uploadedBy n \<or> role user = Admin)) \<and>
      (denied (updateNote valid ns user nid fileInfo body) \<longrightarrow> stateAfter ns (updateNote valid ns user nid fileInfo body) = ns) \<and>
      ((\<not> denied (updateNoteRoute accountVerified None valid ns user nid fileInfo body)) = (accountVerified \<and> (uid user = uploadedBy n \<or> role user = Admin))) \<and>
      (denied (updateNoteRoute accountVerified None valid ns user nid fileInfo body) \<longrightarrow> stateAfter ns (updateNoteRoute accountVerified None valid ns user nid fileInfo body) = ns) \<and>
      ((\<not> denied (deleteNote ns user nid)) = (uid user = uploadedBy n \<or> role user = Admin)) \<and>
      (denied (deleteNote ns user nid) \<longrightarrow> stateAfter ns (deleteNote ns user nid) = ns) \<and>
      ((\<not> denied (deleteNoteRoute accountVerified ns user nid)) = (accountVerified \<and> (uid user = uploadedBy n \<or> role user = Admin))) \<and>
      (denied (deleteNoteRoute accountVerified ns user nid) \<longrightarrow> stateAfter ns (deleteNoteRoute accountVerified ns user nid) = ns)) \<and>
   (findById item_id vs vid = Some v \<longrightarrow>
      ((\<not> denied (updateVideo videoInfo valid vs user vid fileInfo body)) = (uid user = uploadedBy v \<or> role user = Admin)) \<and>
      (denied (updateVideo videoInfo valid vs user vid fileInfo body) \<longrightarrow> stateAfter vs (updateVideo videoInfo valid vs user vid fileInfo body) = vs) \<and>
      ((\<not> denied (updateVideoRoute accountVerified None videoInfo valid vs user vid fileInfo body)) = (accountVerified \<and> (uid user = uploadedBy v \<or> role user = Admin))) \<and>
      (denied (updateVideoRoute accountVerified None videoInfo valid vs user vid fileInfo body) \<longrightarrow> stateAfter vs (updateVideoRoute accountVerified None videoInfo valid vs user vid fileInfo body) = vs) \<and>
      ((\<not> denied (deleteVideo vs user vid)) = (uid user = uploadedBy v \<or> role user = Admin)) \<and>
      (denied (deleteVideo vs user vid) \<longrightarrow> stateAfter vs (deleteVideo vs user vid) = vs) \<and>
      ((\<not> denied (deleteVideoRoute accountVerified vs user vid)) = (accountVerified \<and> (uid user = uploadedBy v \<or> role user = Admin))) \<and>
      (denied (deleteVideoRoute accountVerified vs user vid) \<longrightarrow> stateAfter vs (deleteVideoRoute accountVerified vs user vid) = vs)) \<and>
   (findById item_id ps pid = Some p \<longrightarrow>
      ((\<not> denied (updatePYQ parseInt valid ps user pid fileInfo solutionFileInfo body)) = (uid user = uploadedBy p \<or> role user = Admin)) \<and>
      (denied (updatePYQ parseInt valid ps user pid fileInfo solutionFileInfo body) \<longrightarrow> stateAfter ps (updatePYQ parseInt valid ps user pid fileInfo solutionFileInfo body) = ps) \<and>
      ((\<not> denied (updatePYQRoute accountVerified None parseInt valid ps user pid fileInfo solutionFileInfo body)) = (accountVerified \<and> (uid user = uploadedBy p \<or> role user = Admin))) \<and>
      (denied (updatePYQRoute accountVerified None parseInt valid ps user pid fileInfo solutionFileInfo body) \<longrightarrow> stateAfter ps (updatePYQRoute accountVerified None parseInt valid ps user pid fileInfo solutionFileInfo body) = ps) \<and>
      ((\<not> denied (deletePYQ ps user pid)) = (uid user = uploadedBy p \<or> role user = Admin)) \<and>
      (denied (deletePYQ ps user pid) \<longrightarrow> stateAfter ps (deletePYQ ps user pid) = ps) \<and>
      ((\<not> denied (deletePYQRoute accountVerified ps user pid)) = (accountVerified \<and> (uid user = uploadedBy p \<or> role user = Admin))) \<and>
      (denied (deletePYQRoute accountVerified ps user pid) \<longrightarrow> stateAfter ps (deletePYQRoute accountVerified ps user pid) = ps)) \<and>
   (findById item_id ss sid = Some s \<longrightarrow>
      ((\<not> denied (updateSyllabus jsonParse valid ss user sid fileInfo body)) = (uid user = uploadedBy s \<or> role user = Admin)) \<and>
      (denied (updateSyllabus jsonParse valid ss user sid fileInfo body) \<longrightarrow> stateAfter ss (updateSyllabus jsonParse valid ss user sid fileInfo body) = ss) \<and>
      ((\<not> denied (updateSyllabusRoute accountVerified None jsonParse valid ss user sid fileInfo body)) = (accountVerified \<and> (role user = Admin \<or> (role user = Teacher \<and> uid user = uploadedBy s)))) \<and>
      (denied (updateSyllabusRoute accountVerified None jsonParse valid ss user sid fileInfo body) \<longrightarrow> stateAfter ss (updateSyllabusRoute accountVerified None jsonParse valid ss user sid fileInfo body) = ss) \<and>
      ((\<not> denied (deleteSyllabus ss user sid)) = (uid user = uploadedBy s \<or> role user = Admin)) \<and>
      (denied (deleteSyllabus ss user sid) \<longrightarrow> stateAfter ss (deleteSyllabus ss user sid) = ss) \<and>
      ((\<not> denied (deleteSyllabusRoute accountVerified ss user sid)) = (accountVerified \<and> (role user = Admin \<or> (role user = Teacher \<and> uid user = uploadedBy s)))) \<and>
      (denied (deleteSyllabusRoute accountVerified ss user sid) \<longrightarrow> stateAfter ss (deleteSyllabusRoute accountVerified ss user sid) = ss)) \<and>
   (findById msg_id ms mid = Some m \<longrightarrow>
      ((\<not> denied (deleteMessage valid ms user mid)) = (uid user = sender m \<or> role user = Admin)) \<and>
      (denied (deleteMessage valid ms user mid) \<longrightarrow> stateAfter ms (deleteMessage valid ms user mid) = ms) \<and>
      ((\<not> denied (deleteMessageRoute accountVerified valid ms user mid)) = (accountVerified \<and> (uid user = sender m \<or> role user = Admin))) \<and>
      (denied (deleteMessageRoute accountVerified valid ms user mid) \<longrightarrow> stateAfter ms (deleteMessageRoute accountVerified valid ms user mid) = ms)) \<and>
   (findById ann_id anns aid = Some a \<longrightarrow>
      ((\<not> denied (updateAnnouncement jsonParse valid anns user aid filesInfo body)) = (uid user = postedBy a \<or> role user = Admin)) \<and>
      (denied (updateAnnouncement jsonParse valid anns user aid filesInfo body) \<longrightarrow> stateAfter anns (updateAnnouncement jsonParse valid anns user aid filesInfo body) = anns) \<and>
      ((\<not> denied (updateAnnouncementRoute accountVerified None jsonParse valid anns user aid filesInfo body)) = (accountVerified \<and> role user = Admin)) \<and>
      (denied (updateAnnouncementRoute accountVerified None jsonParse valid anns user aid filesInfo body) \<longrightarrow> stateAfter anns (updateAnnouncementRoute accountVerified None jsonParse valid anns user aid filesInfo body) = anns) \<and>
      ((\<not> denied (deleteAnnouncement anns user aid)) = (uid user = postedBy a \<or> role user = Admin)) \<and>
      (denied (deleteAnnouncement anns user aid) \<longrightarrow> stateAfter anns (deleteAnnouncement anns user aid) = anns) \<and>
      ((\<not> denied (deleteAnnouncementRoute accountVerified anns user aid)) = (accountVerified \<and> role user = Admin)) \<and>
      (denied (deleteAnnouncementRoute accountVerified anns user aid) \<longrightarrow> stateAfter anns (deleteAnnouncementRoute accountVerified anns user aid) = anns)) \<and>
   (findById item_id ps pid = Some p \<longrightarrow>
      ((\<not> denied (addSolutionRoute accountVerified None valid ps user pid solutionFile)) =
         (accountVerified \<and> (role user = Admin \<or> role user = Teacher))) \<and>
      (denied (addSolutionRoute accountVerified None valid ps user pid solutionFile) \<longrightarrow>
         stateAfter ps (addSolutionRoute accountVerified None valid ps user pid solutionFile) = ps) \<and>
      (accountVerified \<and> (role user = Admin \<or> role user = Teacher) \<and> valid \<longrightarrow>
         addSolutionRoute accountVerified None valid ps user pid (Some fi) =
           Inr (findByIdAndUpdate item_id ps pid
                  (\<lambda>d. p\<lparr> hasSolution := True, solutionFileUrl := Some (fi_url fi),
                            solutionFilePath := Some (fi_path fi) \<rparr>))))"
  using owner_notes [of ns nid n valid user fileInfo body accountVerified]
    owner_videos [of vs vid v videoInfo valid user fileInfo body accountVerified]
    owner_pyqs [of ps pid p parseInt valid user fileInfo solutionFileInfo body accountVerified]
    owner_syllabi [of ss sid s jsonParse valid user fileInfo body accountVerified]
    owner_messages [of ms mid m valid user accountVerified]
    owner_announcements [of anns aid a jsonParse valid user filesInfo body accountVerified]
    owner_solution [of ps pid p accountVerified valid user solutionFile fi]
  by (intro conjI)

text \<open>
  Claim C5 as stated fails: PYQ 1 was uploaded by user 5.  Teacher 6, who is neither its
  owner nor an admin, adds a solution to it.  The request is not denied and the stored
  PYQ has changed.
\<close>

theorem addSolution_not_owner_counterexample:
  "addSolutionRoute True None True
     [\<lparr> item_id = 1, title = Some (JStr ''t''), description = None, subject = None,
        item_branch = None, item_year = None, item_semester = None, uploadedBy = 5,
        views = 0, isVerified = True, p_fileUrl = None, p_filePath = None, p_fileType = None,
        p_fileSize = None, examType = None, examYear = None, difficulty = None,
        p_totalMarks = None, p_duration = None, hasSolution = False, solutionFileUrl = None,
        solutionFilePath = None, p_downloads = 0 \<rparr>]
     \<lparr> branch = None, year = None, semester = None, uid = 6, role = Teacher \<rparr> 1
     (Some \<lparr> fi_url = JStr ''http://host/uploads/pyqs/s.pdf'', fi_path = JStr ''uploads/pyqs/s.pdf'', fi_originalname = ''s.pdf'', fi_size = JNum 10 \<rparr>)
   = Inr [\<lparr> item_id = 1, title = Some (JStr ''t''), description = None, subject = None,
        item_branch = None, item_year = None, item_semester = None, uploadedBy = 5,
        views = 0, isVerified = True, p_fileUrl = None, p_filePath = None, p_fileType = None,
        p_fileSize = None, examType = None, examYear = None, difficulty = None,
        p_totalMarks = None, p_duration = None, hasSolution = True, solutionFileUrl = Some (JStr ''http://host/uploads/pyqs/s.pdf''),
        solutionFilePath = Some (JStr ''uploads/pyqs/s.pdf''), p_downloads = 0 \<rparr>] \<and>
   \<not> denied (addSolutionRoute True None True
     [\<lparr> item_id = 1, title = Some (JStr ''t''), description = None, subject = None,
        item_branch = None, item_year = None, item_semester = None, uploadedBy = 5,
        views = 0, isVerified = True, p_fileUrl = None, p_filePath = None, p_fileType = None,
        p_fileSize = None, examType = None, examYear = None, difficulty = None,
        p_totalMarks = None, p_duration = None, hasSolution = False, solutionFileUrl = None,
        solutionFilePath = None, p_downloads = 0 \<rparr>]
     \<lparr> branch = None, year = None, semester = None, uid = 6, role = Teacher \<rparr> 1
     (Some \<lparr> fi_url = JStr ''http://host/uploads/pyqs/s.pdf'', fi_path = JStr ''uploads/pyqs/s.pdf'', fi_originalname = ''s.pdf'', fi_size = JNum 10 \<rparr>)) \<and>
   uid \<lparr> branch = None, year = None, semester = None, uid = 6, role = Teacher \<rparr> \<noteq>
     uploadedBy (\<lparr> item_id = 1, title = Some (JStr ''t''), description = None, subject = None,
        item_branch = None, item_year = None, item_semester = None, uploadedBy = 5,
        views = 0, isVerified = True, p_fileUrl = None, p_filePath = None, p_fileType = None,
        p_fileSize = None, examType = None, examYear = None, difficulty = None,
        p_totalMarks = None, p_duration = None, hasSolution = False, solutionFileUrl = None,
        solutionFilePath = None, p_downloads = 0 \<rparr>) \<and>
   role \<lparr> branch = None, year = None, semester = None, uid = 6, role = Teacher \<rparr> \<noteq> Admin"
  by (simp add: addSolutionRoute_def isVerifiedUser_def authorize_def addSolution_def
        pyqSave_def findById_def)

text \<open>
  A note of user 5: another teacher is denied, the owner and an admin are not; the owner
  is denied by the route while the account is not verified.
\<close>

theorem owner_or_admin_witness:
  "findById item_id
     [\<lparr> item_id = 1, title = Some (JStr ''t''), description = None, subject = None,
        item_branch = None, item_year = None, item_semester = None, uploadedBy = 5,
        views = 0, isVerified = False, n_fileUrl = None, n_filePath = None,
        n_fileType = None, n_fileSize = None, n_downloads = 0, ratings = [],
        averageRating = 0 \<rparr>] 1 \<noteq> None \<and>
   denied (deleteNote
     [\<lparr> item_id = 1, title = Some (JStr ''t''), description = None, subject = None,
        item_branch = None, item_year = None, item_semester = None, uploadedBy = 5,
        views = 0, isVerified = False, n_fileUrl = None, n_filePath = None,
        n_fileType = None, n_fileSize = None, n_downloads = 0, ratings = [],
        averageRating = 0 \<rparr>]
     \<lparr> branch = None, year = None, semester = None, uid = 6, role = Teacher \<rparr> 1) \<and>
   \<not> denied (deleteNote
     [\<lparr> item_id = 1, title = Some (JStr ''t''), description = None, subject = None,
        item_branch = None, item_year = None, item_semester = None, uploadedBy = 5,
        views = 0, isVerified = False, n_fileUrl = None, n_filePath = None,
        n_fileType = None, n_fileSize = None, n_downloads = 0, ratings = [],
        averageRating = 0 \<rparr>]
     \<lparr> branch = None, year = None, semester = None, uid = 5, role = Student \<rparr> 1) \<and>
   \<not> denied (deleteNote
     [\<lparr> item_id = 1, title = Some (JStr ''t''), description = None, subject = None,
        item_branch = None, item_year = None, item_semester = None, uploadedBy = 5,
        views = 0, isVerified = False, n_fileUrl = None, n_filePath = None,
        n_fileType = None, n_fileSize = None, n_downloads = 0, ratings = [],
        averageRating = 0 \<rparr>]
     \<lparr> branch = None, year = None, semester = None, uid = 9, role = Admin \<rparr> 1) \<and>
   \<not> denied (deleteNoteRoute True
     [\<lparr> item_id = 1, title = Some (JStr ''t''), description = None, subject = None,
        item_branch = None, item_year = None, item_semester = None, uploadedBy = 5,
        views = 0, isVerified = False, n_fileUrl = None, n_filePath = None,
        n_fileType = None, n_fileSize = None, n_downloads = 0, ratings = [],
        averageRating = 0 \<rparr>]
     \<lparr> branch = None, year = None, semester = None, uid = 5, role = Student \<rparr> 1) \<and>
   denied (deleteNoteRoute False
     [\<lparr> item_id = 1, title = Some (JStr ''t''), description = None, subject = None,
        item_branch = None, item_year = None, item_semester = None, uploadedBy = 5,
        views = 0, isVerified = False, n_fileUrl = None, n_filePath = None,
        n_fileType = None, n_fileSize = None, n_downloads = 0, ratings = [],
        averageRating = 0 \<rparr>]
     \<lparr> branch = None, year = None, semester = None, uid = 5, role = Student \<rparr> 1)"
proof -
  let ?n = "\<lparr> item_id = 1, title = Some (JStr ''t''), description = None, subject = None,
        item_branch = None, item_year = None, item_semester = None, uploadedBy = 5,
        views = 0, isVerified = False, n_fileUrl = None, n_filePath = None,
        n_fileType = None, n_fileSize = None, n_downloads = 0, ratings = [],
        averageRating = 0 \<rparr>"
  have f: "findById item_id [?n] 1 = Some ?n" by (simp add: findById_def)
  note spec = owner_or_admin [where ns = "[?n]" and nid = 1 and n = ?n, THEN conjunct1, rule_format, OF f]
  have a: "denied (deleteNote [?n] \<lparr> branch = None, year = None, semester = None, uid = 6, role = Teacher \<rparr> 1)"
    using spec [where user = "\<lparr> branch = None, year = None, semester = None, uid = 6, role = Teacher \<rparr>"]
    by simp
  have b: "\<not> denied (deleteNote [?n] \<lparr> branch = None, year = None, semester = None, uid = 5, role = Student \<rparr> 1)"
    using spec [where user = "\<lparr> branch = None, year = None, semester = None, uid = 5, role = Student \<rparr>"]
    by simp
  have c: "\<not> denied (deleteNote [?n] \<lparr> branch = None, year = None, semester = None, uid = 9, role = Admin \<rparr> 1)"
    using spec [where user = "\<lparr> branch = None, year = None, semester = None, uid = 9, role = Admin \<rparr>"]
    by simp
  have d: "\<not> denied (deleteNoteRoute True [?n] \<lparr> branch = None, year = None, semester = None, uid = 5, role = Student \<rparr> 1)"
    using spec [where user = "\<lparr> branch = None, year = None, semester = None, uid = 5, role = Student \<rparr>" and accountVerified = True]
    by simp
  have e: "denied (deleteNoteRoute False [?n] \<lparr> branch = None, year = None, semester = None, uid = 5, role = Student \<rparr> 1)"
    using spec [where user = "\<lparr> branch = None, year = None, semester = None, uid = 5, role = Student \<rparr>" and accountVerified = False]
    by simp
  from f a b c d e show ?thesis by simp
qed

section \<open>Ratings\<close>

lemma foldl_ratingSum: "foldl (\<lambda>acc item. acc + r_rating item) a rs = a + sum_list (map r_rating rs)"
  by (induction rs arbitrary: a) auto

lemma ratingSum_sum_list: "ratingSum rs = sum_list (map r_rating rs)"
  by (simp add: ratingSum_def foldl_ratingSum)

lemma notePreSave_ok: "distinct (map r_user (ratings n)) \<Longrightarrow> ratingsOk (notePreSave n)"
  by (simp add: ratingsOk_def notePreSave_def mean_def ratingSum_sum_list)

lemma notePreSave_ratings [simp]: "ratings (notePreSave n) = ratings n"
  by (simp add: notePreSave_def)

lemma rateExisting_users [simp]: "map r_user (rateExisting u x c now rs) = map r_user rs"
  by (induction rs) auto

lemma rateExisting_length [simp]: "length (rateExisting u x c now rs) = length rs"
  by (induction rs) auto

lemma find_None_user: "find (\<lambda>r. r_user r = u) rs = None \<Longrightarrow> u \<notin> set (map r_user rs)"
  by (induction rs) (auto split: if_splits)

lemma find_Some_user: "find (\<lambda>r. r_user r = u) rs \<noteq> None \<Longrightarrow> u \<in> set (map r_user rs)"
  by (induction rs) (auto split: if_splits)

lemma find_Some_user': "find (\<lambda>r. r_user r = u) rs = Some a \<Longrightarrow> u \<in> set (map r_user rs)"
  by (rule find_Some_user) simp

lemma rateExisting_value:
  "distinct (map r_user rs) \<Longrightarrow> u \<in> set (map r_user rs) \<Longrightarrow>
     map r_rating (filter (\<lambda>r. r_user r = u) (rateExisting u x c now rs)) = [x]"
proof (induction rs)
  case Nil then show ?case by simp
next
  case (Cons r rs)
  show ?case
  proof (cases "r_user r = u")
    case True
    with Cons.prems have "u \<notin> r_user ` set rs" by simp
    then have "\<forall>r' \<in> set rs. r_user r' \<noteq> u" by (metis imageI)
    then have "filter (\<lambda>r. r_user r = u) rs = []" by (simp add: filter_empty_conv)
    with True show ?thesis by simp
  next
    case False
    with Cons show ?thesis by auto
  qed
qed

lemma distinct_count_one:
  "distinct (map r_user rs) \<Longrightarrow> u \<in> set (map r_user rs) \<Longrightarrow>
     length (filter (\<lambda>r. r_user r = u) rs) = 1"
proof (induction rs)
  case Nil then show ?case by simp
next
  case (Cons r rs)
  show ?case
  proof (cases "r_user r = u")
    case True
    with Cons.prems have "u \<notin> r_user ` set rs" by simp
    then have "\<forall>r' \<in> set rs. r_user r' \<noteq> u" by (metis imageI)
    then have "filter (\<lambda>r. r_user r = u) rs = []" by (simp add: filter_empty_conv)
    with True show ?thesis by simp
  next
    case False
    with Cons show ?thesis by auto
  qed
qed

text \<open>What a successful addRating stores.\<close>

lemma addRating_Inr:
  assumes "addRating toNumber castNumber now valid ns user nid body = Inr ns'"
  shows "\<exists>n rv x rs'. findById item_id ns nid = Some n \<and> body ''rating'' = Some rv \<and>
           castNumber rv = Some x \<and>
           rs' = (if find (\<lambda>r. r_user r = uid user) (ratings n) \<noteq> None
                    then rateExisting (uid user) x (body ''comment'') now (ratings n)
                  else ratings n @ [\<lparr> r_rating = x, r_comment = body ''comment'',
                                     r_user = uid user, r_createdAt = now \<rparr>]) \<and>
           ns' = findByIdAndUpdate item_id ns nid (\<lambda>d. notePreSave
                   (n\<lparr> ratings := rs', averageRating := ratingSum rs' / of_nat (length rs') \<rparr>))"
proof (cases "body ''rating''")
  case None
  with assms show ?thesis by (simp add: addRating_def)
next
  case (Some rv)
  show ?thesis
  proof (cases "findById item_id ns nid")
    case None
    with Some assms show ?thesis by (simp add: addRating_def split: if_splits)
  next
    case f: (Some n)
    then have i: "item_id n = nid" by (simp add: findById_mem)
    show ?thesis
    proof (cases "castNumber rv")
      case None
      with Some f assms show ?thesis by (simp add: addRating_def split: if_splits)
    next
      case c: (Some x)
      with Some f assms i show ?thesis
        by (simp add: addRating_def Let_def noteSave_def split: if_splits)
    qed
  qed
qed


lemma ok_found: "findById item_id ns j = Some n \<Longrightarrow> list_all ratingsOk ns \<Longrightarrow> ratingsOk n"
  by (auto dest: findById_mem simp: list_all_iff)

lemma ok_noteSave:
  assumes "noteSave valid ns n' = Inr ns'" and "findById item_id ns (item_id n') = Some n"
    and "list_all ratingsOk ns" and "distinct (map r_user (ratings n'))"
  shows "list_all ratingsOk ns'"
proof -
  from assms(1) have e: "ns' = findByIdAndUpdate item_id ns (item_id n') (\<lambda>d. notePreSave n')"
    by (simp add: noteSave_def split: if_splits)
  show ?thesis unfolding e using assms(2,3)
    by (rule update_inv) (simp add: notePreSave_ok assms(4))
qed

lemma ok_simpleSave:
  assumes "noteSave valid ns n' = Inr ns'" and "findById item_id ns j = Some n"
    and "item_id n' = item_id n" and "ratings n' = ratings n" and "list_all ratingsOk ns"
  shows "list_all ratingsOk ns'"
proof -
  have j: "item_id n = j" using assms(2) by (simp add: findById_mem)
  have "ratingsOk n" using assms(2,5) by (rule ok_found)
  then have d: "distinct (map r_user (ratings n'))" by (simp add: ratingsOk_def assms(4))
  from assms(1) _ assms(5) d show ?thesis
    by (rule ok_noteSave) (simp add: assms(2,3) j)
qed

lemma ok_getNote:
  "getNote valid ns j = Inr ns' \<Longrightarrow> list_all ratingsOk ns \<Longrightarrow> list_all ratingsOk ns'"
  unfolding getNote_def by (auto split: option.splits elim!: ok_simpleSave)

lemma ok_incrementNoteViews:
  "incrementNoteViews valid ns j = Inr ns' \<Longrightarrow> list_all ratingsOk ns \<Longrightarrow> list_all ratingsOk ns'"
  unfolding incrementNoteViews_def by (auto split: option.splits elim!: ok_simpleSave)

lemma ok_downloadNote:
  "downloadNote valid ns j = Inr ns' \<Longrightarrow> list_all ratingsOk ns \<Longrightarrow> list_all ratingsOk ns'"
  unfolding downloadNote_def by (auto split: option.splits elim!: ok_simpleSave)

lemma ok_verifyNote:
  "verifyNote valid ns j = Inr ns' \<Longrightarrow> list_all ratingsOk ns \<Longrightarrow> list_all ratingsOk ns'"
  unfolding verifyNote_def by (auto split: option.splits elim!: ok_simpleSave)

lemma ok_createNote:
  "createNote valid newId ns user fileInfo body = Inr ns' \<Longrightarrow> list_all ratingsOk ns \<Longrightarrow> list_all ratingsOk ns'"
  unfolding createNote_def
  by (auto split: option.splits elim!: create_list_all intro!: notePreSave_ok)

lemma ok_updateNote:
  "updateNote valid ns user j fileInfo body = Inr ns' \<Longrightarrow> list_all ratingsOk ns \<Longrightarrow> list_all ratingsOk ns'"
  unfolding updateNote_def Let_def
  by (auto split: option.splits if_splits intro!: update_inv simp: ratingsOk_def)

lemma ok_deleteNote:
  "deleteNote ns user j = Inr ns' \<Longrightarrow> list_all ratingsOk ns \<Longrightarrow> list_all ratingsOk ns'"
  unfolding deleteNote_def deleteDoc_def
  by (auto split: option.splits if_splits simp: list_all_iff)

lemma newRatings_distinct:
  assumes "distinct (map r_user rs)"
  shows "distinct (map r_user
           (if find (\<lambda>r. r_user r = u) rs \<noteq> None then rateExisting u x c now rs
            else rs @ [\<lparr> r_rating = x, r_comment = c, r_user = u, r_createdAt = now \<rparr>]))"
proof (cases "find (\<lambda>r. r_user r = u) rs")
  case None
  then have "u \<notin> set (map r_user rs)" by (rule find_None_user)
  with None assms show ?thesis by simp
next
  case (Some r)
  with assms show ?thesis by simp
qed

lemma ok_addRating:
  assumes "addRating toNumber castNumber now valid ns user j body = Inr ns'" and "list_all ratingsOk ns"
  shows "list_all ratingsOk ns'"
proof -
  from addRating_Inr [OF assms(1)] obtain n rv x rs' where
    f: "findById item_id ns j = Some n" and
    r: "rs' = (if find (\<lambda>r. r_user r = uid user) (ratings n) \<noteq> None
                    then rateExisting (uid user) x (body ''comment'') now (ratings n)
                  else ratings n @ [\<lparr> r_rating = x, r_comment = body ''comment'',
                                     r_user = uid user, r_createdAt = now \<rparr>])" and
    e: "ns' = findByIdAndUpdate item_id ns j (\<lambda>d. notePreSave
                   (n\<lparr> ratings := rs', averageRating := ratingSum rs' / of_nat (length rs') \<rparr>))"
    by blast
  have "ratingsOk n" using f assms(2) by (rule ok_found)
  then have "distinct (map r_user (ratings n))" by (simp add: ratingsOk_def)
  then have d: "distinct (map r_user rs')" unfolding r by (rule newRatings_distinct)
  have "ratingsOk (notePreSave (n\<lparr> ratings := rs', averageRating := ratingSum rs' / of_nat (length rs') \<rparr>))"
    by (rule notePreSave_ok) (simp add: d)
  with f assms(2) show ?thesis unfolding e by (rule update_inv)
qed

lemma onNotes_ok:
  assumes "\<And>ns. r = Inr ns \<Longrightarrow> list_all ratingsOk ns" and "list_all ratingsOk (db_notes d)"
  shows "list_all ratingsOk (db_notes (db (onNotes d r)))"
  using assms by (cases r) (simp_all add: onNotes_def failed_def succeeded_def)

lemma ok_verifyContent:
  assumes "list_all ratingsOk (db_notes d)"
  shows "list_all ratingsOk (db_notes (db (verifyContent notifyUsers valid d contentType contentId)))"
proof -
  let ?d' = "db (verifyContent notifyUsers valid d contentType contentId)"
  from verifyContent_db [of notifyUsers valid d contentType contentId]
  consider (same) "?d' = d"
    | (n) j n ns where "findById item_id (db_notes d) j = Some n"
        "noteSave valid (db_notes d) (n\<lparr> isVerified := True \<rparr>) = Inr ns" "?d' = d\<lparr> db_notes := ns \<rparr>"
    | (v) vs where "?d' = d\<lparr> db_videos := vs \<rparr>"
    | (p) ps where "?d' = d\<lparr> db_pyqs := ps \<rparr>"
    by blast
  then show ?thesis
  proof cases
    case same
    with assms show ?thesis by simp
  next
    case n
    have "list_all ratingsOk ns" using n(2,1) _ _ assms by (rule ok_simpleSave) simp_all
    with n(3) show ?thesis by simp
  next
    case v
    with assms show ?thesis by simp
  next
    case p
    with assms show ?thesis by simp
  qed
qed

lemma contentHandler_ok:
  assumes a: "list_all ratingsOk (db_notes d)"
  shows "list_all ratingsOk (db_notes (db (contentHandler rt d r)))"
proof (cases r)
  case (GetNote valid nid)
  then show ?thesis
    by (simp, intro onNotes_ok a) (use a in \<open>auto dest: ok_getNote\<close>)
next
  case (CreateNote valid newId user fileInfo body)
  then show ?thesis
    by (simp, intro onNotes_ok a) (use a in \<open>auto dest: ok_createNote\<close>)
next
  case (UpdateNote valid user nid fileInfo body)
  then show ?thesis
    by (simp, intro onNotes_ok a) (use a in \<open>auto dest: ok_updateNote\<close>)
next
  case (DeleteNote user nid)
  then show ?thesis
    by (simp, intro onNotes_ok a) (use a in \<open>auto dest: ok_deleteNote\<close>)
next
  case (VerifyNote valid nid)
  then show ?thesis
    by (simp, intro onNotes_ok a) (use a in \<open>auto dest: ok_verifyNote\<close>)
next
  case (AddRating now valid user nid body)
  then show ?thesis
    by (simp, intro onNotes_ok a) (use a in \<open>auto dest: ok_addRating\<close>)
next
  case (DownloadNote valid nid)
  then show ?thesis
    by (simp, intro onNotes_ok a) (use a in \<open>auto dest: ok_downloadNote\<close>)
next
  case (IncrementNoteViews valid nid)
  then show ?thesis
    by (simp, intro onNotes_ok a) (use a in \<open>auto dest: ok_incrementNoteViews\<close>)
next
  case (GetVideo valid vid)
  then show ?thesis using a by simp
next
  case (CreateVideo videoInfo valid newId user fileInfo body)
  then show ?thesis using a by simp
next
  case (UpdateVideo videoInfo valid user vid fileInfo body)
  then show ?thesis using a by simp
next
  case (DeleteVideo user vid)
  then show ?thesis using a by simp
next
  case (VerifyVideo valid vid)
  then show ?thesis using a by simp
next
  case (LikeVideo valid user vid)
  then show ?thesis using a by simp
next
  case (AddComment valid newId user vid body)
  then show ?thesis using a by simp
next
  case (DeleteComment valid user vid commentId)
  then show ?thesis using a by simp
next
  case (GetPYQ valid pid)
  then show ?thesis using a by simp
next
  case (CreatePYQ valid valid2 newId user fileInfo solutionFileInfo body)
  then show ?thesis using a by (simp split: prod.splits)
next
  case (UpdatePYQ valid user pid fileInfo solutionFileInfo body)
  then show ?thesis using a by simp
next
  case (DeletePYQ user pid)
  then show ?thesis using a by simp
next
  case (AddSolution valid pid fileInfo)
  then show ?thesis using a by simp
next
  case (VerifyPYQ valid pid)
  then show ?thesis using a by simp
next
  case (DownloadPYQ valid pid)
  then show ?thesis using a by simp
next
  case (GetSyllabus valid sid)
  then show ?thesis using a by simp
next
  case (CreateSyllabus valid newId user fileInfo body)
  then show ?thesis using a by simp
next
  case (UpdateSyllabus valid user sid fileInfo body)
  then show ?thesis using a by simp
next
  case (DeleteSyllabus user sid)
  then show ?thesis using a by simp
next
  case (DownloadSyllabus valid sid)
  then show ?thesis using a by simp
next
  case (VerifyContent notifyUsers valid contentType contentId)
  then show ?thesis using a by (simp add: ok_verifyContent)
qed

lemma contentRun_ok:
  "list_all ratingsOk (db_notes d) \<Longrightarrow> list_all ratingsOk (db_notes (contentRun rt d rs))"
  by (induction rs arbitrary: d) (auto intro: contentHandler_ok)

text \<open>
  Claim C7.  When a note's ratings name no user twice and addRating succeeds, the note
  afterwards still names no user twice and holds exactly one rating of the requesting
  user, with the submitted value; the number of ratings is unchanged if the user had
  rated before and one more if not; and \<open>averageRating\<close> is the sum of the stored
  values divided by their number.  Moreover, starting from any note collection whose
  notes are in order (the empty one is), every note reached by any sequence of content
  requests names no user twice in its ratings and stores their mean as
  \<open>averageRating\<close> (zero when it has no rating).
\<close>

theorem rating_overwrite:
  "(findById item_id ns nid = Some n \<and> distinct (map r_user (ratings n)) \<and>
    addRating toNumber castNumber now valid ns user nid body = Inr ns' \<longrightarrow>
      (\<exists>n' rv x. findById item_id ns' nid = Some n' \<and>
         body ''rating'' = Some rv \<and> castNumber rv = Some x \<and>
         distinct (map r_user (ratings n')) \<and>
         map r_rating (filter (\<lambda>r. r_user r = uid user) (ratings n')) = [x] \<and>
         (uid user \<in> set (map r_user (ratings n)) \<longrightarrow> length (ratings n') = length (ratings n)) \<and>
         (uid user \<notin> set (map r_user (ratings n)) \<longrightarrow> length (ratings n') = length (ratings n) + 1) \<and>
         averageRating n' = sum_list (map r_rating (ratings n')) / of_nat (length (ratings n')))) \<and>
   (list_all ratingsOk (db_notes d) \<longrightarrow>
      (\<forall>m \<in> set (db_notes (contentRun rt d rs)).
         distinct (map r_user (ratings m)) \<and>
         averageRating m = mean (map r_rating (ratings m))))"
proof (intro conjI impI)
  assume h: "findById item_id ns nid = Some n \<and> distinct (map r_user (ratings n)) \<and>
    addRating toNumber castNumber now valid ns user nid body = Inr ns'"
  then have f0: "findById item_id ns nid = Some n" and d0: "distinct (map r_user (ratings n))"
    and a: "addRating toNumber castNumber now valid ns user nid body = Inr ns'" by simp_all
  from addRating_Inr [OF a] f0 obtain rv x rs' where
    rv: "body ''rating'' = Some rv" and x: "castNumber rv = Some x" and
    r: "rs' = (if find (\<lambda>r. r_user r = uid user) (ratings n) \<noteq> None
                    then rateExisting (uid user) x (body ''comment'') now (ratings n)
                  else ratings n @ [\<lparr> r_rating = x, r_comment = body ''comment'',
                                     r_user = uid user, r_createdAt = now \<rparr>])" and
    e: "ns' = findByIdAndUpdate item_id ns nid (\<lambda>d. notePreSave
                   (n\<lparr> ratings := rs', averageRating := ratingSum rs' / of_nat (length rs') \<rparr>))"
    by auto
  let ?n' = "notePreSave (n\<lparr> ratings := rs', averageRating := ratingSum rs' / of_nat (length rs') \<rparr>)"
  have i: "item_id n = nid" using f0 by (simp add: findById_mem)
  have f1: "findById item_id ns' nid = Some ?n'"
    unfolding e using f0 i by (simp add: findById_update_at notePreSave_def)
  have rs: "ratings ?n' = rs'" by simp
  have d1: "distinct (map r_user rs')" unfolding r using d0 by (rule newRatings_distinct)
  have ne: "rs' \<noteq> []"
  proof (cases "find (\<lambda>r. r_user r = uid user) (ratings n)")
    case None
    then show ?thesis unfolding r by simp
  next
    case (Some r0)
    then have "ratings n \<noteq> []" by auto
    then have "length (rateExisting (uid user) x (body ''comment'') now (ratings n)) \<noteq> 0" by simp
    then have "rateExisting (uid user) x (body ''comment'') now (ratings n) \<noteq> []" by fastforce
    with Some show ?thesis unfolding r by simp
  qed
  have val: "map r_rating (filter (\<lambda>r. r_user r = uid user) rs') = [x]"
  proof (cases "find (\<lambda>r. r_user r = uid user) (ratings n)")
    case None
    then have "uid user \<notin> set (map r_user (ratings n))" by (rule find_None_user)
    then have "uid user \<notin> r_user ` set (ratings n)" by simp
    then have "\<forall>r' \<in> set (ratings n). r_user r' \<noteq> uid user" by (metis imageI)
    then have "filter (\<lambda>r. r_user r = uid user) (ratings n) = []" by (simp add: filter_empty_conv)
    with None show ?thesis unfolding r by simp
  next
    case (Some r0)
    then have "uid user \<in> set (map r_user (ratings n))" by (intro find_Some_user) simp
    with Some d0 show ?thesis unfolding r by (simp add: rateExisting_value)
  qed
  have len1: "uid user \<in> set (map r_user (ratings n)) \<Longrightarrow> length rs' = length (ratings n)"
    unfolding r by (cases "find (\<lambda>r. r_user r = uid user) (ratings n)") (auto dest: find_None_user)
  have len2: "uid user \<notin> set (map r_user (ratings n)) \<Longrightarrow> length rs' = length (ratings n) + 1"
    unfolding r by (cases "find (\<lambda>r. r_user r = uid user) (ratings n)") (auto dest: find_Some_user')
  have avg: "averageRating ?n' = sum_list (map r_rating rs') / of_nat (length rs')"
    using ne by (simp add: notePreSave_def ratingSum_sum_list)
  have "findById item_id ns' nid = Some ?n' \<and>
         body ''rating'' = Some rv \<and> castNumber rv = Some x \<and>
         distinct (map r_user (ratings ?n')) \<and>
         map r_rating (filter (\<lambda>r. r_user r = uid user) (ratings ?n')) = [x] \<and>
         (uid user \<in> set (map r_user (ratings n)) \<longrightarrow> length (ratings ?n') = length (ratings n)) \<and>
         (uid user \<notin> set (map r_user (ratings n)) \<longrightarrow> length (ratings ?n') = length (ratings n) + 1) \<and>
         averageRating ?n' = sum_list (map r_rating (ratings ?n')) / of_nat (length (ratings ?n'))"
    unfolding rs using f1 rv x d1 val len1 len2 avg by (intro conjI impI)
  then show "\<exists>n' rv x. findById item_id ns' nid = Some n' \<and>
         body ''rating'' = Some rv \<and> castNumber rv = Some x \<and>
         distinct (map r_user (ratings n')) \<and>
         map r_rating (filter (\<lambda>r. r_user r = uid user) (ratings n')) = [x] \<and>
         (uid user \<in> set (map r_user (ratings n)) \<longrightarrow> length (ratings n') = length (ratings n)) \<and>
         (uid user \<notin> set (map r_user (ratings n)) \<longrightarrow> length (ratings n') = length (ratings n) + 1) \<and>
         averageRating n' = sum_list (map r_rating (ratings n')) / of_nat (length (ratings n'))"
    by (intro exI)
next
  assume "list_all ratingsOk (db_notes d)"
  then have "list_all ratingsOk (db_notes (contentRun rt d rs))" by (rule contentRun_ok)
  then show "\<forall>m \<in> set (db_notes (contentRun rt d rs)).
         distinct (map r_user (ratings m)) \<and>
         averageRating m = mean (map r_rating (ratings m))"
    by (simp add: list_all_iff ratingsOk_def)
qed

text \<open>
  User 5 has rated a note with 4 and user 6 with 5; user 5 rates it again with 2.  The
  note then holds the ratings 2 and 5 and the average 7/2.
\<close>

theorem rating_overwrite_witness:
  "\<exists>ns' n'. addRating (\<lambda>v. case v of JNum x \<Rightarrow> Some x | _ \<Rightarrow> None)
        (\<lambda>v. case v of JNum x \<Rightarrow> Some x | _ \<Rightarrow> None) None True
        [\<lparr> item_id = 1, title = None, description = None, subject = None,
           item_branch = None, item_year = None, item_semester = None, uploadedBy = 5,
           views = 0, isVerified = True, n_fileUrl = None, n_filePath = None,
           n_fileType = None, n_fileSize = None, n_downloads = 0,
           ratings = [\<lparr> r_rating = 4, r_comment = None, r_user = 5, r_createdAt = None \<rparr>,
                      \<lparr> r_rating = 5, r_comment = None, r_user = 6, r_createdAt = None \<rparr>],
           averageRating = 9 / 2 \<rparr>]
        \<lparr> branch = None, year = None, semester = None, uid = 5, role = Student \<rparr> 1
        [''rating'' \<mapsto> JNum 2] = Inr ns' \<and>
      findById item_id ns' 1 = Some n' \<and>
      map r_rating (ratings n') = [2, 5] \<and> map r_user (ratings n') = [5, 6] \<and>
      averageRating n' = 7 / 2"
proof -
  let ?num = "\<lambda>v. case v of JNum x \<Rightarrow> Some x | _ \<Rightarrow> None"
  let ?n = "\<lparr> item_id = 1, title = None, description = None, subject = None,
           item_branch = None, item_year = None, item_semester = None, uploadedBy = 5,
           views = 0, isVerified = True, n_fileUrl = None, n_filePath = None,
           n_fileType = None, n_fileSize = None, n_downloads = 0,
           ratings = [\<lparr> r_rating = 4, r_comment = None, r_user = 5, r_createdAt = None \<rparr>,
                      \<lparr> r_rating = 5, r_comment = None, r_user = 6, r_createdAt = None \<rparr>],
           averageRating = 9 / 2 \<rparr>"
  let ?u = "\<lparr> branch = None, year = None, semester = None, uid = 5, role = Student \<rparr>"
  let ?rs' = "[\<lparr> r_rating = 2, r_comment = None, r_user = 5, r_createdAt = None \<rparr>,
               \<lparr> r_rating = 5, r_comment = None, r_user = 6, r_createdAt = None \<rparr>]"
  have f: "findById item_id [?n] 1 = Some ?n" by (simp add: findById_def)
  have d: "distinct (map r_user (ratings ?n))" by simp
  have a: "addRating ?num ?num None True [?n] ?u 1 [''rating'' \<mapsto> JNum 2] =
             Inr [?n\<lparr> ratings := ?rs', averageRating := 7 / 2 \<rparr>]"
    by (simp add: addRating_def jsLess_def jsGreater_def findById_def setIf_def noteSave_def
          notePreSave_def ratingSum_def Let_def)
  from rating_overwrite [where ns = "[?n]" and nid = 1 and n = ?n and user = ?u
      and body = "[''rating'' \<mapsto> JNum 2]" and toNumber = ?num and castNumber = ?num
      and now = None and valid = True and ns' = "[?n\<lparr> ratings := ?rs', averageRating := 7 / 2 \<rparr>]",
      THEN conjunct1, rule_format, OF conjI [OF f conjI [OF d a]]]
  obtain n' where
    f': "findById item_id [?n\<lparr> ratings := ?rs', averageRating := 7 / 2 \<rparr>] 1 = Some n'" and
    avg: "averageRating n' = sum_list (map r_rating (ratings n')) / of_nat (length (ratings n'))"
    by blast
  from f' have n': "n' = ?n\<lparr> ratings := ?rs', averageRating := 7 / 2 \<rparr>"
    by (simp add: findById_def)
  from avg have "averageRating n' = 7 / 2" unfolding n' by simp
  with a f' n' show ?thesis by simp
qed

section \<open>Verification and the notification of the uploader\<close>

text \<open>
  Claim C9 against the code.  A teacher verifies the unverified note 1 of student 5
  through verifyNote: the flag is stored and the request succeeds, and nothing is handed
  to the notification service; the same holds for verifyVideo and verifyPYQ, whatever the
  collection and the item.  The admin controller verifyContent, on the same note, hands
  over one notification addressed to user 5.
\<close>

theorem verify_without_notification:
  "verifyNote True
     [\<lparr> item_id = 1, title = Some (JStr ''Trees''), description = None, subject = None,
        item_branch = None, item_year = None, item_semester = None, uploadedBy = 5,
        views = 0, isVerified = False, n_fileUrl = None, n_filePath = None,
        n_fileType = None, n_fileSize = None, n_downloads = 0, ratings = [],
        averageRating = 0 \<rparr>] 1 =
   Inr [\<lparr> item_id = 1, title = Some (JStr ''Trees''), description = None, subject = None,
        item_branch = None, item_year = None, item_semester = None, uploadedBy = 5,
        views = 0, isVerified = True, n_fileUrl = None, n_filePath = None,
        n_fileType = None, n_fileSize = None, n_downloads = 0, ratings = [],
        averageRating = 0 \<rparr>] \<and>
   dispatched (onNotes d (verifyNote valid ns nid)) = [] \<and>
   dispatched (onVideos d (verifyVideo valid vs vid)) = [] \<and>
   dispatched (onPyqs d (verifyPYQ valid ps pid)) = [] \<and>
   map targetUsers (dispatched (verifyContent notifyUsers True
     \<lparr> db_notes = [\<lparr> item_id = 1, title = Some (JStr ''Trees''), description = None, subject = None,
        item_branch = None, item_year = None, item_semester = None, uploadedBy = 5,
        views = 0, isVerified = False, n_fileUrl = None, n_filePath = None,
        n_fileType = None, n_fileSize = None, n_downloads = 0, ratings = [],
        averageRating = 0 \<rparr>], db_videos = [], db_pyqs = [], db_syllabi = [] \<rparr>
     (Some (JStr ''note'')) (Some 1))) = [[5]]"
proof (intro conjI)
  show "dispatched (onNotes d (verifyNote valid ns nid)) = []"
    by (cases "verifyNote valid ns nid") (simp_all add: onNotes_def failed_def succeeded_def)
  show "dispatched (onVideos d (verifyVideo valid vs vid)) = []"
    by (cases "verifyVideo valid vs vid") (simp_all add: onVideos_def failed_def succeeded_def)
  show "dispatched (onPyqs d (verifyPYQ valid ps pid)) = []"
    by (cases "verifyPYQ valid ps pid") (simp_all add: onPyqs_def failed_def succeeded_def)
qed (simp_all add: verifyNote_def noteSave_def notePreSave_def findById_def verifyContent_def
       notifyUploader_def Let_def)

text \<open>
  The outcome of the notification service does not reach the answer of verifyContent:
  whether it throws or returns, the same error or success, the same collections and the
  same notification result.
\<close>

lemma verifyContent_ignores_notification_outcome:
  "failure (verifyContent notifyUsers valid d contentType contentId) =
     failure (verifyContent notifyUsers' valid d contentType contentId) \<and>
   db (verifyContent notifyUsers valid d contentType contentId) =
     db (verifyContent notifyUsers' valid d contentType contentId) \<and>
   dispatched (verifyContent notifyUsers valid d contentType contentId) =
     dispatched (verifyContent notifyUsers' valid d contentType contentId)"
  by (simp add: verifyContent_def notifyUploader_def failed_def Let_def
        split: option.splits sum.splits)

section \<open>Direct registration\<close>

lemma register_cases:
  assumes "register valid valid' newId hashedOTP otpExpiry us body = (e, us')"
  shows "(us' = us \<and> e \<noteq> None) \<or>
         (\<exists>u. us' = us @ [u] \<and> u_id u = newId \<and> u_role u = Student \<and> \<not> u_isVerified u \<and>
              \<not> (truthyOpt (body ''role'') \<and> body ''role'' \<noteq> Some (JStr ''student'')))"
proof (cases "find (\<lambda>u. u_email u = body ''email'') us \<noteq> None")
  case True
  with assms show ?thesis by (auto simp: register_def Let_def)
next
  case c1: False
  show ?thesis
  proof (cases "truthyOpt (body ''role'') \<and> body ''role'' \<noteq> Some (JStr ''student'')")
    case True
    with c1 assms show ?thesis unfolding register_def Let_def by (simp only: if_P if_False) auto
  next
    case c2: False
    let ?u = "\<lparr> u_id = newId, u_name = body ''name'', u_email = body ''email'',
                     u_phone = body ''phone'', u_role = Student, u_branch = body ''branch'',
                     u_year = body ''year'', u_semester = body ''semester'',
                     u_rollNumber = body ''rollNumber'', u_isVerified = False,
                     u_otp = None, u_otpExpiry = None \<rparr>"
    let ?u' = "?u\<lparr> u_otp := Some hashedOTP, u_otpExpiry := Some otpExpiry \<rparr>"
    have r: "register valid valid' newId hashedOTP otpExpiry us body =
               (case create u_id valid us ?u of
                  Inl e \<Rightarrow> (Some e, us)
                | Inr users1 \<Rightarrow>
                    if \<not> valid' then (Some ValidationError, users1)
                    else (None, findByIdAndUpdate u_id users1 newId (\<lambda>d. ?u')))"
      unfolding register_def Let_def if_not_P [OF c1] if_not_P [OF c2] ..
    show ?thesis
    proof (cases "create u_id valid us ?u")
      case (Inl err)
      with assms r show ?thesis by auto
    next
      case (Inr us1)
      then have u1: "us1 = us @ [?u]" and fresh: "findById u_id us newId = None"
        using create_Inr [of u_id valid us ?u us1] by auto
      show ?thesis
      proof (cases valid')
        case False
        with Inr assms r u1 c2 show ?thesis by auto
      next
        case True
        have "findByIdAndUpdate u_id (us @ [?u]) newId (\<lambda>d. ?u') = us @ [?u']"
          using fresh by (simp add: update_append_fresh)
        with True Inr assms r u1 have "us' = us @ [?u']" by simp
        with c2 show ?thesis by auto
      qed
    qed
  qed
qed

text \<open>
  Claim C10.  A registration request that names a role other than \<open>student\<close> is
  answered with a 400 error and the user collection is as it was.  Whatever the request,
  the collection afterwards is either unchanged or has exactly one new user, and that
  user has the role student and is not verified.
\<close>

theorem register_student_only:
  "(truthyOpt (body ''role'') \<and> body ''role'' \<noteq> Some (JStr ''student'') \<longrightarrow>
      (\<exists>msg. register valid valid' newId hashedOTP otpExpiry us body =
                (Some (ErrorResponse msg 400), us))) \<and>
   (register valid valid' newId hashedOTP otpExpiry us body = (e, us') \<longrightarrow>
      us' = us \<or> (\<exists>u. us' = us @ [u] \<and> u_id u = newId \<and> u_role u = Student \<and> \<not> u_isVerified u))"
proof (intro conjI impI)
  assume "truthyOpt (body ''role'') \<and> body ''role'' \<noteq> Some (JStr ''student'')"
  then show "\<exists>msg. register valid valid' newId hashedOTP otpExpiry us body =
                (Some (ErrorResponse msg 400), us)"
    by (simp add: register_def Let_def)
next
  assume "register valid valid' newId hashedOTP otpExpiry us body = (e, us')"
  from register_cases [OF this]
  show "us' = us \<or> (\<exists>u. us' = us @ [u] \<and> u_id u = newId \<and> u_role u = Student \<and> \<not> u_isVerified u)"
    by blast
qed

text \<open>
  A request with role admin is refused; the same request with role student creates an
  unverified student.
\<close>

theorem register_student_only_witness:
  "truthyOpt ([''email'' \<mapsto> JStr ''a@b.co'', ''role'' \<mapsto> JStr ''admin''] ''role'') \<and>
   register True True 4 (JStr ''h'') (JNum 15) []
     [''email'' \<mapsto> JStr ''a@b.co'', ''role'' \<mapsto> JStr ''admin''] =
     (Some (ErrorResponse ''Only students can register directly'' 400), []) \<and>
   (\<exists>u. register True True 4 (JStr ''h'') (JNum 15) []
          [''email'' \<mapsto> JStr ''a@b.co'', ''role'' \<mapsto> JStr ''student''] = (None, [u]) \<and>
        u_role u = Student \<and> \<not> u_isVerified u)"
proof -
  let ?b1 = "[''email'' \<mapsto> JStr ''a@b.co'', ''role'' \<mapsto> JStr ''admin'']"
  let ?b2 = "[''email'' \<mapsto> JStr ''a@b.co'', ''role'' \<mapsto> JStr ''student'']"
  have h1: "truthyOpt (?b1 ''role'') \<and> ?b1 ''role'' \<noteq> Some (JStr ''student'')" by simp
  from register_student_only [where body = ?b1 and valid = True and valid' = True and newId = 4 and
      hashedOTP = "JStr ''h''" and otpExpiry = "JNum 15" and us = "[]", THEN conjunct1, rule_format, OF h1]
  obtain msg where r1: "register True True 4 (JStr ''h'') (JNum 15) [] ?b1 = (Some (ErrorResponse msg 400), [])"
    by blast
  have e1: "register True True 4 (JStr ''h'') (JNum 15) [] ?b1 =
          (Some (ErrorResponse ''Only students can register directly'' 400), [])"
    by (simp add: register_def)
  obtain e us' where r2: "register True True 4 (JStr ''h'') (JNum 15) [] ?b2 = (e, us')"
    by (cases "register True True 4 (JStr ''h'') (JNum 15) [] ?b2")
  have e2: "e = None \<and> length us' = 1"
    using r2 by (auto simp: register_def create_def findById_def Let_def)
  from register_student_only [where body = ?b2 and valid = True and valid' = True and newId = 4 and
      hashedOTP = "JStr ''h''" and otpExpiry = "JNum 15" and us = "[]" and e = e and us' = us',
      THEN conjunct2, rule_format, OF r2] e2
  obtain u where "us' = [u]" and "u_role u = Student" and "\<not> u_isVerified u" by auto
  with r2 e2 h1 e1 show ?thesis by auto
qed

end
